theory Spec2Isabelle
  imports Complex_Main "HOL-Library.Word" "HOL-Library.List_Lexorder" "HOL-Library.Char_ord"
begin

section \<open>Values of the Go programs\<close>

text \<open>
  The chaincodes are Go programs for 64-bit platforms: \<open>int\<close> is a 64-bit two's
  complement integer (\<open>+\<close> wraps around, \<open>sint\<close> reads the signed value).
  A \<open>float64\<close> is either a finite number, identified here with the rational it
  denotes, or one of the three special values. No arithmetic on \<open>float64\<close> occurs in
  the contracts: values are only stored and read back.
\<close>

type_synonym go_int = "64 word"

datatype float64 = Finite rat | PosInf | NegInf | NaN

subsection \<open>Strings and UTF-8\<close>

text \<open>
  A Go string is a sequence of bytes. \<open>encoding/json\<close> writes and reads strings as
  UTF-8: a byte that does not begin a well-formed UTF-8 sequence is replaced by the
  encoding of U+FFFD, both when \<open>json.Marshal\<close> writes a string and when
  \<open>json.Unmarshal\<close> reads one. \<open>rune_size\<close> is the length of the well-formed
  sequence at the head of a string (0 if there is none), by the table of
  \<open>utf8.DecodeRuneInString\<close>: no overlong forms, no surrogates, nothing above
  U+10FFFF. \<open>coerce_utf8\<close> is the string that \<open>encoding/json\<close> keeps, and
  \<open>valid_utf8\<close> is \<open>utf8.ValidString\<close>.
\<close>

definition continuation :: "char \<Rightarrow> bool" where
  "continuation c \<longleftrightarrow> 0x80 \<le> (of_char c :: nat) \<and> (of_char c :: nat) \<le> 0xBF"

definition second_byte_ok :: "nat \<Rightarrow> nat \<Rightarrow> bool" where
  "second_byte_ok b b1 \<longleftrightarrow>
     (if b = 0xE0 then 0xA0 \<le> b1 \<and> b1 \<le> 0xBF
      else if b = 0xED then 0x80 \<le> b1 \<and> b1 \<le> 0x9F
      else if b = 0xF0 then 0x90 \<le> b1 \<and> b1 \<le> 0xBF
      else if b = 0xF4 then 0x80 \<le> b1 \<and> b1 \<le> 0x8F
      else 0x80 \<le> b1 \<and> b1 \<le> 0xBF)"

definition lead_size :: "nat \<Rightarrow> nat" where
  "lead_size b =
     (if b < 0x80 then 1
      else if 0xC2 \<le> b \<and> b \<le> 0xDF then 2
      else if 0xE0 \<le> b \<and> b \<le> 0xEF then 3
      else if 0xF0 \<le> b \<and> b \<le> 0xF4 then 4
      else 0)"

definition rune_size :: "string \<Rightarrow> nat" where
  "rune_size s =
     (case s of
        [] \<Rightarrow> 0
      | c # cs \<Rightarrow>
          (let n = lead_size (of_char c)
           in if n \<le> 1 then n
              else if n - 1 \<le> length cs
                      \<and> second_byte_ok (of_char c) (of_char (hd cs))
                      \<and> list_all continuation (take (n - 1) cs)
                   then n else 0))"

definition RuneError :: string where
  "RuneError = [CHR 0xEF, CHR 0xBF, CHR 0xBD]"

function coerce_utf8 :: "string \<Rightarrow> string" where
  "coerce_utf8 [] = []"
| "coerce_utf8 (c # cs) =
     (if rune_size (c # cs) = 0 then RuneError @ coerce_utf8 cs
      else take (rune_size (c # cs)) (c # cs) @ coerce_utf8 (drop (rune_size (c # cs)) (c # cs)))"
  by pat_completeness auto
termination
  by (relation "measure length") auto

function valid_utf8 :: "string \<Rightarrow> bool" where
  "valid_utf8 [] = True"
| "valid_utf8 (c # cs) =
     (if rune_size (c # cs) = 0 then False
      else valid_utf8 (drop (rune_size (c # cs)) (c # cs)))"
  by pat_completeness auto
termination
  by (relation "measure length") auto

declare coerce_utf8.simps(2) [simp del]

declare valid_utf8.simps(2) [simp del]

subsection \<open>JSON documents\<close>

text \<open>
  Every value the contracts put into the world state is the output of \<open>json.Marshal\<close>,
  and every value they read goes through \<open>json.Unmarshal\<close>. The stored byte string is
  kept as the JSON document it encodes: the text layer of \<open>encoding/json\<close> (escaping,
  number formatting, white space) is library code and is not part of the model. A
  number is the rational its literal denotes, a string the bytes its literal denotes.
\<close>

datatype json =
    JNull
  | JBool bool
  | JNum rat
  | JString string
  | JArray "json list"
  | JObject "(string \<times> json) list"

type_synonym bytes = json

subsection \<open>Errors\<close>

text \<open>
  Go errors of the contracts are messages built with \<open>fmt.Errorf\<close>; each message
  format is one constructor, its \<open>%s\<close> argument the constructor's argument:
  \<^item> \<open>StubError m\<close>: an error \<open>m\<close> returned by the ledger stub, passed on as it is;
  \<^item> \<open>ReadFailed e\<close>: "failed to read from world state: e", wrapping the error \<open>e\<close>;
  \<^item> \<open>AlreadyExists id\<close>: "the loan application id already exists" (and the same
    message of the other contracts);
  \<^item> \<open>DoesNotExist id\<close>: "the loan application id does not exist" (and the same
    message of the other contracts);
  \<^item> \<open>AlreadyEvolved id\<close>: "Pokemon id is already evolved";
  \<^item> \<open>UnsupportedValue\<close>: the error of \<open>json.Marshal\<close> on a NaN or an infinity;
  \<^item> \<open>UnmarshalTypeError\<close>: the error of \<open>json.Unmarshal\<close> on a document that
    does not have the shape of the target struct.
\<close>

datatype error =
    StubError string
  | ReadFailed error
  | AlreadyExists string
  | DoesNotExist string
  | AlreadyEvolved string
  | UnsupportedValue
  | UnmarshalTypeError

subsection \<open>Encoding and decoding of field values\<close>

definition encode_string :: "string \<Rightarrow> json" where
  "encode_string s = JString (coerce_utf8 s)"

definition encode_int :: "go_int \<Rightarrow> json" where
  "encode_int n = JNum (of_int (sint n))"

definition encode_float :: "float64 \<Rightarrow> error + json" where
  "encode_float f = (case f of Finite q \<Rightarrow> Inr (JNum q) | _ \<Rightarrow> Inl UnsupportedValue)"

text \<open>
  Decoding a member's value into a struct field: \<open>null\<close> leaves the field as it is, a
  value of the field's JSON type sets it, anything else is a type error. A string is
  read as UTF-8; an integer field takes a number without fractional part in the range
  of \<open>int\<close>.
\<close>

definition decode_string :: "json \<Rightarrow> (string \<Rightarrow> 'r) \<Rightarrow> 'r \<Rightarrow> error + 'r" where
  "decode_string v assign r =
     (case v of
        JString s \<Rightarrow> Inr (assign (coerce_utf8 s))
      | JNull \<Rightarrow> Inr r
      | _ \<Rightarrow> Inl UnmarshalTypeError)"

definition decode_bool :: "json \<Rightarrow> (bool \<Rightarrow> 'r) \<Rightarrow> 'r \<Rightarrow> error + 'r" where
  "decode_bool v assign r =
     (case v of JBool b \<Rightarrow> Inr (assign b) | JNull \<Rightarrow> Inr r | _ \<Rightarrow> Inl UnmarshalTypeError)"

definition decode_int :: "json \<Rightarrow> (go_int \<Rightarrow> 'r) \<Rightarrow> 'r \<Rightarrow> error + 'r" where
  "decode_int v assign r =
     (case v of
        JNum q \<Rightarrow>
          (if of_int \<lfloor>q\<rfloor> = q \<and> - (2 ^ 63) \<le> \<lfloor>q\<rfloor> \<and> \<lfloor>q\<rfloor> < 2 ^ 63
           then Inr (assign (word_of_int \<lfloor>q\<rfloor>)) else Inl UnmarshalTypeError)
      | JNull \<Rightarrow> Inr r
      | _ \<Rightarrow> Inl UnmarshalTypeError)"

definition decode_float :: "json \<Rightarrow> (float64 \<Rightarrow> 'r) \<Rightarrow> 'r \<Rightarrow> error + 'r" where
  "decode_float v assign r =
     (case v of JNum q \<Rightarrow> Inr (assign (Finite q)) | JNull \<Rightarrow> Inr r | _ \<Rightarrow> Inl UnmarshalTypeError)"

text \<open>
  \<open>json.Unmarshal\<close> into a struct: the members of the object are taken in order, each
  by the field setter of the struct (\<open>member\<close>), and the first type error is the
  result. A \<open>null\<close> document leaves the zero struct; any other document that is not
  an object is a type error. Member names are compared exactly.
\<close>

fun decode_members :: "(string \<Rightarrow> json \<Rightarrow> 'r \<Rightarrow> error + 'r) \<Rightarrow> (string \<times> json) list \<Rightarrow> 'r \<Rightarrow> error + 'r" where
  "decode_members member [] r = Inr r"
| "decode_members member ((k, v) # kvs) r =
     (case member k v r of Inl err \<Rightarrow> Inl err | Inr r' \<Rightarrow> decode_members member kvs r')"

definition decode_struct :: "(string \<Rightarrow> json \<Rightarrow> 'r \<Rightarrow> error + 'r) \<Rightarrow> 'r \<Rightarrow> bytes \<Rightarrow> error + 'r" where
  "decode_struct member zero data =
     (case data of
        JObject kvs \<Rightarrow> decode_members member kvs zero
      | JNull \<Rightarrow> Inr zero
      | _ \<Rightarrow> Inl UnmarshalTypeError)"

section \<open>The ledger stub\<close>

text \<open>
  Modelled from the spec: the transaction context and its stub (\<open>GetState\<close>,
  \<open>PutState\<close>, \<open>DelState\<close>, \<open>GetStateByRange\<close>, \<open>GetHistoryForKey\<close>
  and the iterators) belong to the ledger platform and are not in the repository. The
  spec describes them as a world state mapping a key to its live value, scanned in
  the lexicographic order of the keys, and for each key an append-only revision
  sequence, earliest first, of the values written and of the deletions, each with the
  identifier of its transaction. A call of the stub may fail (backing storage
  unreachable, I/O fault, a key that the platform refuses): \<open>fault\<close> gives the
  error message of a failing call.
\<close>

datatype stub_call =
    GetStateCall string
  | PutStateCall string
  | DelStateCall string
  | GetStateByRangeCall
  | GetHistoryForKeyCall string
  | StateNextCall string
  | HistoryNextCall string

record KeyModification =
  TxId :: string
  Value :: "bytes option"
  IsDelete :: bool

record stub =
  TxID :: string
  world :: "(string \<times> bytes) list"
  history :: "string \<Rightarrow> KeyModification list"
  fault :: "stub_call \<Rightarrow> string option"

fun upsert :: "string \<Rightarrow> bytes \<Rightarrow> (string \<times> bytes) list \<Rightarrow> (string \<times> bytes) list" where
  "upsert k v [] = [(k, v)]"
| "upsert k v ((k', v') # kvs) =
     (if k = k' then (k, v) # kvs
      else if k < k' then (k, v) # (k', v') # kvs
      else (k', v') # upsert k v kvs)"

definition remove :: "string \<Rightarrow> (string \<times> bytes) list \<Rightarrow> (string \<times> bytes) list" where
  "remove k kvs = filter (\<lambda>kv. fst kv \<noteq> k) kvs"

text \<open>\<open>GetState\<close> returns \<open>nil\<close> (\<open>None\<close>) for a key without live value.\<close>

definition GetState :: "stub \<Rightarrow> string \<Rightarrow> error + bytes option" where
  "GetState ctx key =
     (case fault ctx (GetStateCall key) of
        Some m \<Rightarrow> Inl (StubError m)
      | None \<Rightarrow> Inr (map_of (world ctx) key))"

definition PutState :: "stub \<Rightarrow> string \<Rightarrow> bytes \<Rightarrow> (error + unit) \<times> stub" where
  "PutState ctx key data =
     (case fault ctx (PutStateCall key) of
        Some m \<Rightarrow> (Inl (StubError m), ctx)
      | None \<Rightarrow>
          (Inr (),
           ctx\<lparr>world := upsert key data (world ctx),
               history := (history ctx)
                 (key := history ctx key @ [\<lparr>TxId = TxID ctx, Value = Some data, IsDelete = False\<rparr>])\<rparr>))"

definition DelState :: "stub \<Rightarrow> string \<Rightarrow> (error + unit) \<times> stub" where
  "DelState ctx key =
     (case fault ctx (DelStateCall key) of
        Some m \<Rightarrow> (Inl (StubError m), ctx)
      | None \<Rightarrow>
          (Inr (),
           ctx\<lparr>world := remove key (world ctx),
               history := (history ctx)
                 (key := history ctx key @ [\<lparr>TxId = TxID ctx, Value = None, IsDelete = True\<rparr>])\<rparr>))"

text \<open>
  \<open>GetStateByRange("", "")\<close> opens an iterator over all live entries, in key order;
  \<open>GetHistoryForKey\<close> one over the revisions of a key. An iterator is the list of
  the entries still to come: \<open>HasNext\<close> is that the list is not empty, and \<open>Next\<close>
  hands out its head, or fails; the contracts call \<open>Next\<close> only after \<open>HasNext\<close>, on
  a list that is not empty.
\<close>

definition GetStateByRange :: "stub \<Rightarrow> error + (string \<times> bytes) list" where
  "GetStateByRange ctx =
     (case fault ctx GetStateByRangeCall of
        Some m \<Rightarrow> Inl (StubError m)
      | None \<Rightarrow> Inr (world ctx))"

definition GetHistoryForKey :: "stub \<Rightarrow> string \<Rightarrow> error + KeyModification list" where
  "GetHistoryForKey ctx key =
     (case fault ctx (GetHistoryForKeyCall key) of
        Some m \<Rightarrow> Inl (StubError m)
      | None \<Rightarrow> Inr (history ctx key))"

definition StateIterator_Next :: "stub \<Rightarrow> (string \<times> bytes) list \<Rightarrow> error + (string \<times> bytes)" where
  "StateIterator_Next ctx resultsIterator =
     (case fault ctx (StateNextCall (fst (hd resultsIterator))) of
        Some m \<Rightarrow> Inl (StubError m)
      | None \<Rightarrow> Inr (hd resultsIterator))"

definition HistoryIterator_Next :: "stub \<Rightarrow> string \<Rightarrow> KeyModification list \<Rightarrow> error + KeyModification" where
  "HistoryIterator_Next ctx key resultsIterator =
     (case fault ctx (HistoryNextCall key) of
        Some m \<Rightarrow> Inl (StubError m)
      | None \<Rightarrow> Inr (hd resultsIterator))"

text \<open>The platform starts each transaction with the transaction's identifier.\<close>

definition begin_tx :: "string \<Rightarrow> stub \<Rightarrow> stub" where
  "begin_tx txid ctx = ctx\<lparr>TxID := txid\<rparr>"

section \<open>The loan contract (bankcontract/main.go)\<close>

record LoanApplication =
  ID :: string
  Applicant :: string
  Amount :: go_int
  Term :: go_int
  InterestRate :: float64
  Status :: string

definition Marshal_LoanApplication :: "LoanApplication \<Rightarrow> error + bytes" where
  "Marshal_LoanApplication loan =
     (case encode_float (InterestRate loan) of
        Inl err \<Rightarrow> Inl err
      | Inr rate \<Rightarrow>
          Inr (JObject
            [(''id'', encode_string (ID loan)),
             (''applicant'', encode_string (Applicant loan)),
             (''amount'', encode_int (Amount loan)),
             (''term'', encode_int (Term loan)),
             (''interestRate'', rate),
             (''status'', encode_string (Status loan))]))"

definition LoanApplication_zero :: LoanApplication where
  "LoanApplication_zero =
     \<lparr>ID = [], Applicant = [], Amount = 0, Term = 0, InterestRate = Finite 0, Status = []\<rparr>"

definition LoanApplication_member :: "string \<Rightarrow> json \<Rightarrow> LoanApplication \<Rightarrow> error + LoanApplication" where
  "LoanApplication_member k v loan =
     (if k = ''id'' then decode_string v (\<lambda>s. loan\<lparr>ID := s\<rparr>) loan
      else if k = ''applicant'' then decode_string v (\<lambda>s. loan\<lparr>Applicant := s\<rparr>) loan
      else if k = ''amount'' then decode_int v (\<lambda>n. loan\<lparr>Amount := n\<rparr>) loan
      else if k = ''term'' then decode_int v (\<lambda>n. loan\<lparr>Term := n\<rparr>) loan
      else if k = ''interestRate'' then decode_float v (\<lambda>f. loan\<lparr>InterestRate := f\<rparr>) loan
      else if k = ''status'' then decode_string v (\<lambda>s. loan\<lparr>Status := s\<rparr>) loan
      else Inr loan)"

definition Unmarshal_LoanApplication :: "bytes \<Rightarrow> error + LoanApplication" where
  "Unmarshal_LoanApplication data = decode_struct LoanApplication_member LoanApplication_zero data"

definition LoanExists :: "stub \<Rightarrow> string \<Rightarrow> (error + bool) \<times> stub" where
  "LoanExists ctx id' =
     (case GetState ctx id' of
        Inl err \<Rightarrow> (Inl err, ctx)
      | Inr loanJSON \<Rightarrow> (Inr (loanJSON \<noteq> None), ctx))"

definition CreateLoanApplication ::
  "stub \<Rightarrow> string \<Rightarrow> string \<Rightarrow> go_int \<Rightarrow> go_int \<Rightarrow> float64 \<Rightarrow> (error + unit) \<times> stub" where
  "CreateLoanApplication ctx id' applicant amount term interestRate =
     (case LoanExists ctx id' of
        (Inl err, ctx') \<Rightarrow> (Inl err, ctx')
      | (Inr found, ctx') \<Rightarrow>
          (if found then (Inl (AlreadyExists id'), ctx')
           else
             (let loan = \<lparr>ID = id', Applicant = applicant, Amount = amount, Term = term,
                          InterestRate = interestRate, Status = ''Pending''\<rparr>
              in (case Marshal_LoanApplication loan of
                    Inl err \<Rightarrow> (Inl err, ctx')
                  | Inr loanJSON \<Rightarrow> PutState ctx' id' loanJSON))))"

definition ReadLoanApplication :: "stub \<Rightarrow> string \<Rightarrow> (error + LoanApplication) \<times> stub" where
  "ReadLoanApplication ctx id' =
     (case GetState ctx id' of
        Inl err \<Rightarrow> (Inl (ReadFailed err), ctx)
      | Inr None \<Rightarrow> (Inl (DoesNotExist id'), ctx)
      | Inr (Some loanJSON) \<Rightarrow>
          (case Unmarshal_LoanApplication loanJSON of
             Inl err \<Rightarrow> (Inl err, ctx)
           | Inr loan \<Rightarrow> (Inr loan, ctx)))"

definition UpdateLoanStatus :: "stub \<Rightarrow> string \<Rightarrow> string \<Rightarrow> (error + unit) \<times> stub" where
  "UpdateLoanStatus ctx id' newStatus =
     (case ReadLoanApplication ctx id' of
        (Inl err, ctx') \<Rightarrow> (Inl err, ctx')
      | (Inr loan, ctx') \<Rightarrow>
          (case Marshal_LoanApplication (loan\<lparr>Status := newStatus\<rparr>) of
             Inl err \<Rightarrow> (Inl err, ctx')
           | Inr loanJSON \<Rightarrow> PutState ctx' id' loanJSON))"

definition DeleteLoanApplication :: "stub \<Rightarrow> string \<Rightarrow> (error + unit) \<times> stub" where
  "DeleteLoanApplication ctx id' =
     (case LoanExists ctx id' of
        (Inl err, ctx') \<Rightarrow> (Inl err, ctx')
      | (Inr found, ctx') \<Rightarrow>
          (if \<not> found then (Inl (DoesNotExist id'), ctx')
           else DelState ctx' id'))"

fun collect_loans :: "stub \<Rightarrow> (string \<times> bytes) list \<Rightarrow> LoanApplication list \<Rightarrow> error + LoanApplication list" where
  "collect_loans ctx [] loans = Inr loans"
| "collect_loans ctx (entry # rest) loans =
     (case StateIterator_Next ctx (entry # rest) of
        Inl err \<Rightarrow> Inl err
      | Inr queryResponse \<Rightarrow>
          (case Unmarshal_LoanApplication (snd queryResponse) of
             Inl err \<Rightarrow> Inl err
           | Inr loan \<Rightarrow> collect_loans ctx rest (loans @ [loan])))"

definition GetAllLoanApplications :: "stub \<Rightarrow> (error + LoanApplication list) \<times> stub" where
  "GetAllLoanApplications ctx =
     (case GetStateByRange ctx of
        Inl err \<Rightarrow> (Inl err, ctx)
      | Inr resultsIterator \<Rightarrow> (collect_loans ctx resultsIterator [], ctx))"

section \<open>The Pokemon contract\<close>

record Pokemon =
  ID :: string
  Name :: string
  Type :: string
  Power :: go_int
  Trainer :: string
  Evolved :: bool
  Location :: string

definition Marshal_Pokemon :: "Pokemon \<Rightarrow> error + bytes" where
  "Marshal_Pokemon p =
     Inr (JObject
       [(''id'', encode_string (Pokemon.ID p)),
        (''name'', encode_string (Name p)),
        (''type'', encode_string (Type p)),
        (''power'', encode_int (Power p)),
        (''trainer'', encode_string (Trainer p)),
        (''evolved'', JBool (Evolved p)),
        (''location'', encode_string (Location p))])"

definition Pokemon_zero :: Pokemon where
  "Pokemon_zero =
     \<lparr>Pokemon.ID = [], Name = [], Type = [], Power = 0, Trainer = [], Evolved = False, Location = []\<rparr>"

definition Pokemon_member :: "string \<Rightarrow> json \<Rightarrow> Pokemon \<Rightarrow> error + Pokemon" where
  "Pokemon_member k v p =
     (if k = ''id'' then decode_string v (\<lambda>s. p\<lparr>Pokemon.ID := s\<rparr>) p
      else if k = ''name'' then decode_string v (\<lambda>s. p\<lparr>Name := s\<rparr>) p
      else if k = ''type'' then decode_string v (\<lambda>s. p\<lparr>Type := s\<rparr>) p
      else if k = ''power'' then decode_int v (\<lambda>n. p\<lparr>Power := n\<rparr>) p
      else if k = ''trainer'' then decode_string v (\<lambda>s. p\<lparr>Trainer := s\<rparr>) p
      else if k = ''evolved'' then decode_bool v (\<lambda>b. p\<lparr>Evolved := b\<rparr>) p
      else if k = ''location'' then decode_string v (\<lambda>s. p\<lparr>Location := s\<rparr>) p
      else Inr p)"

definition Unmarshal_Pokemon :: "bytes \<Rightarrow> error + Pokemon" where
  "Unmarshal_Pokemon data = decode_struct Pokemon_member Pokemon_zero data"

definition PokemonExists :: "stub \<Rightarrow> string \<Rightarrow> (error + bool) \<times> stub" where
  "PokemonExists ctx id' =
     (case GetState ctx id' of
        Inl err \<Rightarrow> (Inl err, ctx)
      | Inr pokeJSON \<Rightarrow> (Inr (pokeJSON \<noteq> None), ctx))"

definition CreatePokemon ::
  "stub \<Rightarrow> string \<Rightarrow> string \<Rightarrow> string \<Rightarrow> string \<Rightarrow> string \<Rightarrow> go_int \<Rightarrow> (error + unit) \<times> stub" where
  "CreatePokemon ctx id' name ptype trainer location power' =
     (case PokemonExists ctx id' of
        (Inl err, ctx') \<Rightarrow> (Inl err, ctx')
      | (Inr found, ctx') \<Rightarrow>
          (if found then (Inl (AlreadyExists id'), ctx')
           else
             (let p = \<lparr>Pokemon.ID = id', Name = name, Type = ptype, Power = power',
                       Trainer = trainer, Evolved = False, Location = location\<rparr>
              in (case Marshal_Pokemon p of
                    Inl err \<Rightarrow> (Inl err, ctx')
                  | Inr pokeJSON \<Rightarrow> PutState ctx' id' pokeJSON))))"

definition ReadPokemon :: "stub \<Rightarrow> string \<Rightarrow> (error + Pokemon) \<times> stub" where
  "ReadPokemon ctx id' =
     (case GetState ctx id' of
        Inl err \<Rightarrow> (Inl (ReadFailed err), ctx)
      | Inr None \<Rightarrow> (Inl (DoesNotExist id'), ctx)
      | Inr (Some pokeJSON) \<Rightarrow>
          (case Unmarshal_Pokemon pokeJSON of
             Inl err \<Rightarrow> (Inl err, ctx)
           | Inr poke \<Rightarrow> (Inr poke, ctx)))"

definition UpdatePokemon :: "stub \<Rightarrow> string \<Rightarrow> string \<Rightarrow> go_int \<Rightarrow> (error + unit) \<times> stub" where
  "UpdatePokemon ctx id' trainer power' =
     (case ReadPokemon ctx id' of
        (Inl err, ctx') \<Rightarrow> (Inl err, ctx')
      | (Inr p, ctx') \<Rightarrow>
          (case Marshal_Pokemon (p\<lparr>Power := power', Trainer := trainer\<rparr>) of
             Inl err \<Rightarrow> (Inl err, ctx')
           | Inr pokeJSON \<Rightarrow> PutState ctx' id' pokeJSON))"

definition EvolvePokemon :: "stub \<Rightarrow> string \<Rightarrow> (error + unit) \<times> stub" where
  "EvolvePokemon ctx id' =
     (case ReadPokemon ctx id' of
        (Inl err, ctx') \<Rightarrow> (Inl err, ctx')
      | (Inr p, ctx') \<Rightarrow>
          (if Evolved p then (Inl (AlreadyEvolved id'), ctx')
           else
             (case Marshal_Pokemon (p\<lparr>Evolved := True, Power := Power p + 30\<rparr>) of
                Inl err \<Rightarrow> (Inl err, ctx')
              | Inr pokeJSON \<Rightarrow> PutState ctx' id' pokeJSON)))"

definition DeletePokemon :: "stub \<Rightarrow> string \<Rightarrow> (error + unit) \<times> stub" where
  "DeletePokemon ctx id' =
     (case PokemonExists ctx id' of
        (Inl err, ctx') \<Rightarrow> (Inl err, ctx')
      | (Inr found, ctx') \<Rightarrow>
          (if \<not> found then (Inl (DoesNotExist id'), ctx')
           else DelState ctx' id'))"

text \<open>
  \<open>GetHistory\<close> returns one string for each revision, built by one of two formats.
  As for the errors, a string is kept as its format and the arguments of the format:
  \<^item> \<open>Deleted_at_TxID t\<close>: "Deleted at TxID: t";
  \<^item> \<open>TxID_Data t v\<close>: "TxID: t, Data: v", where \<open>v\<close> is the revision's value.
\<close>

datatype history_line =
    Deleted_at_TxID string
  | TxID_Data string "bytes option"

fun collect_history :: "stub \<Rightarrow> string \<Rightarrow> KeyModification list \<Rightarrow> history_line list \<Rightarrow> error + history_line list" where
  "collect_history ctx id' [] history' = Inr history'"
| "collect_history ctx id' (entry # rest) history' =
     (case HistoryIterator_Next ctx id' (entry # rest) of
        Inl err \<Rightarrow> Inl err
      | Inr resp \<Rightarrow>
          (let tx = (if IsDelete resp then Deleted_at_TxID (TxId resp)
                     else TxID_Data (TxId resp) (Value resp))
           in collect_history ctx id' rest (history' @ [tx])))"

definition GetHistory :: "stub \<Rightarrow> string \<Rightarrow> (error + history_line list) \<times> stub" where
  "GetHistory ctx id' =
     (case GetHistoryForKey ctx id' of
        Inl err \<Rightarrow> (Inl err, ctx)
      | Inr resultsIterator \<Rightarrow> (collect_history ctx id' resultsIterator [], ctx))"

section \<open>The identity contract (afrazcontract/identitycontract.go)\<close>

record Identity =
  ID :: string
  Title :: string
  FirstName :: string
  MiddleName :: string
  LastName :: string
  NameOnCard :: string
  ElevenCharName :: string
  CNIC :: string
  CNICIssueDate :: string
  CNICExpiryDate :: string
  OldNIC :: string
  PassportNumber :: string
  Nationality :: string
  PassportIssueDate :: string
  PassportExpiryDate :: string
  DateOfBirth :: string
  PlaceOfBirth :: string
  Gender :: string
  FatherOrHusbandName :: string
  MotherMaidenName :: string
  MaritalStatus :: string
  Education :: string
  PoliticalAffiliation :: string
  TaxPayer :: string
  Address :: string
  Landline :: string
  PostalCode :: string
  NoOfDependents :: string
  NTN :: string
  ResidenceType :: string
  ApartmentOrHouse :: string
  ResidenceNature :: string
  MobileNumber :: string

definition Marshal_Identity :: "Identity \<Rightarrow> error + bytes" where
  "Marshal_Identity identity =
     Inr (JObject
       [(''id'', encode_string (Identity.ID identity)),
        (''title'', encode_string (Title identity)),
        (''firstName'', encode_string (FirstName identity)),
        (''middleName'', encode_string (MiddleName identity)),
        (''lastName'', encode_string (LastName identity)),
        (''nameOnCard'', encode_string (NameOnCard identity)),
        (''elevenCharName'', encode_string (ElevenCharName identity)),
        (''cnic'', encode_string (CNIC identity)),
        (''cnicIssueDate'', encode_string (CNICIssueDate identity)),
        (''cnicExpiryDate'', encode_string (CNICExpiryDate identity)),
        (''oldNIC'', encode_string (OldNIC identity)),
        (''passportNumber'', encode_string (PassportNumber identity)),
        (''nationality'', encode_string (Nationality identity)),
        (''passportIssueDate'', encode_string (PassportIssueDate identity)),
        (''passportExpiryDate'', encode_string (PassportExpiryDate identity)),
        (''dateOfBirth'', encode_string (DateOfBirth identity)),
        (''placeOfBirth'', encode_string (PlaceOfBirth identity)),
        (''gender'', encode_string (Gender identity)),
        (''fatherOrHusbandName'', encode_string (FatherOrHusbandName identity)),
        (''motherMaidenName'', encode_string (MotherMaidenName identity)),
        (''maritalStatus'', encode_string (MaritalStatus identity)),
        (''education'', encode_string (Education identity)),
        (''politicalAffiliation'', encode_string (PoliticalAffiliation identity)),
        (''taxPayer'', encode_string (TaxPayer identity)),
        (''address'', encode_string (Address identity)),
        (''landline'', encode_string (Landline identity)),
        (''postalCode'', encode_string (PostalCode identity)),
        (''noOfDependents'', encode_string (NoOfDependents identity)),
        (''ntn'', encode_string (NTN identity)),
        (''residenceType'', encode_string (ResidenceType identity)),
        (''apartmentOrHouse'', encode_string (ApartmentOrHouse identity)),
        (''residenceNature'', encode_string (ResidenceNature identity)),
        (''mobileNumber'', encode_string (MobileNumber identity))])"

definition Identity_zero :: Identity where
  "Identity_zero =
     \<lparr>Identity.ID = [], Title = [], FirstName = [], MiddleName = [], LastName = [], NameOnCard
       = [], ElevenCharName = [], CNIC = [], CNICIssueDate = [], CNICExpiryDate = [], OldNIC =
       [], PassportNumber = [], Nationality = [], PassportIssueDate = [], PassportExpiryDate =
       [], DateOfBirth = [], PlaceOfBirth = [], Gender = [], FatherOrHusbandName = [],
       MotherMaidenName = [], MaritalStatus = [], Education = [], PoliticalAffiliation = [],
       TaxPayer = [], Address = [], Landline = [], PostalCode = [], NoOfDependents = [], NTN =
       [], ResidenceType = [], ApartmentOrHouse = [], ResidenceNature = [], MobileNumber = []\<rparr>"

definition Identity_member :: "string \<Rightarrow> json \<Rightarrow> Identity \<Rightarrow> error + Identity" where
  "Identity_member k v identity =
     (if k = ''id'' then decode_string v (\<lambda>s. identity\<lparr>Identity.ID := s\<rparr>) identity
      else if k = ''title'' then decode_string v (\<lambda>s. identity\<lparr>Title := s\<rparr>) identity
      else if k = ''firstName'' then decode_string v (\<lambda>s. identity\<lparr>FirstName := s\<rparr>) identity
      else if k = ''middleName'' then decode_string v (\<lambda>s. identity\<lparr>MiddleName := s\<rparr>) identity
      else if k = ''lastName'' then decode_string v (\<lambda>s. identity\<lparr>LastName := s\<rparr>) identity
      else if k = ''nameOnCard'' then decode_string v (\<lambda>s. identity\<lparr>NameOnCard := s\<rparr>) identity
      else if k = ''elevenCharName'' then decode_string v (\<lambda>s. identity\<lparr>ElevenCharName := s\<rparr>) identity
      else if k = ''cnic'' then decode_string v (\<lambda>s. identity\<lparr>CNIC := s\<rparr>) identity
      else if k = ''cnicIssueDate'' then decode_string v (\<lambda>s. identity\<lparr>CNICIssueDate := s\<rparr>) identity
      else if k = ''cnicExpiryDate'' then decode_string v (\<lambda>s. identity\<lparr>CNICExpiryDate := s\<rparr>) identity
      else if k = ''oldNIC'' then decode_string v (\<lambda>s. identity\<lparr>OldNIC := s\<rparr>) identity
      else if k = ''passportNumber'' then decode_string v (\<lambda>s. identity\<lparr>PassportNumber := s\<rparr>) identity
      else if k = ''nationality'' then decode_string v (\<lambda>s. identity\<lparr>Nationality := s\<rparr>) identity
      else if k = ''passportIssueDate'' then decode_string v (\<lambda>s. identity\<lparr>PassportIssueDate := s\<rparr>) identity
      else if k = ''passportExpiryDate'' then decode_string v (\<lambda>s. identity\<lparr>PassportExpiryDate := s\<rparr>) identity
      else if k = ''dateOfBirth'' then decode_string v (\<lambda>s. identity\<lparr>DateOfBirth := s\<rparr>) identity
      else if k = ''placeOfBirth'' then decode_string v (\<lambda>s. identity\<lparr>PlaceOfBirth := s\<rparr>) identity
      else if k = ''gender'' then decode_string v (\<lambda>s. identity\<lparr>Gender := s\<rparr>) identity
      else if k = ''fatherOrHusbandName'' then decode_string v (\<lambda>s. identity\<lparr>FatherOrHusbandName := s\<rparr>) identity
      else if k = ''motherMaidenName'' then decode_string v (\<lambda>s. identity\<lparr>MotherMaidenName := s\<rparr>) identity
      else if k = ''maritalStatus'' then decode_string v (\<lambda>s. identity\<lparr>MaritalStatus := s\<rparr>) identity
      else if k = ''education'' then decode_string v (\<lambda>s. identity\<lparr>Education := s\<rparr>) identity
      else if k = ''politicalAffiliation'' then decode_string v (\<lambda>s. identity\<lparr>PoliticalAffiliation := s\<rparr>) identity
      else if k = ''taxPayer'' then decode_string v (\<lambda>s. identity\<lparr>TaxPayer := s\<rparr>) identity
      else if k = ''address'' then decode_string v (\<lambda>s. identity\<lparr>Address := s\<rparr>) identity
      else if k = ''landline'' then decode_string v (\<lambda>s. identity\<lparr>Landline := s\<rparr>) identity
      else if k = ''postalCode'' then decode_string v (\<lambda>s. identity\<lparr>PostalCode := s\<rparr>) identity
      else if k = ''noOfDependents'' then decode_string v (\<lambda>s. identity\<lparr>NoOfDependents := s\<rparr>) identity
      else if k = ''ntn'' then decode_string v (\<lambda>s. identity\<lparr>NTN := s\<rparr>) identity
      else if k = ''residenceType'' then decode_string v (\<lambda>s. identity\<lparr>ResidenceType := s\<rparr>) identity
      else if k = ''apartmentOrHouse'' then decode_string v (\<lambda>s. identity\<lparr>ApartmentOrHouse := s\<rparr>) identity
      else if k = ''residenceNature'' then decode_string v (\<lambda>s. identity\<lparr>ResidenceNature := s\<rparr>) identity
      else if k = ''mobileNumber'' then decode_string v (\<lambda>s. identity\<lparr>MobileNumber := s\<rparr>) identity
      else Inr identity)"

definition Unmarshal_Identity :: "bytes \<Rightarrow> error + Identity" where
  "Unmarshal_Identity data = decode_struct Identity_member Identity_zero data"

definition IdentityExists :: "stub \<Rightarrow> string \<Rightarrow> (error + bool) \<times> stub" where
  "IdentityExists ctx id' =
     (case GetState ctx id' of
        Inl err \<Rightarrow> (Inl (ReadFailed err), ctx)
      | Inr identityJSON \<Rightarrow> (Inr (identityJSON \<noteq> None), ctx))"

text \<open>The fields that \<open>CreateIdentity\<close> does not name have the zero value, the empty string.\<close>

definition CreateIdentity ::
  "stub \<Rightarrow> string \<Rightarrow> string \<Rightarrow> string \<Rightarrow> string \<Rightarrow> string \<Rightarrow> string \<Rightarrow> string \<Rightarrow> string \<Rightarrow> (error + unit) \<times> stub" where
  "CreateIdentity ctx id' title firstName lastName cnic dob gender mobile =
     (case IdentityExists ctx id' of
        (Inl err, ctx') \<Rightarrow> (Inl err, ctx')
      | (Inr found, ctx') \<Rightarrow>
          (if found then (Inl (AlreadyExists id'), ctx')
           else
             (let identity =
                    \<lparr>Identity.ID = id', Title = title, FirstName = firstName, MiddleName = [],
                      LastName = lastName, NameOnCard = [], ElevenCharName = [], CNIC = cnic,
                      CNICIssueDate = [], CNICExpiryDate = [], OldNIC = [], PassportNumber = [],
                      Nationality = [], PassportIssueDate = [], PassportExpiryDate = [], DateOfBirth =
                      dob, PlaceOfBirth = [], Gender = gender, FatherOrHusbandName = [],
                      MotherMaidenName = [], MaritalStatus = [], Education = [], PoliticalAffiliation
                      = [], TaxPayer = [], Address = [], Landline = [], PostalCode = [],
                      NoOfDependents = [], NTN = [], ResidenceType = [], ApartmentOrHouse = [],
                      ResidenceNature = [], MobileNumber = mobile\<rparr>
              in (case Marshal_Identity identity of
                    Inl err \<Rightarrow> (Inl err, ctx')
                  | Inr identityJSON \<Rightarrow> PutState ctx' id' identityJSON))))"

definition ReadIdentity :: "stub \<Rightarrow> string \<Rightarrow> (error + Identity) \<times> stub" where
  "ReadIdentity ctx id' =
     (case GetState ctx id' of
        Inl err \<Rightarrow> (Inl (ReadFailed err), ctx)
      | Inr None \<Rightarrow> (Inl (DoesNotExist id'), ctx)
      | Inr (Some identityJSON) \<Rightarrow>
          (case Unmarshal_Identity identityJSON of
             Inl err \<Rightarrow> (Inl err, ctx)
           | Inr identity \<Rightarrow> (Inr identity, ctx)))"

definition UpdateIdentity :: "stub \<Rightarrow> string \<Rightarrow> string \<Rightarrow> string \<Rightarrow> (error + unit) \<times> stub" where
  "UpdateIdentity ctx id' mobile address =
     (case IdentityExists ctx id' of
        (Inl err, ctx') \<Rightarrow> (Inl err, ctx')
      | (Inr found, ctx') \<Rightarrow>
          (if \<not> found then (Inl (DoesNotExist id'), ctx')
           else
             (case ReadIdentity ctx' id' of
                (Inl err, ctx'') \<Rightarrow> (Inl err, ctx'')
              | (Inr identity, ctx'') \<Rightarrow>
                  (case Marshal_Identity (identity\<lparr>MobileNumber := mobile, Address := address\<rparr>) of
                     Inl err \<Rightarrow> (Inl err, ctx'')
                   | Inr identityJSON \<Rightarrow> PutState ctx'' id' identityJSON))))"

definition DeleteIdentity :: "stub \<Rightarrow> string \<Rightarrow> (error + unit) \<times> stub" where
  "DeleteIdentity ctx id' =
     (case IdentityExists ctx id' of
        (Inl err, ctx') \<Rightarrow> (Inl err, ctx')
      | (Inr found, ctx') \<Rightarrow>
          (if \<not> found then (Inl (DoesNotExist id'), ctx')
           else DelState ctx' id'))"

fun collect_identities :: "stub \<Rightarrow> (string \<times> bytes) list \<Rightarrow> Identity list \<Rightarrow> error + Identity list" where
  "collect_identities ctx [] identities = Inr identities"
| "collect_identities ctx (entry # rest) identities =
     (case StateIterator_Next ctx (entry # rest) of
        Inl err \<Rightarrow> Inl err
      | Inr queryResponse \<Rightarrow>
          (case Unmarshal_Identity (snd queryResponse) of
             Inl err \<Rightarrow> Inl err
           | Inr identity \<Rightarrow> collect_identities ctx rest (identities @ [identity])))"

definition GetAllIdentities :: "stub \<Rightarrow> (error + Identity list) \<times> stub" where
  "GetAllIdentities ctx =
     (case GetStateByRange ctx of
        Inl err \<Rightarrow> (Inl err, ctx)
      | Inr resultsIterator \<Rightarrow> (collect_identities ctx resultsIterator [], ctx))"

section \<open>Records as they come back from JSON\<close>

text \<open>
  The record that \<open>json.Unmarshal\<close> makes of the document that \<open>json.Marshal\<close>
  made of a record: every string field read as UTF-8, every other field as it was.
\<close>

definition LoanApplication_utf8 :: "LoanApplication \<Rightarrow> LoanApplication" where
  "LoanApplication_utf8 loan =
     loan\<lparr>LoanApplication.ID := coerce_utf8 (LoanApplication.ID loan), Applicant :=
       coerce_utf8 (Applicant loan), Status := coerce_utf8 (Status loan)\<rparr>"

definition Pokemon_utf8 :: "Pokemon \<Rightarrow> Pokemon" where
  "Pokemon_utf8 p =
     p\<lparr>Pokemon.ID := coerce_utf8 (Pokemon.ID p), Name := coerce_utf8 (Name p), Type :=
       coerce_utf8 (Type p), Trainer := coerce_utf8 (Trainer p), Location := coerce_utf8
       (Location p)\<rparr>"

definition Identity_utf8 :: "Identity \<Rightarrow> Identity" where
  "Identity_utf8 identity =
     identity\<lparr>Identity.ID := coerce_utf8 (Identity.ID identity), Title := coerce_utf8 (Title
       identity), FirstName := coerce_utf8 (FirstName identity), MiddleName := coerce_utf8
       (MiddleName identity), LastName := coerce_utf8 (LastName identity), NameOnCard :=
       coerce_utf8 (NameOnCard identity), ElevenCharName := coerce_utf8 (ElevenCharName
       identity), CNIC := coerce_utf8 (CNIC identity), CNICIssueDate := coerce_utf8
       (CNICIssueDate identity), CNICExpiryDate := coerce_utf8 (CNICExpiryDate identity),
       OldNIC := coerce_utf8 (OldNIC identity), PassportNumber := coerce_utf8
       (PassportNumber identity), Nationality := coerce_utf8 (Nationality identity),
       PassportIssueDate := coerce_utf8 (PassportIssueDate identity), PassportExpiryDate :=
       coerce_utf8 (PassportExpiryDate identity), DateOfBirth := coerce_utf8 (DateOfBirth
       identity), PlaceOfBirth := coerce_utf8 (PlaceOfBirth identity), Gender :=
       coerce_utf8 (Gender identity), FatherOrHusbandName := coerce_utf8
       (FatherOrHusbandName identity), MotherMaidenName := coerce_utf8 (MotherMaidenName
       identity), MaritalStatus := coerce_utf8 (MaritalStatus identity), Education :=
       coerce_utf8 (Education identity), PoliticalAffiliation := coerce_utf8
       (PoliticalAffiliation identity), TaxPayer := coerce_utf8 (TaxPayer identity),
       Address := coerce_utf8 (Address identity), Landline := coerce_utf8 (Landline
       identity), PostalCode := coerce_utf8 (PostalCode identity), NoOfDependents :=
       coerce_utf8 (NoOfDependents identity), NTN := coerce_utf8 (NTN identity),
       ResidenceType := coerce_utf8 (ResidenceType identity), ApartmentOrHouse :=
       coerce_utf8 (ApartmentOrHouse identity), ResidenceNature := coerce_utf8
       (ResidenceNature identity), MobileNumber := coerce_utf8 (MobileNumber identity)\<rparr>"

section \<open>Example ledgers\<close>

text \<open>A ledger without entries and without faults, and the ledgers some transactions make of it.\<close>

definition empty_ledger :: stub where
  "empty_ledger = \<lparr>TxID = ''tx0'', world = [], history = (\<lambda>_. []), fault = (\<lambda>_. None)\<rparr>"

text \<open>
  The spec's keys are not empty, and the platform's \<open>PutState\<close> refuses the empty
  key: the ledger without entries whose only fault is this refusal.
\<close>

definition strict_ledger :: stub where
  "strict_ledger =
     empty_ledger\<lparr>fault := (\<lambda>c. if c = PutStateCall [] then Some ''key must not be an empty string'' else None)\<rparr>"

definition loan1_ledger :: stub where
  "loan1_ledger =
     \<lparr>TxID = ''tx0'',
      world = [(''loan1'', JObject [(''id'', JString ''loan1''), (''applicant'', JString ''Afraz''),
                 (''amount'', JNum 10000), (''term'', JNum 12), (''interestRate'', JNum (11 / 2)),
                 (''status'', JString ''Pending'')])],
      history = (\<lambda>_. [])(''loan1'' := [\<lparr>TxId = ''tx0'', Value = Some (JObject [(''id'', JString ''loan1''), (''applicant'', JString ''Afraz''),
                 (''amount'', JNum 10000), (''term'', JNum 12), (''interestRate'', JNum (11 / 2)),
                 (''status'', JString ''Pending'')]), IsDelete = False\<rparr>]),
      fault = (\<lambda>_. None)\<rparr>"

definition pikachu :: Pokemon where
  "pikachu = \<lparr>Pokemon.ID = ''poke1'', Name = ''Pikachu'', Type = ''Electric'', Power = 55,
               Trainer = ''Ash'', Evolved = False, Location = ''Pallet Town''\<rparr>"

definition pokemon_doc :: "Pokemon \<Rightarrow> bytes" where
  "pokemon_doc p =
     JObject [(''id'', JString (coerce_utf8 (Pokemon.ID p))), (''name'', JString (coerce_utf8 (Name p))),
       (''type'', JString (coerce_utf8 (Type p))), (''power'', JNum (of_int (sint (Power p)))),
       (''trainer'', JString (coerce_utf8 (Trainer p))), (''evolved'', JBool (Evolved p)),
       (''location'', JString (coerce_utf8 (Location p)))]"

definition poke1_ledger :: stub where
  "poke1_ledger =
     \<lparr>TxID = ''tx1'',
      world = [(''poke1'', pokemon_doc pikachu)],
      history = (\<lambda>_. [])(''poke1'' :=
        [\<lparr>TxId = ''tx1'', Value = Some (pokemon_doc pikachu), IsDelete = False\<rparr>]),
      fault = (\<lambda>_. None)\<rparr>"

definition poke1_deleted_ledger :: stub where
  "poke1_deleted_ledger =
     \<lparr>TxID = ''tx2'',
      world = [],
      history = (\<lambda>_. [])(''poke1'' :=
        [\<lparr>TxId = ''tx1'', Value = Some (pokemon_doc pikachu), IsDelete = False\<rparr>,
         \<lparr>TxId = ''tx2'', Value = None, IsDelete = True\<rparr>]),
      fault = (\<lambda>_. None)\<rparr>"

definition loan1_approved_ledger :: stub where
  "loan1_approved_ledger =
     \<lparr>TxID = ''tx0'',
      world = [(''loan1'', JObject [(''id'', JString ''loan1''), (''applicant'', JString ''Afraz''),
                 (''amount'', JNum 10000), (''term'', JNum 12), (''interestRate'', JNum (11 / 2)),
                 (''status'', JString ''Approved'')])],
      history = (\<lambda>_. [])(''loan1'' :=
        [\<lparr>TxId = ''tx0'', Value = Some (JObject [(''id'', JString ''loan1''), (''applicant'', JString ''Afraz''),
                 (''amount'', JNum 10000), (''term'', JNum 12), (''interestRate'', JNum (11 / 2)),
                 (''status'', JString ''Pending'')]), IsDelete = False\<rparr>,
         \<lparr>TxId = ''tx0'', Value = Some (JObject [(''id'', JString ''loan1''), (''applicant'', JString ''Afraz''),
                 (''amount'', JNum 10000), (''term'', JNum 12), (''interestRate'', JNum (11 / 2)),
                 (''status'', JString ''Approved'')]), IsDelete = False\<rparr>]),
      fault = (\<lambda>_. None)\<rparr>"

definition raichu :: Pokemon where
  "raichu = pikachu\<lparr>Evolved := True, Power := 85\<rparr>"

definition poke1_evolved_ledger :: stub where
  "poke1_evolved_ledger =
     \<lparr>TxID = ''tx2'',
      world = [(''poke1'', pokemon_doc raichu)],
      history = (\<lambda>_. [])(''poke1'' :=
        [\<lparr>TxId = ''tx1'', Value = Some (pokemon_doc pikachu), IsDelete = False\<rparr>,
         \<lparr>TxId = ''tx2'', Value = Some (pokemon_doc raichu), IsDelete = False\<rparr>]),
      fault = (\<lambda>_. None)\<rparr>"

definition mewtwo :: Pokemon where
  "mewtwo = \<lparr>Pokemon.ID = ''poke9'', Name = ''Mewtwo'', Type = ''Psychic'',
              Power = 9223372036854775807, Trainer = ''Red'', Evolved = False,
              Location = ''Cerulean Cave''\<rparr>"

definition poke9_ledger :: stub where
  "poke9_ledger =
     \<lparr>TxID = ''tx1'',
      world = [(''poke9'', pokemon_doc mewtwo)],
      history = (\<lambda>_. [])(''poke9'' :=
        [\<lparr>TxId = ''tx1'', Value = Some (pokemon_doc mewtwo), IsDelete = False\<rparr>]),
      fault = (\<lambda>_. None)\<rparr>"

definition poke9_evolved_ledger :: stub where
  "poke9_evolved_ledger =
     \<lparr>TxID = ''tx2'',
      world = [(''poke9'', pokemon_doc (mewtwo\<lparr>Evolved := True, Power := - 9223372036854775779\<rparr>))],
      history = (\<lambda>_. [])(''poke9'' :=
        [\<lparr>TxId = ''tx1'', Value = Some (pokemon_doc mewtwo), IsDelete = False\<rparr>,
         \<lparr>TxId = ''tx2'',
          Value = Some (pokemon_doc (mewtwo\<lparr>Evolved := True, Power := - 9223372036854775779\<rparr>)),
          IsDelete = False\<rparr>]),
      fault = (\<lambda>_. None)\<rparr>"

definition poke1_trained_ledger :: stub where
  "poke1_trained_ledger =
     \<lparr>TxID = ''tx2'',
      world = [(''poke1'', pokemon_doc (pikachu\<lparr>Power := 60, Trainer := ''Misty''\<rparr>))],
      history = (\<lambda>_. [])(''poke1'' :=
        [\<lparr>TxId = ''tx1'', Value = Some (pokemon_doc pikachu), IsDelete = False\<rparr>,
         \<lparr>TxId = ''tx2'', Value = Some (pokemon_doc (pikachu\<lparr>Power := 60, Trainer := ''Misty''\<rparr>)),
          IsDelete = False\<rparr>]),
      fault = (\<lambda>_. None)\<rparr>"

definition poke1_released_ledger :: stub where
  "poke1_released_ledger =
     \<lparr>TxID = ''tx3'',
      world = [],
      history = (\<lambda>_. [])(''poke1'' :=
        [\<lparr>TxId = ''tx1'', Value = Some (pokemon_doc pikachu), IsDelete = False\<rparr>,
         \<lparr>TxId = ''tx2'', Value = Some (pokemon_doc (pikachu\<lparr>Power := 60, Trainer := ''Misty''\<rparr>)),
          IsDelete = False\<rparr>,
         \<lparr>TxId = ''tx3'', Value = None, IsDelete = True\<rparr>]),
      fault = (\<lambda>_. None)\<rparr>"

section \<open>Runs of create transactions\<close>

text \<open>
  A run of create transactions on a ledger: each call comes with the identifier of its
  transaction, and a call that fails leaves the ledger as it is.
\<close>

fun create_loans :: "stub \<Rightarrow> (string \<times> string \<times> string \<times> go_int \<times> go_int \<times> float64) list \<Rightarrow> stub" where
  "create_loans ctx [] = ctx"
| "create_loans ctx ((txid, id', applicant, amount, term, interestRate) # calls) =
     create_loans
       (snd (CreateLoanApplication (begin_tx txid ctx) id' applicant amount term interestRate)) calls"

fun create_pokemons ::
  "stub \<Rightarrow> (string \<times> string \<times> string \<times> string \<times> string \<times> string \<times> go_int) list \<Rightarrow> stub" where
  "create_pokemons ctx [] = ctx"
| "create_pokemons ctx ((txid, id', name, ptype, trainer, location, power') # calls) =
     create_pokemons
       (snd (CreatePokemon (begin_tx txid ctx) id' name ptype trainer location power')) calls"

section \<open>Properties of the UTF-8 coercion\<close>

lemma rune_size_le_length: "rune_size s \<le> length s"
  by (cases s) (auto simp: rune_size_def Let_def lead_size_def)

lemma rune_size_prefix:
  assumes "rune_size s \<noteq> 0"
  shows "rune_size (take (rune_size s) s @ t) = rune_size s"
proof (cases s)
  case Nil
  then show ?thesis using assms by (simp add: rune_size_def)
next
  case (Cons c cs)
  define n where "n = lead_size (of_char c)"
  show ?thesis
  proof (cases "n \<le> 1")
    case True
    then have "rune_size s = n" by (simp add: Cons rune_size_def n_def)
    with assms True have "n = 1" by simp
    then show ?thesis
      using \<open>rune_size s = n\<close> by (simp add: Cons rune_size_def n_def)
  next
    case False
    with assms have ok: "n - 1 \<le> length cs" "second_byte_ok (of_char c) (of_char (hd cs))"
      "list_all continuation (take (n - 1) cs)" and r: "rune_size s = n"
      by (auto simp: Cons rune_size_def n_def Let_def split: if_splits)
    from False ok(1) have ne: "cs \<noteq> []" by auto
    have t: "take n (c # cs) = c # take (n - 1) cs"
      using False by (cases n) simp_all
    have h: "hd (take (n - 1) cs @ t) = hd cs"
      using False ne by (cases cs; cases "n - 1") simp_all
    have "rune_size (c # take (n - 1) cs @ t) = n"
      using False ok h by (simp add: rune_size_def n_def [symmetric] Let_def)
    moreover have "rune_size (c # cs) = n"
      using r by (simp add: Cons)
    ultimately show ?thesis
      by (simp add: Cons t)
  qed
qed

lemma rune_size_RuneError: "rune_size (RuneError @ t) = 3"
  by (simp add: RuneError_def rune_size_def lead_size_def second_byte_ok_def continuation_def)

lemma coerce_utf8_prefix:
  assumes "rune_size s \<noteq> 0"
  shows "coerce_utf8 (take (rune_size s) s @ t) = take (rune_size s) s @ coerce_utf8 t"
proof -
  let ?p = "take (rune_size s) s"
  have len: "length ?p = rune_size s"
    using rune_size_le_length [of s] by simp
  then obtain c cs where p: "?p @ t = c # cs"
    using assms by (cases "?p @ t") auto
  have r: "rune_size (c # cs) = rune_size s"
    using rune_size_prefix [OF assms, of t] by (simp add: p)
  have "coerce_utf8 (c # cs) = take (rune_size s) (c # cs) @ coerce_utf8 (drop (rune_size s) (c # cs))"
    using assms by (simp add: r coerce_utf8.simps(2))
  also have "\<dots> = ?p @ coerce_utf8 t"
    using len by (simp add: p [symmetric])
  finally show ?thesis by (simp add: p)
qed

lemma coerce_utf8_RuneError: "coerce_utf8 (RuneError @ t) = RuneError @ coerce_utf8 t"
proof -
  have "rune_size RuneError = 3"
    using rune_size_RuneError [of "[]"] by simp
  then show ?thesis
    using coerce_utf8_prefix [of RuneError t] by (simp add: RuneError_def)
qed

lemma coerce_utf8_idem: "coerce_utf8 (coerce_utf8 s) = coerce_utf8 s"
proof (induction s rule: coerce_utf8.induct)
  case 1
  show ?case by simp
next
  case (2 c cs)
  show ?case
  proof (cases "rune_size (c # cs) = 0")
    case True
    then show ?thesis using 2 by (simp add: coerce_utf8_RuneError coerce_utf8.simps(2))
  next
    case False
    then show ?thesis
      using 2 coerce_utf8_prefix [OF False] by (simp add: coerce_utf8.simps(2))
  qed
qed

lemma valid_utf8_coerce: "valid_utf8 s \<Longrightarrow> coerce_utf8 s = s"
proof (induction s rule: valid_utf8.induct)
  case 1
  show ?case by simp
next
  case (2 c cs)
  then have nz: "rune_size (c # cs) \<noteq> 0"
    and v: "valid_utf8 (drop (rune_size (c # cs)) (c # cs))"
    by (auto simp: valid_utf8.simps(2) split: if_splits)
  have "coerce_utf8 (c # cs) =
      take (rune_size (c # cs)) (c # cs) @ coerce_utf8 (drop (rune_size (c # cs)) (c # cs))"
    using nz by (simp add: coerce_utf8.simps(2))
  also have "\<dots> = take (rune_size (c # cs)) (c # cs) @ drop (rune_size (c # cs)) (c # cs)"
    using "2.IH" nz v by simp
  finally show ?case by simp
qed

lemma valid_utf8_prefix:
  assumes "rune_size s \<noteq> 0"
  shows "valid_utf8 (take (rune_size s) s @ t) = valid_utf8 t"
proof -
  let ?p = "take (rune_size s) s"
  have len: "length ?p = rune_size s"
    using rune_size_le_length [of s] by simp
  then obtain c cs where p: "?p @ t = c # cs"
    using assms by (cases "?p @ t") auto
  have r: "rune_size (c # cs) = rune_size s"
    using rune_size_prefix [OF assms, of t] by (simp add: p)
  have "valid_utf8 (c # cs) = valid_utf8 (drop (rune_size s) (c # cs))"
    using assms by (simp add: r valid_utf8.simps(2))
  also have "\<dots> = valid_utf8 t"
    using len by (simp add: p [symmetric])
  finally show ?thesis by (simp add: p)
qed

lemma valid_utf8_coerce_utf8: "valid_utf8 (coerce_utf8 s)"
proof (induction s rule: coerce_utf8.induct)
  case 1
  show ?case by simp
next
  case (2 c cs)
  show ?case
  proof (cases "rune_size (c # cs) = 0")
    case True
    have "rune_size RuneError = 3"
      using rune_size_RuneError [of "[]"] by simp
    then have "valid_utf8 (RuneError @ coerce_utf8 cs) = valid_utf8 (coerce_utf8 cs)"
      using valid_utf8_prefix [of RuneError "coerce_utf8 cs"] by (simp add: RuneError_def)
    then show ?thesis using True 2 by (simp add: coerce_utf8.simps(2))
  next
    case False
    then show ?thesis
      using 2 valid_utf8_prefix [OF False] by (simp add: coerce_utf8.simps(2))
  qed
qed

lemma ascii_valid: "list_all (\<lambda>c. (of_char c :: nat) < 0x80) s \<Longrightarrow> valid_utf8 s"
  by (induction s) (simp_all add: valid_utf8.simps(2) rune_size_def lead_size_def)

lemma coerce_utf8_ascii: "list_all (\<lambda>c. (of_char c :: nat) < 0x80) s \<Longrightarrow> coerce_utf8 s = s"
  by (simp add: valid_utf8_coerce ascii_valid)

section \<open>Properties of the stub and of the encoding\<close>

lemma map_of_upsert: "map_of (upsert k v kvs) = (map_of kvs)(k \<mapsto> v)"
  by (induction kvs) (auto simp: fun_eq_iff)

lemma map_of_remove: "map_of (remove k kvs) = (map_of kvs)(k := None)"
  by (induction kvs) (auto simp: remove_def fun_eq_iff)

lemma GetState_Inr: "GetState ctx k = Inr v \<longleftrightarrow> fault ctx (GetStateCall k) = None \<and> map_of (world ctx) k = v"
  by (auto simp: GetState_def split: option.splits)

lemma PutState_Inr:
  "PutState ctx k data = (Inr u, ctx') \<Longrightarrow>
     fault ctx (PutStateCall k) = None \<and>
     ctx' = ctx\<lparr>world := upsert k data (world ctx),
               history := (history ctx)(k := history ctx k @ [\<lparr>TxId = TxID ctx, Value = Some data, IsDelete = False\<rparr>])\<rparr>"
  by (auto simp: PutState_def split: option.splits)

lemma PutState_ok:
  "fault ctx (PutStateCall k) = None \<Longrightarrow>
   PutState ctx k data = (Inr (), ctx\<lparr>world := upsert k data (world ctx),
               history := (history ctx)(k := history ctx k @ [\<lparr>TxId = TxID ctx, Value = Some data, IsDelete = False\<rparr>])\<rparr>)"
  by (simp add: PutState_def)

lemma PutState_Inl: "PutState ctx k data = (Inl e, ctx') \<Longrightarrow> ctx' = ctx \<and> (\<exists>m. e = StubError m)"
  by (auto simp: PutState_def split: option.splits)

lemma GetState_PutState:
  "PutState ctx k data = (Inr u, ctx') \<Longrightarrow>
   GetState ctx' k' = (if fault ctx (GetStateCall k') = None then Inr (if k' = k then Some data else map_of (world ctx) k') else GetState ctx k')"
  by (auto simp: PutState_def GetState_def map_of_upsert split: option.splits)

lemma DelState_Inr:
  "DelState ctx k = (Inr u, ctx') \<Longrightarrow>
     fault ctx (DelStateCall k) = None \<and>
     ctx' = ctx\<lparr>world := remove k (world ctx),
               history := (history ctx)(k := history ctx k @ [\<lparr>TxId = TxID ctx, Value = None, IsDelete = True\<rparr>])\<rparr>"
  by (auto simp: DelState_def split: option.splits)

lemma decode_int_of_int:
  "decode_int (JNum (of_int i)) assign r =
     (if - (2 ^ 63) \<le> i \<and> i < 2 ^ 63 then Inr (assign (word_of_int i)) else Inl UnmarshalTypeError)"
  by (simp add: decode_int_def)

lemma decode_int_encode: "decode_int (encode_int n) assign r = Inr (assign n)"
proof -
  have "- (2 ^ 63) \<le> sint n" "sint n < 2 ^ 63"
    using sint_ge [of n] sint_lt [of n] by simp_all
  then show ?thesis
    unfolding encode_int_def decode_int_of_int by simp
qed

lemma decode_string_encode:
  "decode_string (encode_string s) assign r = Inr (assign (coerce_utf8 s))"
  by (simp add: decode_string_def encode_string_def coerce_utf8_idem)

lemma encode_string_coerce: "encode_string (coerce_utf8 s) = encode_string s"
  by (simp add: encode_string_def coerce_utf8_idem)

lemma encode_string_ascii:
  "list_all (\<lambda>c. (of_char c :: nat) < 0x80) s \<Longrightarrow> encode_string s = JString s"
  by (simp add: encode_string_def coerce_utf8_ascii)

lemma Unmarshal_Marshal_LoanApplication:
  "Marshal_LoanApplication loan = Inr data \<Longrightarrow>
   Unmarshal_LoanApplication data = Inr (LoanApplication_utf8 loan)"
  by (auto simp: Marshal_LoanApplication_def Unmarshal_LoanApplication_def decode_struct_def
     LoanApplication_member_def LoanApplication_zero_def LoanApplication_utf8_def
     decode_int_encode decode_string_encode decode_float_def encode_float_def
     split: sum.splits float64.splits)

lemma Unmarshal_Marshal_Pokemon:
  "Marshal_Pokemon p = Inr data \<Longrightarrow> Unmarshal_Pokemon data = Inr (Pokemon_utf8 p)"
  by (auto simp: Marshal_Pokemon_def Unmarshal_Pokemon_def decode_struct_def
     Pokemon_member_def Pokemon_zero_def Pokemon_utf8_def
     decode_int_encode decode_string_encode decode_bool_def)

lemma Unmarshal_Marshal_Identity:
  "Marshal_Identity i = Inr data \<Longrightarrow> Unmarshal_Identity data = Inr (Identity_utf8 i)"
  by (auto simp: Marshal_Identity_def Unmarshal_Identity_def decode_struct_def
     Identity_member_def Identity_zero_def Identity_utf8_def decode_string_encode)

lemma LoanApplication_utf8_valid:
  assumes "valid_utf8 (LoanApplication.ID loan)" and "valid_utf8 (Applicant loan)"
      and "valid_utf8 (Status loan)"
  shows "LoanApplication_utf8 loan = loan"
  using assms by (simp add: LoanApplication_utf8_def valid_utf8_coerce)

lemma Pokemon_utf8_valid:
  assumes "valid_utf8 (Pokemon.ID p)" and "valid_utf8 (Name p)" and "valid_utf8 (Type p)"
      and "valid_utf8 (Trainer p)" and "valid_utf8 (Location p)"
  shows "Pokemon_utf8 p = p"
  using assms by (simp add: Pokemon_utf8_def valid_utf8_coerce)

lemma Marshal_LoanApplication_utf8:
  "Marshal_LoanApplication (LoanApplication_utf8 loan) = Marshal_LoanApplication loan"
  by (simp add: Marshal_LoanApplication_def LoanApplication_utf8_def encode_string_coerce
      split: sum.splits)

lemma Marshal_Pokemon_utf8: "Marshal_Pokemon (Pokemon_utf8 p) = Marshal_Pokemon p"
  by (simp add: Marshal_Pokemon_def Pokemon_utf8_def encode_string_coerce)

lemma LoanApplication_utf8_idem:
  "LoanApplication_utf8 (LoanApplication_utf8 loan) = LoanApplication_utf8 loan"
  by (simp add: LoanApplication_utf8_def coerce_utf8_idem)

lemma Pokemon_utf8_idem: "Pokemon_utf8 (Pokemon_utf8 p) = Pokemon_utf8 p"
  by (simp add: Pokemon_utf8_def coerce_utf8_idem)

text \<open>What \<open>json.Unmarshal\<close> returns has strings in UTF-8 only.\<close>

lemma LoanApplication_member_utf8:
  assumes "LoanApplication_member k v r = Inr r'" and "LoanApplication_utf8 r = r"
  shows "LoanApplication_utf8 r' = r'"
proof -
  have r: "coerce_utf8 (LoanApplication.ID r) = LoanApplication.ID r"
    "coerce_utf8 (Applicant r) = Applicant r" "coerce_utf8 (Status r) = Status r"
    using arg_cong [OF assms(2), of LoanApplication.ID] arg_cong [OF assms(2), of Applicant]
      arg_cong [OF assms(2), of Status]
    by (simp_all add: LoanApplication_utf8_def)
  show ?thesis
    using assms(1) r
    by (auto simp: LoanApplication_member_def decode_string_def decode_int_def decode_float_def
        LoanApplication_utf8_def coerce_utf8_idem split: if_splits json.splits)
qed

lemma decode_members_LoanApplication_utf8:
  assumes "decode_members LoanApplication_member kvs r = Inr r'" and "LoanApplication_utf8 r = r"
  shows "LoanApplication_utf8 r' = r'"
  using assms
proof (induction kvs arbitrary: r)
  case Nil
  then show ?case by simp
next
  case (Cons kv kvs)
  obtain k v where kv: "kv = (k, v)" by (cases kv)
  from Cons.prems(1) obtain r1 where m: "LoanApplication_member k v r = Inr r1"
    and rest: "decode_members LoanApplication_member kvs r1 = Inr r'"
    by (auto simp: kv split: sum.splits)
  show ?case
    by (rule Cons.IH [OF rest LoanApplication_member_utf8 [OF m Cons.prems(2)]])
qed

lemma Unmarshal_LoanApplication_utf8:
  assumes "Unmarshal_LoanApplication data = Inr loan"
  shows "LoanApplication_utf8 loan = loan"
proof -
  have z: "LoanApplication_utf8 LoanApplication_zero = LoanApplication_zero"
    by (simp add: LoanApplication_utf8_def LoanApplication_zero_def)
  show ?thesis
  proof (cases data)
    case (JObject kvs)
    then have "decode_members LoanApplication_member kvs LoanApplication_zero = Inr loan"
      using assms by (simp add: Unmarshal_LoanApplication_def decode_struct_def)
    then show ?thesis
      by (rule decode_members_LoanApplication_utf8 [OF _ z])
  qed (use assms z in \<open>auto simp: Unmarshal_LoanApplication_def decode_struct_def\<close>)
qed

lemma Pokemon_member_utf8:
  assumes "Pokemon_member k v r = Inr r'" and "Pokemon_utf8 r = r"
  shows "Pokemon_utf8 r' = r'"
proof -
  have r: "coerce_utf8 (Pokemon.ID r) = Pokemon.ID r" "coerce_utf8 (Name r) = Name r"
    "coerce_utf8 (Type r) = Type r" "coerce_utf8 (Trainer r) = Trainer r"
    "coerce_utf8 (Location r) = Location r"
    using arg_cong [OF assms(2), of Pokemon.ID] arg_cong [OF assms(2), of Name]
      arg_cong [OF assms(2), of Type] arg_cong [OF assms(2), of Trainer]
      arg_cong [OF assms(2), of Location]
    by (simp_all add: Pokemon_utf8_def)
  show ?thesis
    using assms(1) r
    by (auto simp: Pokemon_member_def decode_string_def decode_int_def decode_bool_def
        Pokemon_utf8_def coerce_utf8_idem split: if_splits json.splits)
qed

lemma decode_members_Pokemon_utf8:
  assumes "decode_members Pokemon_member kvs r = Inr r'" and "Pokemon_utf8 r = r"
  shows "Pokemon_utf8 r' = r'"
  using assms
proof (induction kvs arbitrary: r)
  case Nil
  then show ?case by simp
next
  case (Cons kv kvs)
  obtain k v where kv: "kv = (k, v)" by (cases kv)
  from Cons.prems(1) obtain r1 where m: "Pokemon_member k v r = Inr r1"
    and rest: "decode_members Pokemon_member kvs r1 = Inr r'"
    by (auto simp: kv split: sum.splits)
  show ?case
    by (rule Cons.IH [OF rest Pokemon_member_utf8 [OF m Cons.prems(2)]])
qed

lemma Unmarshal_Pokemon_utf8:
  assumes "Unmarshal_Pokemon data = Inr p"
  shows "Pokemon_utf8 p = p"
proof -
  have z: "Pokemon_utf8 Pokemon_zero = Pokemon_zero"
    by (simp add: Pokemon_utf8_def Pokemon_zero_def)
  show ?thesis
  proof (cases data)
    case (JObject kvs)
    then have "decode_members Pokemon_member kvs Pokemon_zero = Inr p"
      using assms by (simp add: Unmarshal_Pokemon_def decode_struct_def)
    then show ?thesis
      by (rule decode_members_Pokemon_utf8 [OF _ z])
  qed (use assms z in \<open>auto simp: Unmarshal_Pokemon_def decode_struct_def\<close>)
qed

section \<open>Properties of the contracts\<close>

lemma GetState_begin_tx [simp]: "GetState (begin_tx t ctx) k = GetState ctx k"
  by (simp add: GetState_def begin_tx_def split: option.splits)

text \<open>
  Claim C3. For a key without live value, \<open>ReadLoanApplication\<close>,
  \<open>UpdateLoanStatus\<close>, \<open>UpdateIdentity\<close> and \<open>DeleteLoanApplication\<close> each fail
  with the does-not-exist error and return the ledger as it was; after the failed
  update the key still has no live value, so an update never creates a key.
\<close>

theorem C3_missing_key_not_found:
  assumes "GetState ctx k = Inr None"
  shows "ReadLoanApplication ctx k = (Inl (DoesNotExist k), ctx)
       \<and> UpdateLoanStatus ctx k newStatus = (Inl (DoesNotExist k), ctx)
       \<and> UpdateIdentity ctx k mobile address = (Inl (DoesNotExist k), ctx)
       \<and> DeleteLoanApplication ctx k = (Inl (DoesNotExist k), ctx)
       \<and> GetState (snd (UpdateLoanStatus ctx k newStatus)) k = Inr None
       \<and> GetState (snd (UpdateIdentity ctx k mobile address)) k = Inr None"
  using assms
  by (simp add: ReadLoanApplication_def UpdateLoanStatus_def UpdateIdentity_def
      IdentityExists_def DeleteLoanApplication_def LoanExists_def)

theorem C3_missing_key_not_found_witness:
  "GetState empty_ledger ''loan7'' = Inr None
   \<and> ReadLoanApplication empty_ledger ''loan7'' = (Inl (DoesNotExist ''loan7''), empty_ledger)
   \<and> UpdateLoanStatus empty_ledger ''loan7'' ''Approved'' = (Inl (DoesNotExist ''loan7''), empty_ledger)
   \<and> UpdateIdentity empty_ledger ''loan7'' ''0300'' ''Lahore'' = (Inl (DoesNotExist ''loan7''), empty_ledger)
   \<and> DeleteLoanApplication empty_ledger ''loan7'' = (Inl (DoesNotExist ''loan7''), empty_ledger)"
proof -
  have h: "GetState empty_ledger ''loan7'' = Inr None"
    by (simp add: GetState_def empty_ledger_def)
  show ?thesis
    using h C3_missing_key_not_found [OF h, of "''Approved''" "''0300''" "''Lahore''"] by simp
qed

lemma CreateLoanApplication_Inr:
  assumes "CreateLoanApplication ctx id' applicant amount term rate = (Inr u, ctx')"
  shows "\<exists>data. GetState ctx id' = Inr None
      \<and> Marshal_LoanApplication \<lparr>LoanApplication.ID = id', Applicant = applicant, Amount = amount, Term = term,
            InterestRate = rate, Status = ''Pending''\<rparr> = Inr data
      \<and> PutState ctx id' data = (Inr (), ctx')"
  using assms
  by (auto simp: CreateLoanApplication_def LoanExists_def Let_def split: sum.splits if_splits)

text \<open>
  Claim C2, as amended. After a successful \<open>CreateLoanApplication\<close> of a key, in this
  or any later transaction \<open>ReadLoanApplication\<close> of the key returns the record that
  was created with its strings read as UTF-8: amount, term and interest rate of the
  call, the status "Pending", and the identifier and the applicant with every byte that
  is not well-formed UTF-8 replaced by U+FFFD. When identifier and applicant are valid
  UTF-8, this is exactly the record that was created. Whenever \<open>json.Marshal\<close>
  produces a document for a loan, \<open>json.Unmarshal\<close> of the document is that loan with
  its strings read as UTF-8, which is the loan itself when its strings are valid UTF-8.
\<close>

theorem C2_create_then_read:
  assumes "CreateLoanApplication ctx id' applicant amount term rate = (Inr (), ctx')"
  shows "ReadLoanApplication (begin_tx t ctx') id' =
           (Inr \<lparr>LoanApplication.ID = coerce_utf8 id', Applicant = coerce_utf8 applicant,
                 Amount = amount, Term = term, InterestRate = rate, Status = ''Pending''\<rparr>,
            begin_tx t ctx')
       \<and> (valid_utf8 id' \<and> valid_utf8 applicant \<longrightarrow>
            ReadLoanApplication (begin_tx t ctx') id' =
              (Inr \<lparr>LoanApplication.ID = id', Applicant = applicant, Amount = amount,
                    Term = term, InterestRate = rate, Status = ''Pending''\<rparr>, begin_tx t ctx'))
       \<and> (\<forall>loan data. Marshal_LoanApplication loan = Inr data \<longrightarrow>
              Unmarshal_LoanApplication data = Inr (LoanApplication_utf8 loan))
       \<and> (\<forall>loan. valid_utf8 (LoanApplication.ID loan) \<and> valid_utf8 (Applicant loan)
              \<and> valid_utf8 (Status loan) \<longrightarrow> LoanApplication_utf8 loan = loan)"
proof -
  obtain data where g: "GetState ctx id' = Inr None"
    and m: "Marshal_LoanApplication \<lparr>LoanApplication.ID = id', Applicant = applicant, Amount = amount, Term = term,
            InterestRate = rate, Status = ''Pending''\<rparr> = Inr data"
    and p: "PutState ctx id' data = (Inr (), ctx')"
    using CreateLoanApplication_Inr [OF assms] by blast
  have "fault ctx (GetStateCall id') = None"
    using g by (simp add: GetState_Inr)
  then have "GetState ctx' id' = Inr (Some data)"
    using GetState_PutState [OF p, of id'] by simp
  then have r: "ReadLoanApplication (begin_tx t ctx') id' =
           (Inr \<lparr>LoanApplication.ID = coerce_utf8 id', Applicant = coerce_utf8 applicant,
                 Amount = amount, Term = term, InterestRate = rate, Status = ''Pending''\<rparr>,
            begin_tx t ctx')"
    using Unmarshal_Marshal_LoanApplication [OF m]
    by (simp add: ReadLoanApplication_def LoanApplication_utf8_def coerce_utf8_ascii)
  have "valid_utf8 id' \<and> valid_utf8 applicant \<longrightarrow>
            ReadLoanApplication (begin_tx t ctx') id' =
              (Inr \<lparr>LoanApplication.ID = id', Applicant = applicant, Amount = amount,
                    Term = term, InterestRate = rate, Status = ''Pending''\<rparr>, begin_tx t ctx')"
    using r by (simp add: valid_utf8_coerce)
  then show ?thesis
    using r by (simp add: Unmarshal_Marshal_LoanApplication LoanApplication_utf8_valid)
qed

lemma create_loan1: "CreateLoanApplication empty_ledger ''loan1'' ''Afraz'' 10000 12 (Finite (11 / 2)) = (Inr (), loan1_ledger)"
  by (simp add: CreateLoanApplication_def LoanExists_def GetState_def empty_ledger_def
      Marshal_LoanApplication_def encode_float_def encode_int_def encode_string_ascii
      PutState_def loan1_ledger_def)

theorem C2_create_then_read_witness:
  "CreateLoanApplication empty_ledger ''loan1'' ''Afraz'' 10000 12 (Finite (11 / 2)) = (Inr (), loan1_ledger)
   \<and> valid_utf8 ''loan1'' \<and> valid_utf8 ''Afraz''
   \<and> ReadLoanApplication (begin_tx ''tx1'' loan1_ledger) ''loan1'' =
           (Inr \<lparr>LoanApplication.ID = ''loan1'', Applicant = ''Afraz'', Amount = 10000, Term = 12,
                 InterestRate = Finite (11 / 2), Status = ''Pending''\<rparr>, begin_tx ''tx1'' loan1_ledger)"
proof -
  have v: "valid_utf8 ''loan1''" "valid_utf8 ''Afraz''"
    by (simp_all add: ascii_valid)
  note read = C2_create_then_read [OF create_loan1, of "''tx1''", THEN conjunct2, THEN conjunct1,
      THEN mp, OF conjI [OF v]]
  show ?thesis
    by (intro conjI create_loan1 v read)
qed

text \<open>
  An applicant that is the single byte 0xFF, which is not UTF-8: the create succeeds,
  and the record read afterwards has the three bytes of U+FFFD as its applicant.
\<close>

theorem C2_invalid_utf8_counterexample:
  "fst (CreateLoanApplication empty_ledger ''loan1'' [CHR 0xFF] 10000 12 (Finite (11 / 2))) = Inr ()
   \<and> fst (ReadLoanApplication
          (snd (CreateLoanApplication empty_ledger ''loan1'' [CHR 0xFF] 10000 12 (Finite (11 / 2))))
          ''loan1'')
       = Inr \<lparr>LoanApplication.ID = ''loan1'', Applicant = [CHR 0xEF, CHR 0xBF, CHR 0xBD],
               Amount = 10000, Term = 12, InterestRate = Finite (11 / 2), Status = ''Pending''\<rparr>
   \<and> [CHR 0xEF, CHR 0xBF, CHR 0xBD] \<noteq> [CHR 0xFF]"
proof -
  have c: "coerce_utf8 [CHR 0xFF] = [CHR 0xEF, CHR 0xBF, CHR 0xBD]"
    by (simp add: coerce_utf8.simps(2) rune_size_def lead_size_def RuneError_def)
  have m: "Marshal_LoanApplication \<lparr>LoanApplication.ID = ''loan1'', Applicant = [CHR 0xFF],
      Amount = 10000, Term = 12, InterestRate = Finite (11 / 2), Status = ''Pending''\<rparr> =
    Inr (JObject [(''id'', JString ''loan1''), (''applicant'', JString [CHR 0xEF, CHR 0xBF, CHR 0xBD]),
           (''amount'', JNum 10000), (''term'', JNum 12), (''interestRate'', JNum (11 / 2)),
           (''status'', JString ''Pending'')])"
    by (simp add: Marshal_LoanApplication_def encode_float_def encode_int_def encode_string_ascii)
       (simp add: encode_string_def c)
  have 1: "CreateLoanApplication empty_ledger ''loan1'' [CHR 0xFF] 10000 12 (Finite (11 / 2)) =
      PutState empty_ledger ''loan1''
        (JObject [(''id'', JString ''loan1''), (''applicant'', JString [CHR 0xEF, CHR 0xBF, CHR 0xBD]),
           (''amount'', JNum 10000), (''term'', JNum 12), (''interestRate'', JNum (11 / 2)),
           (''status'', JString ''Pending'')])"
    by (simp add: CreateLoanApplication_def LoanExists_def GetState_def empty_ledger_def m)
  have v: "valid_utf8 [CHR 0xEF, CHR 0xBF, CHR 0xBD]"
    by (simp add: valid_utf8.simps(2) rune_size_def lead_size_def second_byte_ok_def
        continuation_def)
  show ?thesis
    unfolding 1
    by (simp add: PutState_def empty_ledger_def ReadLoanApplication_def GetState_def
        Unmarshal_LoanApplication_def decode_struct_def LoanApplication_member_def
        LoanApplication_zero_def decode_string_def decode_int_def decode_float_def
        coerce_utf8_ascii valid_utf8_coerce [OF v])
qed

lemma GetState_PutState_other:
  "PutState ctx k data = (Inr u, ctx') \<Longrightarrow> k' \<noteq> k \<Longrightarrow> GetState ctx' k' = GetState ctx k'"
  by (auto simp: PutState_def GetState_def map_of_upsert split: option.splits)

lemma GetState_PutState_same:
  "PutState ctx k data = (Inr u, ctx') \<Longrightarrow> fault ctx (GetStateCall k) = None \<Longrightarrow> GetState ctx' k = Inr (Some data)"
  by (auto simp: PutState_def GetState_def map_of_upsert split: option.splits)

lemma CreateLoanApplication_live:
  "GetState ctx k = Inr (Some v) \<Longrightarrow>
   CreateLoanApplication ctx k applicant amount term rate = (Inl (AlreadyExists k), ctx)"
  by (simp add: CreateLoanApplication_def LoanExists_def)

lemma CreateIdentity_live:
  "GetState ctx k = Inr (Some v) \<Longrightarrow>
   CreateIdentity ctx k title firstName lastName cnic dob gender mobile = (Inl (AlreadyExists k), ctx)"
  by (simp add: CreateIdentity_def IdentityExists_def)

lemma CreateLoanApplication_fresh:
  assumes "GetState ctx k = Inr None" and "fault ctx (PutStateCall k) = None"
  shows "\<exists>ctx' data. CreateLoanApplication ctx k applicant amount term (Finite q) = (Inr (), ctx')
      \<and> Marshal_LoanApplication \<lparr>LoanApplication.ID = k, Applicant = applicant,
           Amount = amount, Term = term, InterestRate = Finite q, Status = ''Pending''\<rparr> = Inr data
      \<and> PutState ctx k data = (Inr (), ctx')"
  using assms
  by (simp add: CreateLoanApplication_def LoanExists_def Marshal_LoanApplication_def
      encode_float_def PutState_ok)

lemma CreateIdentity_fresh:
  assumes "GetState ctx k = Inr None" and "fault ctx (PutStateCall k) = None"
  shows "\<exists>ctx' data. CreateIdentity ctx k title firstName lastName cnic dob gender mobile = (Inr (), ctx')
      \<and> Marshal_Identity (Identity_zero\<lparr>Identity.ID := k, Title := title, FirstName := firstName,
            LastName := lastName, CNIC := cnic, DateOfBirth := dob, Gender := gender,
            MobileNumber := mobile\<rparr>) = Inr data
      \<and> PutState ctx k data = (Inr (), ctx')"
  using assms
  by (simp add: CreateIdentity_def IdentityExists_def Marshal_Identity_def Identity_zero_def PutState_ok)

text \<open>
  Claim C1, as amended. For a key with a live value, \<open>CreateLoanApplication\<close> and
  \<open>CreateIdentity\<close> fail with the already-exists error and return the ledger as it
  was. For a key without live value whose write the platform accepts,
  \<open>CreateIdentity\<close> succeeds, and \<open>CreateLoanApplication\<close> succeeds when the
  interest rate is a finite number; the document that \<open>json.Marshal\<close> makes of the
  new record is then the live value of the key, and every other key reads as before.
\<close>

theorem C1_create_checks_existence:
  assumes "GetState ctx k = Inr live"
  shows "(live \<noteq> None \<longrightarrow>
            CreateLoanApplication ctx k applicant amount term rate = (Inl (AlreadyExists k), ctx)
          \<and> CreateIdentity ctx k title firstName lastName cnic dob gender mobile
              = (Inl (AlreadyExists k), ctx))
       \<and> (live = None \<and> fault ctx (PutStateCall k) = None \<longrightarrow>
            (\<forall>q. rate = Finite q \<longrightarrow>
               (\<exists>ctx' data.
                   CreateLoanApplication ctx k applicant amount term rate = (Inr (), ctx')
                 \<and> Marshal_LoanApplication
                      \<lparr>LoanApplication.ID = k, Applicant = applicant, Amount = amount, Term = term,
                       InterestRate = rate, Status = ''Pending''\<rparr> = Inr data
                 \<and> GetState ctx' k = Inr (Some data)
                 \<and> (\<forall>k'. k' \<noteq> k \<longrightarrow> GetState ctx' k' = GetState ctx k')))
          \<and> (\<exists>ctx' data.
                   CreateIdentity ctx k title firstName lastName cnic dob gender mobile = (Inr (), ctx')
                 \<and> Marshal_Identity
                      (Identity_zero\<lparr>Identity.ID := k, Title := title, FirstName := firstName,
                         LastName := lastName, CNIC := cnic, DateOfBirth := dob, Gender := gender,
                         MobileNumber := mobile\<rparr>) = Inr data
                 \<and> GetState ctx' k = Inr (Some data)
                 \<and> (\<forall>k'. k' \<noteq> k \<longrightarrow> GetState ctx' k' = GetState ctx k')))"
proof (intro conjI impI allI)
  assume "live \<noteq> None"
  then obtain v where "GetState ctx k = Inr (Some v)"
    using assms by auto
  then show "CreateLoanApplication ctx k applicant amount term rate = (Inl (AlreadyExists k), ctx)"
    and "CreateIdentity ctx k title firstName lastName cnic dob gender mobile = (Inl (AlreadyExists k), ctx)"
    by (simp_all add: CreateLoanApplication_live CreateIdentity_live)
next
  fix q
  assume fresh: "live = None \<and> fault ctx (PutStateCall k) = None" and rate: "rate = Finite q"
  have g: "GetState ctx k = Inr None" and nf: "fault ctx (GetStateCall k) = None"
    using assms fresh by (simp_all add: GetState_Inr)
  obtain ctx' data where c: "CreateLoanApplication ctx k applicant amount term (Finite q) = (Inr (), ctx')"
    and m: "Marshal_LoanApplication \<lparr>LoanApplication.ID = k, Applicant = applicant,
           Amount = amount, Term = term, InterestRate = Finite q, Status = ''Pending''\<rparr> = Inr data"
    and p: "PutState ctx k data = (Inr (), ctx')"
    using CreateLoanApplication_fresh [OF g] fresh by blast
  show "\<exists>ctx' data.
           CreateLoanApplication ctx k applicant amount term rate = (Inr (), ctx')
         \<and> Marshal_LoanApplication
              \<lparr>LoanApplication.ID = k, Applicant = applicant, Amount = amount, Term = term,
               InterestRate = rate, Status = ''Pending''\<rparr> = Inr data
         \<and> GetState ctx' k = Inr (Some data)
         \<and> (\<forall>k'. k' \<noteq> k \<longrightarrow> GetState ctx' k' = GetState ctx k')"
    unfolding rate
    using c m GetState_PutState_same [OF p nf] GetState_PutState_other [OF p] by blast
next
  assume fresh: "live = None \<and> fault ctx (PutStateCall k) = None"
  have g: "GetState ctx k = Inr None" and nf: "fault ctx (GetStateCall k) = None"
    using assms fresh by (simp_all add: GetState_Inr)
  obtain ctx' data where c: "CreateIdentity ctx k title firstName lastName cnic dob gender mobile = (Inr (), ctx')"
    and m: "Marshal_Identity (Identity_zero\<lparr>Identity.ID := k, Title := title, FirstName := firstName,
            LastName := lastName, CNIC := cnic, DateOfBirth := dob, Gender := gender,
            MobileNumber := mobile\<rparr>) = Inr data"
    and p: "PutState ctx k data = (Inr (), ctx')"
    using CreateIdentity_fresh [OF g] fresh by blast
  show "\<exists>ctx' data.
           CreateIdentity ctx k title firstName lastName cnic dob gender mobile = (Inr (), ctx')
         \<and> Marshal_Identity
              (Identity_zero\<lparr>Identity.ID := k, Title := title, FirstName := firstName,
                 LastName := lastName, CNIC := cnic, DateOfBirth := dob, Gender := gender,
                 MobileNumber := mobile\<rparr>) = Inr data
         \<and> GetState ctx' k = Inr (Some data)
         \<and> (\<forall>k'. k' \<noteq> k \<longrightarrow> GetState ctx' k' = GetState ctx k')"
    using c m GetState_PutState_same [OF p nf] GetState_PutState_other [OF p] by blast
qed

text \<open>
  The interest rate NaN has no JSON encoding: on a key without live value, in a ledger
  without faults, \<open>CreateLoanApplication\<close> fails with the error of
  \<open>json.Marshal\<close> and writes nothing.
\<close>

theorem C1_nan_rate_counterexample:
  "GetState empty_ledger ''loan1'' = Inr None
   \<and> CreateLoanApplication empty_ledger ''loan1'' ''Afraz'' 10000 12 NaN
       = (Inl UnsupportedValue, empty_ledger)"
  by (simp add: CreateLoanApplication_def LoanExists_def GetState_def empty_ledger_def
      Marshal_LoanApplication_def encode_float_def)

lemma GetState_loan1_ledger:
  "GetState loan1_ledger ''loan1'' = Inr (Some (JObject [(''id'', JString ''loan1''), (''applicant'', JString ''Afraz''),
                 (''amount'', JNum 10000), (''term'', JNum 12), (''interestRate'', JNum (11 / 2)),
                 (''status'', JString ''Pending'')]))"
  by (simp add: GetState_def loan1_ledger_def)

lemma GetState_empty_ledger: "GetState empty_ledger k = Inr None"
  by (simp add: GetState_def empty_ledger_def)

theorem C1_create_checks_existence_witness:
  "GetState loan1_ledger ''loan1'' \<noteq> Inr None
   \<and> CreateLoanApplication loan1_ledger ''loan1'' ''Alam'' 5000 6 (Finite (21 / 5))
       = (Inl (AlreadyExists ''loan1''), loan1_ledger)
   \<and> CreateIdentity loan1_ledger ''loan1'' ''Mr.'' ''John'' ''Doe'' ''12345-6789012-3'' ''01-01-1980'' ''Male'' ''03001234567''
       = (Inl (AlreadyExists ''loan1''), loan1_ledger)
   \<and> GetState empty_ledger ''loan1'' = Inr None
   \<and> fault empty_ledger (PutStateCall ''loan1'') = None
   \<and> (\<exists>ctx' data. CreateLoanApplication empty_ledger ''loan1'' ''Afraz'' 10000 12 (Finite (11 / 2)) = (Inr (), ctx')
          \<and> GetState ctx' ''loan1'' = Inr (Some data))
   \<and> (\<exists>ctx' data. CreateIdentity empty_ledger ''loan1'' ''Mr.'' ''John'' ''Doe'' ''12345-6789012-3'' ''01-01-1980'' ''Male'' ''03001234567''
          = (Inr (), ctx') \<and> GetState ctx' ''loan1'' = Inr (Some data))"
proof -
  have f: "fault empty_ledger (PutStateCall ''loan1'') = None"
    by (simp add: empty_ledger_def)
  note live = C1_create_checks_existence [OF GetState_loan1_ledger,
      of "''Alam''" 5000 6 "Finite (21 / 5)" "''Mr.''" "''John''" "''Doe''"
         "''12345-6789012-3''" "''01-01-1980''" "''Male''" "''03001234567''"]
  note fresh = C1_create_checks_existence [OF GetState_empty_ledger [of "''loan1''"],
      of "''Afraz''" 10000 12 "Finite (11 / 2)" "''Mr.''" "''John''" "''Doe''"
         "''12345-6789012-3''" "''01-01-1980''" "''Male''" "''03001234567''"]
  have 1: "GetState loan1_ledger ''loan1'' \<noteq> Inr None"
    by (simp add: GetState_loan1_ledger)
  have 2: "CreateLoanApplication loan1_ledger ''loan1'' ''Alam'' 5000 6 (Finite (21 / 5))
       = (Inl (AlreadyExists ''loan1''), loan1_ledger)"
    and 3: "CreateIdentity loan1_ledger ''loan1'' ''Mr.'' ''John'' ''Doe'' ''12345-6789012-3'' ''01-01-1980'' ''Male'' ''03001234567''
       = (Inl (AlreadyExists ''loan1''), loan1_ledger)"
    using live by simp_all
  note fresh' = fresh [THEN conjunct2, THEN mp, OF conjI [OF refl f]]
  note loan_part = fresh' [THEN conjunct1, THEN spec, of "11 / 2", THEN mp, OF refl]
  note identity_part = fresh' [THEN conjunct2]
  have 4: "\<exists>ctx' data. CreateLoanApplication empty_ledger ''loan1'' ''Afraz'' 10000 12 (Finite (11 / 2)) = (Inr (), ctx')
          \<and> GetState ctx' ''loan1'' = Inr (Some data)"
  proof -
    from loan_part obtain ctx' data where
      "CreateLoanApplication empty_ledger ''loan1'' ''Afraz'' 10000 12 (Finite (11 / 2)) = (Inr (), ctx')"
      and "GetState ctx' ''loan1'' = Inr (Some data)"
      by (elim exE conjE)
    then show ?thesis by (intro exI conjI)
  qed
  have 5: "\<exists>ctx' data. CreateIdentity empty_ledger ''loan1'' ''Mr.'' ''John'' ''Doe'' ''12345-6789012-3'' ''01-01-1980'' ''Male'' ''03001234567''
          = (Inr (), ctx') \<and> GetState ctx' ''loan1'' = Inr (Some data)"
  proof -
    from identity_part obtain ctx' data where
      "CreateIdentity empty_ledger ''loan1'' ''Mr.'' ''John'' ''Doe'' ''12345-6789012-3'' ''01-01-1980'' ''Male'' ''03001234567''
          = (Inr (), ctx')"
      and "GetState ctx' ''loan1'' = Inr (Some data)"
      by (elim exE conjE)
    then show ?thesis by (intro exI conjI)
  qed
  show ?thesis
    by (intro conjI 1 2 3 4 5 f GetState_empty_ledger)
qed

lemma CreateLoanApplication_Inl:
  assumes "CreateLoanApplication ctx k applicant amount term rate = (Inl e, ctx')"
  shows "ctx' = ctx \<and>
     (e = AlreadyExists k \<and> (\<exists>v. GetState ctx k = Inr (Some v))
      \<or> (\<exists>m. e = StubError m \<and> (fault ctx (GetStateCall k) = Some m \<or> fault ctx (PutStateCall k) = Some m))
      \<or> e = UnsupportedValue \<and> (\<forall>q. rate \<noteq> Finite q))"
  using assms
  by (auto simp: CreateLoanApplication_def LoanExists_def GetState_def PutState_def
      Marshal_LoanApplication_def encode_float_def Let_def
      split: option.splits if_splits float64.splits)

lemma CreateIdentity_Inl:
  assumes "CreateIdentity ctx k title firstName lastName cnic dob gender mobile = (Inl e, ctx')"
  shows "ctx' = ctx \<and>
     (e = AlreadyExists k \<and> (\<exists>v. GetState ctx k = Inr (Some v))
      \<or> (\<exists>m. e = ReadFailed (StubError m) \<and> fault ctx (GetStateCall k) = Some m)
      \<or> (\<exists>m. e = StubError m \<and> fault ctx (PutStateCall k) = Some m))"
  using assms
  by (auto simp: CreateIdentity_def IdentityExists_def GetState_def PutState_def
      Marshal_Identity_def Let_def
      split: option.splits if_splits)

text \<open>
  Claim C10, as amended. The create transactions do not look at the key and have no
  invalid-argument error. For every key without live value whose write the platform
  accepts, \<open>CreateIdentity\<close> succeeds, and \<open>CreateLoanApplication\<close> succeeds when
  the interest rate is finite, and the record is then stored under that key. For a key
  without live value whose write the platform refuses, as it refuses the empty string,
  both creates fail with the error of \<open>PutState\<close>. A failing create leaves the
  ledger as it was, and its error is the already-exists error of a live key, an error
  of the stub's \<open>GetState\<close> or \<open>PutState\<close>, or, for a loan whose interest rate is
  not finite, the error of \<open>json.Marshal\<close>.
\<close>

theorem C10_create_accepts_every_key:
  "(GetState ctx k = Inr None \<and> fault ctx (PutStateCall k) = None \<longrightarrow>
      (\<exists>ctx' data.
          CreateIdentity ctx k title firstName lastName cnic dob gender mobile = (Inr (), ctx')
        \<and> GetState ctx' k = Inr (Some data)
        \<and> Unmarshal_Identity data =
            Inr (Identity_utf8 (Identity_zero\<lparr>Identity.ID := k, Title := title,
                   FirstName := firstName, LastName := lastName, CNIC := cnic,
                   DateOfBirth := dob, Gender := gender, MobileNumber := mobile\<rparr>)))
    \<and> (\<forall>q. rate = Finite q \<longrightarrow>
         (\<exists>ctx' data.
             CreateLoanApplication ctx k applicant amount term rate = (Inr (), ctx')
           \<and> GetState ctx' k = Inr (Some data)
           \<and> Unmarshal_LoanApplication data =
               Inr (LoanApplication_utf8
                      \<lparr>LoanApplication.ID = k, Applicant = applicant, Amount = amount,
                       Term = term, InterestRate = rate, Status = ''Pending''\<rparr>))))
   \<and> (\<forall>m. GetState ctx k = Inr None \<and> fault ctx (PutStateCall k) = Some m \<longrightarrow>
         CreateIdentity ctx k title firstName lastName cnic dob gender mobile
           = (Inl (StubError m), ctx)
       \<and> (\<forall>q. rate = Finite q \<longrightarrow>
            CreateLoanApplication ctx k applicant amount term rate = (Inl (StubError m), ctx)))
   \<and> (\<forall>e ctx'. CreateLoanApplication ctx k applicant amount term rate = (Inl e, ctx') \<longrightarrow>
         ctx' = ctx \<and>
         (e = AlreadyExists k \<and> (\<exists>v. GetState ctx k = Inr (Some v))
          \<or> (\<exists>m. e = StubError m \<and>
                (fault ctx (GetStateCall k) = Some m \<or> fault ctx (PutStateCall k) = Some m))
          \<or> e = UnsupportedValue \<and> (\<forall>q. rate \<noteq> Finite q)))
   \<and> (\<forall>e ctx'. CreateIdentity ctx k title firstName lastName cnic dob gender mobile = (Inl e, ctx') \<longrightarrow>
         ctx' = ctx \<and>
         (e = AlreadyExists k \<and> (\<exists>v. GetState ctx k = Inr (Some v))
          \<or> (\<exists>m. e = ReadFailed (StubError m) \<and> fault ctx (GetStateCall k) = Some m)
          \<or> (\<exists>m. e = StubError m \<and> fault ctx (PutStateCall k) = Some m)))"
proof (intro conjI impI allI)
  assume fresh: "GetState ctx k = Inr None \<and> fault ctx (PutStateCall k) = None"
  then have g: "GetState ctx k = Inr None" and nf: "fault ctx (GetStateCall k) = None"
    and pf: "fault ctx (PutStateCall k) = None"
    by (simp_all add: GetState_Inr)
  obtain ctx' data where c: "CreateIdentity ctx k title firstName lastName cnic dob gender mobile = (Inr (), ctx')"
    and m: "Marshal_Identity (Identity_zero\<lparr>Identity.ID := k, Title := title, FirstName := firstName,
            LastName := lastName, CNIC := cnic, DateOfBirth := dob, Gender := gender,
            MobileNumber := mobile\<rparr>) = Inr data"
    and p: "PutState ctx k data = (Inr (), ctx')"
    using CreateIdentity_fresh [OF g pf] by blast
  from c GetState_PutState_same [OF p nf] Unmarshal_Marshal_Identity [OF m]
  show "\<exists>ctx' data.
          CreateIdentity ctx k title firstName lastName cnic dob gender mobile = (Inr (), ctx')
        \<and> GetState ctx' k = Inr (Some data)
        \<and> Unmarshal_Identity data =
            Inr (Identity_utf8 (Identity_zero\<lparr>Identity.ID := k, Title := title,
                   FirstName := firstName, LastName := lastName, CNIC := cnic,
                   DateOfBirth := dob, Gender := gender, MobileNumber := mobile\<rparr>))"
    by (intro exI conjI)
next
  fix q
  assume fresh: "GetState ctx k = Inr None \<and> fault ctx (PutStateCall k) = None"
    and rate: "rate = Finite q"
  then have g: "GetState ctx k = Inr None" and nf: "fault ctx (GetStateCall k) = None"
    and pf: "fault ctx (PutStateCall k) = None"
    by (simp_all add: GetState_Inr)
  obtain ctx' data where c: "CreateLoanApplication ctx k applicant amount term (Finite q) = (Inr (), ctx')"
    and m: "Marshal_LoanApplication \<lparr>LoanApplication.ID = k, Applicant = applicant,
           Amount = amount, Term = term, InterestRate = Finite q, Status = ''Pending''\<rparr> = Inr data"
    and p: "PutState ctx k data = (Inr (), ctx')"
    using CreateLoanApplication_fresh [OF g pf] by blast
  from c GetState_PutState_same [OF p nf] Unmarshal_Marshal_LoanApplication [OF m]
  show "\<exists>ctx' data.
             CreateLoanApplication ctx k applicant amount term rate = (Inr (), ctx')
           \<and> GetState ctx' k = Inr (Some data)
           \<and> Unmarshal_LoanApplication data =
               Inr (LoanApplication_utf8
                      \<lparr>LoanApplication.ID = k, Applicant = applicant, Amount = amount,
                       Term = term, InterestRate = rate, Status = ''Pending''\<rparr>)"
    unfolding rate by (intro exI conjI)
next
  fix m
  assume "GetState ctx k = Inr None \<and> fault ctx (PutStateCall k) = Some m"
  then show "CreateIdentity ctx k title firstName lastName cnic dob gender mobile
           = (Inl (StubError m), ctx)"
    by (simp add: CreateIdentity_def IdentityExists_def Marshal_Identity_def PutState_def)
next
  fix m q
  assume "GetState ctx k = Inr None \<and> fault ctx (PutStateCall k) = Some m"
    and "rate = Finite q"
  then show "CreateLoanApplication ctx k applicant amount term rate = (Inl (StubError m), ctx)"
    by (simp add: CreateLoanApplication_def LoanExists_def Marshal_LoanApplication_def
        encode_float_def PutState_def)
next
  fix e ctx'
  assume "CreateLoanApplication ctx k applicant amount term rate = (Inl e, ctx')"
  from CreateLoanApplication_Inl [OF this]
  show "ctx' = ctx" and "e = AlreadyExists k \<and> (\<exists>v. GetState ctx k = Inr (Some v))
          \<or> (\<exists>m. e = StubError m \<and>
                (fault ctx (GetStateCall k) = Some m \<or> fault ctx (PutStateCall k) = Some m))
          \<or> e = UnsupportedValue \<and> (\<forall>q. rate \<noteq> Finite q)"
    by (rule conjunct1, rule conjunct2)
next
  fix e ctx'
  assume "CreateIdentity ctx k title firstName lastName cnic dob gender mobile = (Inl e, ctx')"
  from CreateIdentity_Inl [OF this]
  show "ctx' = ctx" and "e = AlreadyExists k \<and> (\<exists>v. GetState ctx k = Inr (Some v))
          \<or> (\<exists>m. e = ReadFailed (StubError m) \<and> fault ctx (GetStateCall k) = Some m)
          \<or> (\<exists>m. e = StubError m \<and> fault ctx (PutStateCall k) = Some m)"
    by (rule conjunct1, rule conjunct2)
qed

text \<open>
  Two creates of a key without live value that fail. On the ledger whose \<open>PutState\<close>
  refuses the empty key, \<open>CreateLoanApplication\<close> and \<open>CreateIdentity\<close> of the
  empty key return the error of \<open>PutState\<close> and store nothing. On the ledger
  without faults, \<open>CreateLoanApplication\<close> with an infinite interest rate fails with
  the error of \<open>json.Marshal\<close>, which is neither a live key nor an error of the state
  access.
\<close>

theorem C10_empty_key_counterexample:
  "GetState strict_ledger [] = Inr None
   \<and> CreateLoanApplication strict_ledger [] ''Afraz'' 10000 12 (Finite (11 / 2))
       = (Inl (StubError ''key must not be an empty string''), strict_ledger)
   \<and> CreateIdentity strict_ledger [] ''Mr.'' ''John'' ''Doe'' ''12345-6789012-3'' ''01-01-1980'' ''Male'' ''03001234567''
       = (Inl (StubError ''key must not be an empty string''), strict_ledger)
   \<and> GetState empty_ledger ''loan1'' = Inr None
   \<and> fault empty_ledger (GetStateCall ''loan1'') = None
   \<and> fault empty_ledger (PutStateCall ''loan1'') = None
   \<and> CreateLoanApplication empty_ledger ''loan1'' ''Afraz'' 10000 12 PosInf
       = (Inl UnsupportedValue, empty_ledger)"
  by (simp add: CreateLoanApplication_def LoanExists_def CreateIdentity_def IdentityExists_def
      GetState_def PutState_def strict_ledger_def empty_ledger_def
      Marshal_LoanApplication_def Marshal_Identity_def encode_float_def)

lemma GetState_strict_ledger: "GetState strict_ledger k = Inr None"
  by (simp add: GetState_def strict_ledger_def empty_ledger_def split: stub_call.splits)

theorem C10_create_accepts_every_key_witness:
  "GetState empty_ledger ''loan1'' = Inr None
   \<and> fault empty_ledger (PutStateCall ''loan1'') = None
   \<and> (\<exists>ctx' data.
          CreateIdentity empty_ledger ''loan1'' ''Mr.'' ''John'' ''Doe'' ''12345-6789012-3'' ''01-01-1980'' ''Male'' ''03001234567'' = (Inr (), ctx')
        \<and> GetState ctx' ''loan1'' = Inr (Some data))
   \<and> (\<exists>ctx' data.
          CreateLoanApplication empty_ledger ''loan1'' ''Afraz'' 10000 12 (Finite (11 / 2)) = (Inr (), ctx')
        \<and> GetState ctx' ''loan1'' = Inr (Some data))
   \<and> GetState strict_ledger [] = Inr None
   \<and> fault strict_ledger (PutStateCall []) = Some ''key must not be an empty string''
   \<and> CreateIdentity strict_ledger [] ''Mr.'' ''John'' ''Doe'' ''12345-6789012-3'' ''01-01-1980'' ''Male'' ''03001234567''
       = (Inl (StubError ''key must not be an empty string''), strict_ledger)
   \<and> CreateLoanApplication strict_ledger [] ''Afraz'' 10000 12 (Finite (11 / 2))
       = (Inl (StubError ''key must not be an empty string''), strict_ledger)
   \<and> CreateLoanApplication loan1_ledger ''loan1'' ''Alam'' 5000 6 (Finite (21 / 5))
       = (Inl (AlreadyExists ''loan1''), loan1_ledger)
   \<and> (\<exists>v. GetState loan1_ledger ''loan1'' = Inr (Some v))
   \<and> CreateIdentity loan1_ledger ''loan1'' ''Mr.'' ''John'' ''Doe'' ''12345-6789012-3'' ''01-01-1980'' ''Male'' ''03001234567''
       = (Inl (AlreadyExists ''loan1''), loan1_ledger)"
proof -
  have f: "fault empty_ledger (PutStateCall ''loan1'') = None"
    by (simp add: empty_ledger_def)
  have sf: "fault strict_ledger (PutStateCall []) = Some ''key must not be an empty string''"
    by (simp add: strict_ledger_def)
  note all = C10_create_accepts_every_key [of empty_ledger "''loan1''" "''Mr.''" "''John''" "''Doe''"
      "''12345-6789012-3''" "''01-01-1980''" "''Male''" "''03001234567''"
      "Finite (11 / 2)" "''Afraz''" 10000 12]
  note fresh = all [THEN conjunct1, THEN mp, OF conjI [OF GetState_empty_ledger f]]
  note identity_part = fresh [THEN conjunct1]
  note loan_part = fresh [THEN conjunct2, THEN spec, of "11 / 2", THEN mp, OF refl]
  have 1: "\<exists>ctx' data.
          CreateIdentity empty_ledger ''loan1'' ''Mr.'' ''John'' ''Doe'' ''12345-6789012-3'' ''01-01-1980'' ''Male'' ''03001234567'' = (Inr (), ctx')
        \<and> GetState ctx' ''loan1'' = Inr (Some data)"
  proof -
    from identity_part obtain ctx' data where
      "CreateIdentity empty_ledger ''loan1'' ''Mr.'' ''John'' ''Doe'' ''12345-6789012-3'' ''01-01-1980'' ''Male'' ''03001234567'' = (Inr (), ctx')"
      and "GetState ctx' ''loan1'' = Inr (Some data)"
      by (elim exE conjE)
    then show ?thesis by (intro exI conjI)
  qed
  have 2: "\<exists>ctx' data.
          CreateLoanApplication empty_ledger ''loan1'' ''Afraz'' 10000 12 (Finite (11 / 2)) = (Inr (), ctx')
        \<and> GetState ctx' ''loan1'' = Inr (Some data)"
  proof -
    from loan_part obtain ctx' data where
      "CreateLoanApplication empty_ledger ''loan1'' ''Afraz'' 10000 12 (Finite (11 / 2)) = (Inr (), ctx')"
      and "GetState ctx' ''loan1'' = Inr (Some data)"
      by (elim exE conjE)
    then show ?thesis by (intro exI conjI)
  qed
  note refused = C10_create_accepts_every_key [of strict_ledger "[]" "''Mr.''" "''John''" "''Doe''"
      "''12345-6789012-3''" "''01-01-1980''" "''Male''" "''03001234567''"
      "Finite (11 / 2)" "''Afraz''" 10000 12, THEN conjunct2, THEN conjunct1, THEN spec,
      THEN mp, OF conjI [OF GetState_strict_ledger sf]]
  note r1 = refused [THEN conjunct1]
  note r2 = refused [THEN conjunct2, THEN spec, of "11 / 2", THEN mp, OF refl]
  have 3: "CreateLoanApplication loan1_ledger ''loan1'' ''Alam'' 5000 6 (Finite (21 / 5))
       = (Inl (AlreadyExists ''loan1''), loan1_ledger)"
    by (rule CreateLoanApplication_live [OF GetState_loan1_ledger])
  have 5: "CreateIdentity loan1_ledger ''loan1'' ''Mr.'' ''John'' ''Doe'' ''12345-6789012-3'' ''01-01-1980'' ''Male'' ''03001234567''
       = (Inl (AlreadyExists ''loan1''), loan1_ledger)"
    by (rule CreateIdentity_live [OF GetState_loan1_ledger])
  note live = C10_create_accepts_every_key [of loan1_ledger "''loan1''" "''Mr.''" "''John''" "''Doe''"
      "''12345-6789012-3''" "''01-01-1980''" "''Male''" "''03001234567''"
      "Finite (21 / 5)" "''Alam''" 5000 6, THEN conjunct2, THEN conjunct2]
  note failure = live [THEN conjunct1, THEN spec, THEN spec, THEN mp, OF 3]
  note failure' = live [THEN conjunct2, THEN spec, THEN spec, THEN mp, OF 5]
  have 4: "\<exists>v. GetState loan1_ledger ''loan1'' = Inr (Some v)"
    using failure failure' by simp
  show ?thesis
    by (intro conjI GetState_empty_ledger f 1 2 GetState_strict_ledger sf r1 r2 3 4 5)
qed

lemma fault_begin_tx [simp]: "fault (begin_tx t ctx) = fault ctx"
  by (simp add: begin_tx_def)

lemma world_begin_tx [simp]: "world (begin_tx t ctx) = world ctx"
  by (simp add: begin_tx_def)

lemma history_begin_tx [simp]: "history (begin_tx t ctx) = history ctx"
  by (simp add: begin_tx_def)

lemma GetState_DelState_same:
  "DelState ctx k = (Inr u, ctx') \<Longrightarrow> fault ctx (GetStateCall k) = None \<Longrightarrow> GetState ctx' k = Inr None"
  by (auto simp: DelState_def GetState_def map_of_remove split: option.splits)

lemma GetState_DelState_other:
  "DelState ctx k = (Inr u, ctx') \<Longrightarrow> k' \<noteq> k \<Longrightarrow> GetState ctx' k' = GetState ctx k'"
  by (auto simp: DelState_def GetState_def map_of_remove split: option.splits)

lemma DeletePokemon_Inr:
  assumes "DeletePokemon ctx k = (Inr u, ctx')"
  shows "fault ctx (GetStateCall k) = None \<and> DelState ctx k = (Inr (), ctx')"
  using assms
  by (auto simp: DeletePokemon_def PokemonExists_def GetState_def split: option.splits if_splits)

lemma CreatePokemon_Inr:
  assumes "CreatePokemon ctx k name ptype trainer location power' = (Inr u, ctx')"
  shows "\<exists>data. GetState ctx k = Inr None
      \<and> Marshal_Pokemon \<lparr>Pokemon.ID = k, Name = name, Type = ptype, Power = power',
            Trainer = trainer, Evolved = False, Location = location\<rparr> = Inr data
      \<and> PutState ctx k data = (Inr (), ctx')"
  using assms
  by (auto simp: CreatePokemon_def PokemonExists_def Let_def split: sum.splits if_splits)

text \<open>
  Claim C4. After a successful \<open>CreatePokemon\<close> of a key and a successful
  \<open>DeletePokemon\<close> of it in a later transaction, in every following transaction
  \<open>PokemonExists\<close> answers false, and \<open>ReadPokemon\<close> and a second
  \<open>DeletePokemon\<close> fail with the does-not-exist error and leave the ledger as it is.
  Every other key reads as it did before the two transactions.
\<close>

theorem C4_delete_clears_key:
  assumes "CreatePokemon ctx k name ptype trainer location power' = (Inr (), ctx1)"
      and "DeletePokemon (begin_tx t ctx1) k = (Inr (), ctx2)"
  shows "PokemonExists (begin_tx t' ctx2) k = (Inr False, begin_tx t' ctx2)
       \<and> ReadPokemon (begin_tx t' ctx2) k = (Inl (DoesNotExist k), begin_tx t' ctx2)
       \<and> DeletePokemon (begin_tx t' ctx2) k = (Inl (DoesNotExist k), begin_tx t' ctx2)
       \<and> (\<forall>k'. k' \<noteq> k \<longrightarrow> GetState ctx2 k' = GetState ctx k')"
proof -
  obtain data where p: "PutState ctx k data = (Inr (), ctx1)"
    using CreatePokemon_Inr [OF assms(1)] by blast
  have nf: "fault (begin_tx t ctx1) (GetStateCall k) = None"
    and d: "DelState (begin_tx t ctx1) k = (Inr (), ctx2)"
    using DeletePokemon_Inr [OF assms(2)] by simp_all
  have g: "GetState ctx2 k = Inr None"
    by (rule GetState_DelState_same [OF d nf])
  have other: "\<forall>k'. k' \<noteq> k \<longrightarrow> GetState ctx2 k' = GetState ctx k'"
    using GetState_DelState_other [OF d] GetState_PutState_other [OF p] by simp
  show ?thesis
    using g other
    by (simp add: PokemonExists_def ReadPokemon_def DeletePokemon_def)
qed

lemma LoanApplication_member_finite:
  assumes "LoanApplication_member k v r = Inr r'" and "\<exists>q. InterestRate r = Finite q"
  shows "\<exists>q. InterestRate r' = Finite q"
  using assms
  by (auto simp: LoanApplication_member_def decode_string_def decode_int_def decode_float_def
      split: if_splits json.splits)

lemma decode_members_LoanApplication_finite:
  assumes "decode_members LoanApplication_member kvs r = Inr r'" and "\<exists>q. InterestRate r = Finite q"
  shows "\<exists>q. InterestRate r' = Finite q"
  using assms
proof (induction kvs arbitrary: r)
  case Nil
  then show ?case by simp
next
  case (Cons kv kvs)
  obtain k v where kv: "kv = (k, v)" by (cases kv)
  from Cons.prems(1) obtain r1 where m: "LoanApplication_member k v r = Inr r1"
    and rest: "decode_members LoanApplication_member kvs r1 = Inr r'"
    by (auto simp: kv split: sum.splits)
  show ?case
    by (rule Cons.IH [OF rest LoanApplication_member_finite [OF m Cons.prems(2)]])
qed

lemma Unmarshal_LoanApplication_finite:
  assumes "Unmarshal_LoanApplication data = Inr loan"
  shows "\<exists>q. InterestRate loan = Finite q"
proof (cases data)
  case (JObject kvs)
  then have "decode_members LoanApplication_member kvs LoanApplication_zero = Inr loan"
    using assms by (simp add: Unmarshal_LoanApplication_def decode_struct_def)
  then show ?thesis
    by (rule decode_members_LoanApplication_finite) (simp add: LoanApplication_zero_def)
qed (use assms in \<open>auto simp: Unmarshal_LoanApplication_def decode_struct_def LoanApplication_zero_def\<close>)

lemma ReadLoanApplication_Inr:
  assumes "ReadLoanApplication ctx k = (Inr loan, ctx')"
  shows "\<exists>data. GetState ctx k = Inr (Some data) \<and> Unmarshal_LoanApplication data = Inr loan \<and> ctx' = ctx"
  using assms
  by (auto simp: ReadLoanApplication_def split: sum.splits option.splits)

text \<open>
  Claim C8, as amended. When \<open>ReadLoanApplication\<close> returns a loan for a key and the
  platform accepts the write, \<open>UpdateLoanStatus\<close> succeeds, and afterwards
  \<open>ReadLoanApplication\<close> returns the same loan with the new status read as UTF-8:
  identifier, applicant, amount, term and interest rate are those of the loan before,
  and the status is the new status with every byte that is not well-formed UTF-8
  replaced by U+FFFD, which is the new status itself when it is valid UTF-8. Every
  other key reads as before.
\<close>

theorem C8_update_status_frame:
  assumes "ReadLoanApplication ctx k = (Inr loan, ctx)"
      and "fault ctx (PutStateCall k) = None"
  shows "\<exists>ctx'. UpdateLoanStatus ctx k newStatus = (Inr (), ctx')
           \<and> ReadLoanApplication ctx' k = (Inr (loan\<lparr>Status := coerce_utf8 newStatus\<rparr>), ctx')
           \<and> (valid_utf8 newStatus \<longrightarrow>
                ReadLoanApplication ctx' k = (Inr (loan\<lparr>Status := newStatus\<rparr>), ctx'))
           \<and> (\<forall>k'. k' \<noteq> k \<longrightarrow> GetState ctx' k' = GetState ctx k')"
proof -
  obtain data where g: "GetState ctx k = Inr (Some data)"
    and u: "Unmarshal_LoanApplication data = Inr loan"
    using ReadLoanApplication_Inr [OF assms(1)] by blast
  obtain q where q: "InterestRate loan = Finite q"
    using Unmarshal_LoanApplication_finite [OF u] by blast
  obtain data' where m: "Marshal_LoanApplication (loan\<lparr>Status := newStatus\<rparr>) = Inr data'"
    using q by (simp add: Marshal_LoanApplication_def encode_float_def)
  define ctx' where "ctx' = snd (PutState ctx k data')"
  have p: "PutState ctx k data' = (Inr (), ctx')"
    using assms(2) by (simp add: ctx'_def PutState_def)
  have nf: "fault ctx (GetStateCall k) = None"
    using g by (simp add: GetState_Inr)
  have "coerce_utf8 (LoanApplication.ID loan) = LoanApplication.ID loan"
    and "coerce_utf8 (Applicant loan) = Applicant loan"
    using arg_cong [OF Unmarshal_LoanApplication_utf8 [OF u], of LoanApplication.ID]
      arg_cong [OF Unmarshal_LoanApplication_utf8 [OF u], of Applicant]
    by (simp_all add: LoanApplication_utf8_def)
  then have l: "LoanApplication_utf8 (loan\<lparr>Status := newStatus\<rparr>) =
      loan\<lparr>Status := coerce_utf8 newStatus\<rparr>"
    by (simp add: LoanApplication_utf8_def)
  have 1: "UpdateLoanStatus ctx k newStatus = (Inr (), ctx')"
    using assms(1) m p by (simp add: UpdateLoanStatus_def)
  have 2: "ReadLoanApplication ctx' k = (Inr (loan\<lparr>Status := coerce_utf8 newStatus\<rparr>), ctx')"
    using GetState_PutState_same [OF p nf] Unmarshal_Marshal_LoanApplication [OF m]
    by (simp add: ReadLoanApplication_def l)
  have 3: "valid_utf8 newStatus \<longrightarrow>
      ReadLoanApplication ctx' k = (Inr (loan\<lparr>Status := newStatus\<rparr>), ctx')"
    using 2 by (simp add: valid_utf8_coerce)
  have 4: "\<forall>k'. k' \<noteq> k \<longrightarrow> GetState ctx' k' = GetState ctx k'"
    using GetState_PutState_other [OF p] by simp
  show ?thesis
    using 1 2 3 4 by blast
qed

lemma Marshal_Pokemon_doc: "Marshal_Pokemon p = Inr (pokemon_doc p)"
  by (simp add: Marshal_Pokemon_def pokemon_doc_def encode_int_def encode_string_def)

lemma Unmarshal_pokemon_doc: "Unmarshal_Pokemon (pokemon_doc p) = Inr (Pokemon_utf8 p)"
  by (rule Unmarshal_Marshal_Pokemon [OF Marshal_Pokemon_doc])

lemma Pokemon_utf8_pikachu [simp]: "Pokemon_utf8 pikachu = pikachu"
  by (simp add: Pokemon_utf8_def pikachu_def coerce_utf8_ascii)

lemma Pokemon_utf8_raichu [simp]: "Pokemon_utf8 raichu = raichu"
  by (simp add: Pokemon_utf8_def raichu_def pikachu_def coerce_utf8_ascii)

lemma Pokemon_utf8_mewtwo [simp]: "Pokemon_utf8 mewtwo = mewtwo"
  by (simp add: Pokemon_utf8_def mewtwo_def coerce_utf8_ascii)

lemma Pokemon_utf8_sel [simp]:
  "Evolved (Pokemon_utf8 p) = Evolved p" "Power (Pokemon_utf8 p) = Power p"
  by (simp_all add: Pokemon_utf8_def)

lemma LoanApplication_utf8_sel [simp]:
  "Amount (LoanApplication_utf8 loan) = Amount loan" "Term (LoanApplication_utf8 loan) = Term loan"
  "InterestRate (LoanApplication_utf8 loan) = InterestRate loan"
  "Status (LoanApplication_utf8 loan) = coerce_utf8 (Status loan)"
  by (simp_all add: LoanApplication_utf8_def)

lemma coerce_utf8_Pending [simp]: "coerce_utf8 ''Pending'' = ''Pending''"
  by (simp add: coerce_utf8_ascii)

lemma Pokemon_utf8_other_fields [simp]:
  "Pokemon_utf8 (p\<lparr>Power := w\<rparr>) = (Pokemon_utf8 p)\<lparr>Power := w\<rparr>"
  "Pokemon_utf8 (p\<lparr>Evolved := e\<rparr>) = (Pokemon_utf8 p)\<lparr>Evolved := e\<rparr>"
  by (simp_all add: Pokemon_utf8_def)

lemma create_poke1:
  "CreatePokemon (begin_tx ''tx1'' empty_ledger) ''poke1'' ''Pikachu'' ''Electric'' ''Ash'' ''Pallet Town'' 55
     = (Inr (), poke1_ledger)"
  by (simp add: CreatePokemon_def PokemonExists_def GetState_def begin_tx_def empty_ledger_def
      Marshal_Pokemon_doc PutState_def poke1_ledger_def pikachu_def Let_def)

lemma delete_poke1:
  "DeletePokemon (begin_tx ''tx2'' poke1_ledger) ''poke1'' = (Inr (), poke1_deleted_ledger)"
  by (simp add: DeletePokemon_def PokemonExists_def GetState_def begin_tx_def poke1_ledger_def
      DelState_def remove_def poke1_deleted_ledger_def)

theorem C4_delete_clears_key_witness:
  "CreatePokemon (begin_tx ''tx1'' empty_ledger) ''poke1'' ''Pikachu'' ''Electric'' ''Ash'' ''Pallet Town'' 55
     = (Inr (), poke1_ledger)
   \<and> DeletePokemon (begin_tx ''tx2'' poke1_ledger) ''poke1'' = (Inr (), poke1_deleted_ledger)
   \<and> PokemonExists (begin_tx ''tx3'' poke1_deleted_ledger) ''poke1''
       = (Inr False, begin_tx ''tx3'' poke1_deleted_ledger)
   \<and> ReadPokemon (begin_tx ''tx3'' poke1_deleted_ledger) ''poke1''
       = (Inl (DoesNotExist ''poke1''), begin_tx ''tx3'' poke1_deleted_ledger)
   \<and> DeletePokemon (begin_tx ''tx3'' poke1_deleted_ledger) ''poke1''
       = (Inl (DoesNotExist ''poke1''), begin_tx ''tx3'' poke1_deleted_ledger)"
  using C4_delete_clears_key [OF create_poke1 delete_poke1, of "''tx3''"] create_poke1 delete_poke1
  by simp

lemma read_loan1:
  "ReadLoanApplication loan1_ledger ''loan1'' =
     (Inr \<lparr>LoanApplication.ID = ''loan1'', Applicant = ''Afraz'', Amount = 10000, Term = 12,
           InterestRate = Finite (11 / 2), Status = ''Pending''\<rparr>, loan1_ledger)"
  by (simp add: ReadLoanApplication_def GetState_loan1_ledger Unmarshal_LoanApplication_def
      decode_struct_def LoanApplication_member_def LoanApplication_zero_def decode_string_def
      decode_int_def decode_float_def coerce_utf8_ascii)

lemma update_loan1:
  "UpdateLoanStatus loan1_ledger ''loan1'' ''Approved'' = (Inr (), loan1_approved_ledger)"
proof -
  have "UpdateLoanStatus loan1_ledger ''loan1'' ''Approved'' =
      PutState loan1_ledger ''loan1''
        (JObject [(''id'', JString ''loan1''), (''applicant'', JString ''Afraz''),
           (''amount'', JNum 10000), (''term'', JNum 12), (''interestRate'', JNum (11 / 2)),
           (''status'', JString ''Approved'')])"
    by (simp add: UpdateLoanStatus_def read_loan1 Marshal_LoanApplication_def encode_float_def
        encode_int_def encode_string_ascii)
  also have "\<dots> = (Inr (), loan1_approved_ledger)"
    by (simp add: PutState_def loan1_ledger_def loan1_approved_ledger_def)
  finally show ?thesis .
qed

theorem C8_update_status_frame_witness:
  "ReadLoanApplication loan1_ledger ''loan1'' =
     (Inr \<lparr>LoanApplication.ID = ''loan1'', Applicant = ''Afraz'', Amount = 10000, Term = 12,
           InterestRate = Finite (11 / 2), Status = ''Pending''\<rparr>, loan1_ledger)
   \<and> fault loan1_ledger (PutStateCall ''loan1'') = None
   \<and> valid_utf8 ''Approved''
   \<and> UpdateLoanStatus loan1_ledger ''loan1'' ''Approved'' = (Inr (), loan1_approved_ledger)
   \<and> ReadLoanApplication loan1_approved_ledger ''loan1'' =
     (Inr \<lparr>LoanApplication.ID = ''loan1'', Applicant = ''Afraz'', Amount = 10000, Term = 12,
           InterestRate = Finite (11 / 2), Status = ''Approved''\<rparr>, loan1_approved_ledger)"
proof -
  have f: "fault loan1_ledger (PutStateCall ''loan1'') = None"
    by (simp add: loan1_ledger_def)
  have v: "valid_utf8 ''Approved''"
    by (simp add: ascii_valid)
  from C8_update_status_frame [OF read_loan1 f, of "''Approved''"]
  obtain ctx' where u: "UpdateLoanStatus loan1_ledger ''loan1'' ''Approved'' = (Inr (), ctx')"
    and r: "valid_utf8 ''Approved'' \<longrightarrow> ReadLoanApplication ctx' ''loan1'' =
      (Inr (\<lparr>LoanApplication.ID = ''loan1'', Applicant = ''Afraz'', Amount = 10000, Term = 12,
           InterestRate = Finite (11 / 2), Status = ''Pending''\<rparr>\<lparr>Status := ''Approved''\<rparr>), ctx')"
    by (elim exE conjE)
  have "ctx' = loan1_approved_ledger"
    using u update_loan1 by simp
  with r [THEN mp, OF v] have "ReadLoanApplication loan1_approved_ledger ''loan1'' =
     (Inr \<lparr>LoanApplication.ID = ''loan1'', Applicant = ''Afraz'', Amount = 10000, Term = 12,
           InterestRate = Finite (11 / 2), Status = ''Approved''\<rparr>, loan1_approved_ledger)"
    by simp
  then show ?thesis
    using read_loan1 f v update_loan1 by (intro conjI)
qed

text \<open>
  A new status that is the single byte 0xFF, which is not UTF-8: the update succeeds,
  and the status read afterwards is the three bytes of U+FFFD, not the status given.
\<close>

theorem C8_invalid_utf8_status_counterexample:
  "fst (ReadLoanApplication loan1_ledger ''loan1'') =
     Inr \<lparr>LoanApplication.ID = ''loan1'', Applicant = ''Afraz'', Amount = 10000, Term = 12,
          InterestRate = Finite (11 / 2), Status = ''Pending''\<rparr>
   \<and> fst (UpdateLoanStatus loan1_ledger ''loan1'' [CHR 0xFF]) = Inr ()
   \<and> fst (ReadLoanApplication (snd (UpdateLoanStatus loan1_ledger ''loan1'' [CHR 0xFF])) ''loan1'')
       = Inr \<lparr>LoanApplication.ID = ''loan1'', Applicant = ''Afraz'', Amount = 10000, Term = 12,
               InterestRate = Finite (11 / 2), Status = [CHR 0xEF, CHR 0xBF, CHR 0xBD]\<rparr>
   \<and> [CHR 0xEF, CHR 0xBF, CHR 0xBD] \<noteq> [CHR 0xFF]"
proof -
  have c: "coerce_utf8 [CHR 0xFF] = [CHR 0xEF, CHR 0xBF, CHR 0xBD]"
    by (simp add: coerce_utf8.simps(2) rune_size_def lead_size_def RuneError_def)
  have v: "valid_utf8 [CHR 0xEF, CHR 0xBF, CHR 0xBD]"
    by (simp add: valid_utf8.simps(2) rune_size_def lead_size_def second_byte_ok_def
        continuation_def)
  have 1: "UpdateLoanStatus loan1_ledger ''loan1'' [CHR 0xFF] =
      PutState loan1_ledger ''loan1''
        (JObject [(''id'', JString ''loan1''), (''applicant'', JString ''Afraz''),
           (''amount'', JNum 10000), (''term'', JNum 12), (''interestRate'', JNum (11 / 2)),
           (''status'', JString [CHR 0xEF, CHR 0xBF, CHR 0xBD])])"
    by (simp add: UpdateLoanStatus_def read_loan1 Marshal_LoanApplication_def encode_float_def
        encode_int_def encode_string_ascii) (simp add: encode_string_def c)
  show ?thesis
    unfolding 1
    by (simp add: read_loan1 PutState_def loan1_ledger_def ReadLoanApplication_def GetState_def
        Unmarshal_LoanApplication_def decode_struct_def LoanApplication_member_def
        LoanApplication_zero_def decode_string_def decode_int_def decode_float_def
        coerce_utf8_ascii valid_utf8_coerce [OF v])
qed

lemma ReadPokemon_Inr:
  assumes "ReadPokemon ctx k = (Inr p, ctx')"
  shows "\<exists>data. GetState ctx k = Inr (Some data) \<and> Unmarshal_Pokemon data = Inr p \<and> ctx' = ctx"
  using assms
  by (auto simp: ReadPokemon_def split: sum.splits option.splits)

lemma sint_add_30_small:
  fixes w :: go_int
  assumes "sint w \<le> 2 ^ 63 - 31"
  shows "sint (w + 30) = sint w + 30"
proof -
  have "- (2 ^ 63) \<le> sint w"
    using sint_ge [of w] by simp
  then have "signed_take_bit 63 (sint w + 30) = sint w + 30"
    using assms by (intro signed_take_bit_int_eq_self) simp_all
  then show ?thesis
    by (simp add: sint_word_ariths)
qed

lemma sint_add_30_large:
  fixes w :: go_int
  assumes "2 ^ 63 - 31 < sint w"
  shows "sint (w + 30) = sint w + 30 - 2 ^ 64"
proof -
  have ub: "sint w < 2 ^ 63"
    using sint_lt [of w] by simp
  have "signed_take_bit 63 (sint w + 30) = signed_take_bit 63 (sint w + 30 - 2 ^ 64)"
    using signed_take_bit_diff [of 63 "sint w + 30" "2 ^ 64"]
    by (simp add: signed_take_bit_eq_iff_take_bit_eq take_bit_eq_mod)
  also have "\<dots> = sint w + 30 - 2 ^ 64"
    using assms ub by (intro signed_take_bit_int_eq_self) simp_all
  finally show ?thesis
    by (simp add: sint_word_ariths)
qed

text \<open>
  Claim C7, as amended. Let \<open>ReadPokemon\<close> return the record \<open>p\<close> for a key. If
  \<open>p\<close> is evolved, \<open>EvolvePokemon\<close> fails with the already-evolved error and leaves
  the ledger as it is. If \<open>p\<close> is not evolved and the platform accepts the write,
  \<open>EvolvePokemon\<close> succeeds and the record then read is \<open>p\<close> with \<open>Evolved\<close> set
  and \<open>Power\<close> replaced by \<open>Power + 30\<close> in 64-bit arithmetic, all other fields and
  all other keys as before: the signed value of the power grows by 30 when it was at
  most \<open>2 ^ 63 - 31\<close>, and is the old value plus \<open>30 - 2 ^ 64\<close> when it was larger.
\<close>

theorem C7_evolve:
  assumes "ReadPokemon ctx k = (Inr p, ctx)"
  shows "(Evolved p \<longrightarrow> EvolvePokemon ctx k = (Inl (AlreadyEvolved k), ctx))
       \<and> (\<not> Evolved p \<and> fault ctx (PutStateCall k) = None \<longrightarrow>
            (\<exists>ctx'. EvolvePokemon ctx k = (Inr (), ctx')
               \<and> ReadPokemon ctx' k = (Inr (p\<lparr>Evolved := True, Power := Power p + 30\<rparr>), ctx')
               \<and> (\<forall>k'. k' \<noteq> k \<longrightarrow> GetState ctx' k' = GetState ctx k'))
          \<and> (sint (Power p) \<le> 2 ^ 63 - 31 \<longrightarrow> sint (Power p + 30) = sint (Power p) + 30)
          \<and> (2 ^ 63 - 31 < sint (Power p) \<longrightarrow> sint (Power p + 30) = sint (Power p) + 30 - 2 ^ 64))"
proof (intro conjI impI)
  assume "Evolved p"
  then show "EvolvePokemon ctx k = (Inl (AlreadyEvolved k), ctx)"
    using assms by (simp add: EvolvePokemon_def)
next
  assume h: "\<not> Evolved p \<and> fault ctx (PutStateCall k) = None"
  obtain data where g: "GetState ctx k = Inr (Some data)"
    and u: "Unmarshal_Pokemon data = Inr p"
    using ReadPokemon_Inr [OF assms] by blast
  then have nf: "fault ctx (GetStateCall k) = None"
    by (simp add: GetState_Inr)
  define p' where "p' = p\<lparr>Evolved := True, Power := Power p + 30\<rparr>"
  have utf8: "Pokemon_utf8 p' = p'"
    by (simp add: p'_def Unmarshal_Pokemon_utf8 [OF u])
  define ctx' where "ctx' = snd (PutState ctx k (pokemon_doc p'))"
  have put: "PutState ctx k (pokemon_doc p') = (Inr (), ctx')"
    using h by (simp add: ctx'_def PutState_def)
  have "EvolvePokemon ctx k = (Inr (), ctx')"
    using assms h put by (simp add: EvolvePokemon_def Marshal_Pokemon_doc p'_def)
  moreover have "ReadPokemon ctx' k = (Inr p', ctx')"
    using GetState_PutState_same [OF put nf]
    by (simp add: ReadPokemon_def Unmarshal_pokemon_doc utf8)
  moreover have "\<forall>k'. k' \<noteq> k \<longrightarrow> GetState ctx' k' = GetState ctx k'"
    using GetState_PutState_other [OF put] by simp
  ultimately show "\<exists>ctx'. EvolvePokemon ctx k = (Inr (), ctx')
               \<and> ReadPokemon ctx' k = (Inr (p\<lparr>Evolved := True, Power := Power p + 30\<rparr>), ctx')
               \<and> (\<forall>k'. k' \<noteq> k \<longrightarrow> GetState ctx' k' = GetState ctx k')"
    unfolding p'_def by blast
next
  assume "sint (Power p) \<le> 2 ^ 63 - 31"
  then show "sint (Power p + 30) = sint (Power p) + 30"
    by (rule sint_add_30_small)
next
  assume "2 ^ 63 - 31 < sint (Power p)"
  then show "sint (Power p + 30) = sint (Power p) + 30 - 2 ^ 64"
    by (rule sint_add_30_large)
qed

lemma read_poke1: "ReadPokemon poke1_ledger ''poke1'' = (Inr pikachu, poke1_ledger)"
  by (simp add: ReadPokemon_def GetState_def poke1_ledger_def Unmarshal_pokemon_doc)

lemma read_poke1_evolved: "ReadPokemon poke1_evolved_ledger ''poke1'' = (Inr raichu, poke1_evolved_ledger)"
  by (simp add: ReadPokemon_def GetState_def poke1_evolved_ledger_def Unmarshal_pokemon_doc)

lemma read_poke9: "ReadPokemon poke9_ledger ''poke9'' = (Inr mewtwo, poke9_ledger)"
  by (simp add: ReadPokemon_def GetState_def poke9_ledger_def Unmarshal_pokemon_doc)

lemma evolve_poke1:
  "EvolvePokemon (begin_tx ''tx2'' poke1_ledger) ''poke1'' = (Inr (), poke1_evolved_ledger)"
proof -
  have r: "ReadPokemon (begin_tx ''tx2'' poke1_ledger) ''poke1'' = (Inr pikachu, begin_tx ''tx2'' poke1_ledger)"
    by (simp add: ReadPokemon_def GetState_def poke1_ledger_def Unmarshal_pokemon_doc)
  have "EvolvePokemon (begin_tx ''tx2'' poke1_ledger) ''poke1'' =
      PutState (begin_tx ''tx2'' poke1_ledger) ''poke1'' (pokemon_doc raichu)"
    by (simp add: EvolvePokemon_def r Marshal_Pokemon_doc raichu_def) (simp add: pikachu_def)
  also have "\<dots> = (Inr (), poke1_evolved_ledger)"
    by (simp add: PutState_def begin_tx_def poke1_ledger_def poke1_evolved_ledger_def)
  finally show ?thesis .
qed

lemma max_int_plus_30: "(9223372036854775837 :: go_int) = - 9223372036854775779"
  by (simp add: word_eq_iff_unsigned [where ?'a = int])

lemma evolve_poke9:
  "EvolvePokemon (begin_tx ''tx2'' poke9_ledger) ''poke9'' = (Inr (), poke9_evolved_ledger)"
proof -
  have r: "ReadPokemon (begin_tx ''tx2'' poke9_ledger) ''poke9'' = (Inr mewtwo, begin_tx ''tx2'' poke9_ledger)"
    by (simp add: ReadPokemon_def GetState_def poke9_ledger_def Unmarshal_pokemon_doc)
  have "EvolvePokemon (begin_tx ''tx2'' poke9_ledger) ''poke9'' =
      PutState (begin_tx ''tx2'' poke9_ledger) ''poke9''
         (pokemon_doc (mewtwo\<lparr>Evolved := True, Power := - 9223372036854775779\<rparr>))"
    by (simp add: EvolvePokemon_def r Marshal_Pokemon_doc) (simp add: mewtwo_def max_int_plus_30)
  also have "\<dots> = (Inr (), poke9_evolved_ledger)"
    by (simp add: PutState_def begin_tx_def poke9_ledger_def poke9_evolved_ledger_def)
  finally show ?thesis .
qed

text \<open>
  A Pokemon created with the largest power an \<open>int\<close> holds: the evolution succeeds and
  the power read afterwards is negative, not the old power plus 30.
\<close>

theorem C7_power_wraps_counterexample:
  "ReadPokemon (begin_tx ''tx2'' poke9_ledger) ''poke9'' = (Inr mewtwo, begin_tx ''tx2'' poke9_ledger)
   \<and> \<not> Evolved mewtwo
   \<and> sint (Power mewtwo) = 9223372036854775807
   \<and> EvolvePokemon (begin_tx ''tx2'' poke9_ledger) ''poke9'' = (Inr (), poke9_evolved_ledger)
   \<and> ReadPokemon poke9_evolved_ledger ''poke9''
       = (Inr (mewtwo\<lparr>Evolved := True, Power := - 9223372036854775779\<rparr>), poke9_evolved_ledger)
   \<and> sint (Power (mewtwo\<lparr>Evolved := True, Power := - 9223372036854775779\<rparr>)) = - 9223372036854775779
   \<and> sint (Power (mewtwo\<lparr>Evolved := True, Power := - 9223372036854775779\<rparr>))
       \<noteq> sint (Power mewtwo) + 30"
proof -
  have 1: "ReadPokemon (begin_tx ''tx2'' poke9_ledger) ''poke9'' = (Inr mewtwo, begin_tx ''tx2'' poke9_ledger)"
    by (simp add: ReadPokemon_def GetState_def poke9_ledger_def Unmarshal_pokemon_doc)
  have 2: "ReadPokemon poke9_evolved_ledger ''poke9''
       = (Inr (mewtwo\<lparr>Evolved := True, Power := - 9223372036854775779\<rparr>), poke9_evolved_ledger)"
    by (simp add: ReadPokemon_def GetState_def poke9_evolved_ledger_def Unmarshal_pokemon_doc)
  have 3: "sint (Power mewtwo) = 9223372036854775807"
    by (simp add: mewtwo_def)
  have 4: "sint (Power (mewtwo\<lparr>Evolved := True, Power := - 9223372036854775779\<rparr>)) = - 9223372036854775779"
    by simp
  show ?thesis
    using 1 2 evolve_poke9 by (simp add: 3 4) (simp add: mewtwo_def)
qed

theorem C7_evolve_witness:
  "ReadPokemon poke1_evolved_ledger ''poke1'' = (Inr raichu, poke1_evolved_ledger)
   \<and> Evolved raichu
   \<and> EvolvePokemon poke1_evolved_ledger ''poke1''
       = (Inl (AlreadyEvolved ''poke1''), poke1_evolved_ledger)
   \<and> ReadPokemon poke1_ledger ''poke1'' = (Inr pikachu, poke1_ledger)
   \<and> \<not> Evolved pikachu
   \<and> fault poke1_ledger (PutStateCall ''poke1'') = None
   \<and> (\<exists>ctx'. EvolvePokemon poke1_ledger ''poke1'' = (Inr (), ctx')
          \<and> ReadPokemon ctx' ''poke1'' = (Inr (pikachu\<lparr>Evolved := True, Power := Power pikachu + 30\<rparr>), ctx'))
   \<and> sint (Power pikachu) \<le> 2 ^ 63 - 31
   \<and> sint (Power pikachu + 30) = sint (Power pikachu) + 30
   \<and> 2 ^ 63 - 31 < sint (Power mewtwo)
   \<and> sint (Power mewtwo + 30) = sint (Power mewtwo) + 30 - 2 ^ 64"
proof -
  have e: "Evolved raichu" and ne: "\<not> Evolved pikachu"
    by (simp_all add: raichu_def pikachu_def)
  have f: "fault poke1_ledger (PutStateCall ''poke1'') = None"
    by (simp add: poke1_ledger_def)
  have small: "sint (Power pikachu) \<le> 2 ^ 63 - 31"
    by (simp add: pikachu_def)
  have large: "2 ^ 63 - 31 < sint (Power mewtwo)"
    by (simp add: mewtwo_def)
  note evolved = C7_evolve [OF read_poke1_evolved, THEN conjunct1, THEN mp, OF e]
  have ne9: "\<not> Evolved mewtwo" and f9: "fault poke9_ledger (PutStateCall ''poke9'') = None"
    by (simp_all add: mewtwo_def poke9_ledger_def)
  note fresh1 = C7_evolve [OF read_poke1, THEN conjunct2, THEN mp, OF conjI [OF ne f]]
  note fresh9 = C7_evolve [OF read_poke9, THEN conjunct2, THEN mp, OF conjI [OF ne9 f9]]
  note fresh = fresh1 [THEN conjunct1]
  note arith = fresh1 [THEN conjunct2, THEN conjunct1, THEN mp, OF small]
  note wrap = fresh9 [THEN conjunct2, THEN conjunct2, THEN mp, OF large]
  have 1: "\<exists>ctx'. EvolvePokemon poke1_ledger ''poke1'' = (Inr (), ctx')
          \<and> ReadPokemon ctx' ''poke1'' = (Inr (pikachu\<lparr>Evolved := True, Power := Power pikachu + 30\<rparr>), ctx')"
  proof -
    from fresh obtain ctx' where
      "EvolvePokemon poke1_ledger ''poke1'' = (Inr (), ctx')"
      and "ReadPokemon ctx' ''poke1'' = (Inr (pikachu\<lparr>Evolved := True, Power := Power pikachu + 30\<rparr>), ctx')"
      by (elim exE conjE)
    then show ?thesis by (intro exI conjI)
  qed
  show ?thesis
    by (intro conjI read_poke1_evolved e evolved read_poke1 ne f 1 small arith large wrap)
qed

lemma fault_PutState: "PutState ctx k data = (r, ctx') \<Longrightarrow> fault ctx' = fault ctx"
  by (auto simp: PutState_def split: option.splits)

lemma fault_DelState: "DelState ctx k = (r, ctx') \<Longrightarrow> fault ctx' = fault ctx"
  by (auto simp: DelState_def split: option.splits)

lemma history_PutState:
  "PutState ctx k data = (Inr u, ctx') \<Longrightarrow>
   history ctx' = (history ctx)(k := history ctx k @ [\<lparr>TxId = TxID ctx, Value = Some data, IsDelete = False\<rparr>])"
  by (auto simp: PutState_def split: option.splits)

lemma history_DelState:
  "DelState ctx k = (Inr u, ctx') \<Longrightarrow>
   history ctx' = (history ctx)(k := history ctx k @ [\<lparr>TxId = TxID ctx, Value = None, IsDelete = True\<rparr>])"
  by (auto simp: DelState_def split: option.splits)

lemma TxID_begin_tx [simp]: "TxID (begin_tx t ctx) = t"
  by (simp add: begin_tx_def)

lemma collect_history_no_fault:
  assumes "fault ctx (HistoryNextCall k) = None"
  shows "collect_history ctx k revisions lines =
     Inr (lines @ map (\<lambda>resp. if IsDelete resp then Deleted_at_TxID (TxId resp)
                              else TxID_Data (TxId resp) (Value resp)) revisions)"
  using assms
  by (induction revisions arbitrary: lines) (simp_all add: HistoryIterator_Next_def)

lemma GetHistory_no_fault:
  assumes "fault ctx (GetHistoryForKeyCall k) = None" and "fault ctx (HistoryNextCall k) = None"
  shows "GetHistory ctx k =
     (Inr (map (\<lambda>resp. if IsDelete resp then Deleted_at_TxID (TxId resp)
                       else TxID_Data (TxId resp) (Value resp)) (history ctx k)), ctx)"
  using assms
  by (simp add: GetHistory_def GetHistoryForKey_def collect_history_no_fault)

lemma UpdatePokemon_Inr:
  assumes "UpdatePokemon ctx k trainer power' = (Inr u, ctx')"
  shows "\<exists>p data. ReadPokemon ctx k = (Inr p, ctx)
      \<and> Marshal_Pokemon (p\<lparr>Power := power', Trainer := trainer\<rparr>) = Inr data
      \<and> PutState ctx k data = (Inr (), ctx')"
proof -
  obtain r c where rc: "ReadPokemon ctx k = (r, c)"
    by (cases "ReadPokemon ctx k")
  then have c: "c = ctx"
    by (auto simp: ReadPokemon_def split: sum.splits option.splits)
  from assms rc obtain p where r: "r = Inr p"
    by (cases r) (auto simp: UpdatePokemon_def)
  show ?thesis
    using assms rc r c
    by (auto simp: UpdatePokemon_def Marshal_Pokemon_def)
qed

text \<open>
  Claim C5. \<open>GetHistory\<close> returns one line for each revision of the key, in the
  order of the revision sequence, which the platform keeps earliest first: a deletion
  gives a line with the transaction identifier only, a write a line with the
  transaction identifier and the value written. For a key without earlier revisions,
  after a successful \<open>CreatePokemon\<close>, \<open>UpdatePokemon\<close> and \<open>DeletePokemon\<close> in
  the transactions \<open>t1\<close>, \<open>t2\<close> and \<open>t3\<close> the history has exactly three lines: the
  document of the created record with \<open>t1\<close>, the document of the updated record with
  \<open>t2\<close>, and the deletion with \<open>t3\<close>.
\<close>

theorem C5_history_order:
  assumes "history ctx k = []"
      and "fault ctx (GetHistoryForKeyCall k) = None"
      and "fault ctx (HistoryNextCall k) = None"
      and "CreatePokemon (begin_tx t1 ctx) k name ptype trainer location power' = (Inr (), ctx1)"
      and "UpdatePokemon (begin_tx t2 ctx1) k new_trainer new_power = (Inr (), ctx2)"
      and "DeletePokemon (begin_tx t3 ctx2) k = (Inr (), ctx3)"
  shows "(\<exists>created updated.
            Marshal_Pokemon \<lparr>Pokemon.ID = k, Name = name, Type = ptype, Power = power',
               Trainer = trainer, Evolved = False, Location = location\<rparr> = Inr created
          \<and> Marshal_Pokemon \<lparr>Pokemon.ID = k, Name = name, Type = ptype, Power = new_power,
               Trainer = new_trainer, Evolved = False, Location = location\<rparr> = Inr updated
          \<and> GetHistory (begin_tx t4 ctx3) k =
              (Inr [TxID_Data t1 (Some created), TxID_Data t2 (Some updated), Deleted_at_TxID t3],
               begin_tx t4 ctx3))
       \<and> GetHistory ctx k = (Inr [], ctx)
       \<and> (\<forall>c. fault c (GetHistoryForKeyCall k) = None \<and> fault c (HistoryNextCall k) = None \<longrightarrow>
             GetHistory c k =
               (Inr (map (\<lambda>resp. if IsDelete resp then Deleted_at_TxID (TxId resp)
                                 else TxID_Data (TxId resp) (Value resp)) (history c k)), c))"
proof (intro conjI allI impI)
  let ?p1 = "\<lparr>Pokemon.ID = k, Name = name, Type = ptype, Power = power',
               Trainer = trainer, Evolved = False, Location = location\<rparr>"
  obtain created where g1: "GetState (begin_tx t1 ctx) k = Inr None"
    and m1: "Marshal_Pokemon ?p1 = Inr created"
    and p1: "PutState (begin_tx t1 ctx) k created = (Inr (), ctx1)"
    using CreatePokemon_Inr [OF assms(4)] by blast
  obtain p updated where r2: "ReadPokemon (begin_tx t2 ctx1) k = (Inr p, begin_tx t2 ctx1)"
    and m2: "Marshal_Pokemon (p\<lparr>Power := new_power, Trainer := new_trainer\<rparr>) = Inr updated"
    and p2: "PutState (begin_tx t2 ctx1) k updated = (Inr (), ctx2)"
    using UpdatePokemon_Inr [OF assms(5)] by blast
  have d3: "DelState (begin_tx t3 ctx2) k = (Inr (), ctx3)"
    using DeletePokemon_Inr [OF assms(6)] by simp
  have nf: "fault ctx (GetStateCall k) = None"
    using g1 by (simp add: GetState_Inr)
  have "GetState ctx1 k = Inr (Some created)"
    using GetState_PutState_same [OF p1] nf by simp
  then have "ReadPokemon (begin_tx t2 ctx1) k = (Inr (Pokemon_utf8 ?p1), begin_tx t2 ctx1)"
    by (simp add: ReadPokemon_def Unmarshal_Marshal_Pokemon [OF m1])
  with r2 have p: "p = Pokemon_utf8 ?p1" by simp
  have m2': "Marshal_Pokemon \<lparr>Pokemon.ID = k, Name = name, Type = ptype, Power = new_power,
               Trainer = new_trainer, Evolved = False, Location = location\<rparr> = Inr updated"
    using m2 by (simp add: p Marshal_Pokemon_def Pokemon_utf8_def encode_string_coerce)
  have h1: "history ctx1 k = [\<lparr>TxId = t1, Value = Some created, IsDelete = False\<rparr>]"
    using history_PutState [OF p1] assms(1) by simp
  have h2: "history ctx2 k = [\<lparr>TxId = t1, Value = Some created, IsDelete = False\<rparr>,
                              \<lparr>TxId = t2, Value = Some updated, IsDelete = False\<rparr>]"
    using history_PutState [OF p2] h1 by simp
  have h3: "history ctx3 k = [\<lparr>TxId = t1, Value = Some created, IsDelete = False\<rparr>,
                              \<lparr>TxId = t2, Value = Some updated, IsDelete = False\<rparr>,
                              \<lparr>TxId = t3, Value = None, IsDelete = True\<rparr>]"
    using history_DelState [OF d3] h2 by simp
  have f3: "fault ctx3 = fault ctx"
    using fault_PutState [OF p1] fault_PutState [OF p2] fault_DelState [OF d3] by simp
  have "GetHistory (begin_tx t4 ctx3) k =
      (Inr [TxID_Data t1 (Some created), TxID_Data t2 (Some updated), Deleted_at_TxID t3],
       begin_tx t4 ctx3)"
    using assms(2,3) by (subst GetHistory_no_fault) (simp_all add: f3 h3)
  then show "\<exists>created updated.
            Marshal_Pokemon ?p1 = Inr created
          \<and> Marshal_Pokemon \<lparr>Pokemon.ID = k, Name = name, Type = ptype, Power = new_power,
               Trainer = new_trainer, Evolved = False, Location = location\<rparr> = Inr updated
          \<and> GetHistory (begin_tx t4 ctx3) k =
              (Inr [TxID_Data t1 (Some created), TxID_Data t2 (Some updated), Deleted_at_TxID t3],
               begin_tx t4 ctx3)"
    using m1 m2' by blast
next
  show "GetHistory ctx k = (Inr [], ctx)"
    using assms(1,2,3) by (simp add: GetHistory_no_fault)
next
  fix c :: stub
  assume "fault c (GetHistoryForKeyCall k) = None \<and> fault c (HistoryNextCall k) = None"
  then show "GetHistory c k =
               (Inr (map (\<lambda>resp. if IsDelete resp then Deleted_at_TxID (TxId resp)
                                 else TxID_Data (TxId resp) (Value resp)) (history c k)), c)"
    by (simp add: GetHistory_no_fault)
qed

lemma update_poke1:
  "UpdatePokemon (begin_tx ''tx2'' poke1_ledger) ''poke1'' ''Misty'' 60 = (Inr (), poke1_trained_ledger)"
proof -
  have r: "ReadPokemon (begin_tx ''tx2'' poke1_ledger) ''poke1'' = (Inr pikachu, begin_tx ''tx2'' poke1_ledger)"
    by (simp add: ReadPokemon_def GetState_def poke1_ledger_def Unmarshal_pokemon_doc)
  have "UpdatePokemon (begin_tx ''tx2'' poke1_ledger) ''poke1'' ''Misty'' 60 =
      PutState (begin_tx ''tx2'' poke1_ledger) ''poke1''
        (pokemon_doc (pikachu\<lparr>Power := 60, Trainer := ''Misty''\<rparr>))"
    by (simp add: UpdatePokemon_def r Marshal_Pokemon_doc)
  also have "\<dots> = (Inr (), poke1_trained_ledger)"
    by (simp add: PutState_def begin_tx_def poke1_ledger_def poke1_trained_ledger_def)
  finally show ?thesis .
qed

lemma release_poke1:
  "DeletePokemon (begin_tx ''tx3'' poke1_trained_ledger) ''poke1'' = (Inr (), poke1_released_ledger)"
  by (simp add: DeletePokemon_def PokemonExists_def GetState_def begin_tx_def
      poke1_trained_ledger_def DelState_def remove_def poke1_released_ledger_def)

theorem C5_history_order_witness:
  "history empty_ledger ''poke1'' = []
   \<and> fault empty_ledger (GetHistoryForKeyCall ''poke1'') = None
   \<and> fault empty_ledger (HistoryNextCall ''poke1'') = None
   \<and> CreatePokemon (begin_tx ''tx1'' empty_ledger) ''poke1'' ''Pikachu'' ''Electric'' ''Ash'' ''Pallet Town'' 55
       = (Inr (), poke1_ledger)
   \<and> UpdatePokemon (begin_tx ''tx2'' poke1_ledger) ''poke1'' ''Misty'' 60 = (Inr (), poke1_trained_ledger)
   \<and> DeletePokemon (begin_tx ''tx3'' poke1_trained_ledger) ''poke1'' = (Inr (), poke1_released_ledger)
   \<and> GetHistory (begin_tx ''tx4'' poke1_released_ledger) ''poke1'' =
       (Inr [TxID_Data ''tx1'' (Some (pokemon_doc pikachu)),
             TxID_Data ''tx2'' (Some (pokemon_doc (pikachu\<lparr>Power := 60, Trainer := ''Misty''\<rparr>))),
             Deleted_at_TxID ''tx3''],
        begin_tx ''tx4'' poke1_released_ledger)
   \<and> GetHistory empty_ledger ''poke1'' = (Inr [], empty_ledger)"
proof -
  have h: "history empty_ledger ''poke1'' = []"
    and f1: "fault empty_ledger (GetHistoryForKeyCall ''poke1'') = None"
    and f2: "fault empty_ledger (HistoryNextCall ''poke1'') = None"
    by (simp_all add: empty_ledger_def)
  note inst = C5_history_order [OF h f1 f2 create_poke1 update_poke1 release_poke1, of "''tx4''"]
  from inst [THEN conjunct1] obtain created updated where
    c: "Marshal_Pokemon \<lparr>Pokemon.ID = ''poke1'', Name = ''Pikachu'', Type = ''Electric'', Power = 55,
               Trainer = ''Ash'', Evolved = False, Location = ''Pallet Town''\<rparr> = Inr created"
    and u: "Marshal_Pokemon \<lparr>Pokemon.ID = ''poke1'', Name = ''Pikachu'', Type = ''Electric'', Power = 60,
               Trainer = ''Misty'', Evolved = False, Location = ''Pallet Town''\<rparr> = Inr updated"
    and g: "GetHistory (begin_tx ''tx4'' poke1_released_ledger) ''poke1'' =
              (Inr [TxID_Data ''tx1'' (Some created), TxID_Data ''tx2'' (Some updated), Deleted_at_TxID ''tx3''],
               begin_tx ''tx4'' poke1_released_ledger)"
    by (elim exE conjE)
  have "created = pokemon_doc pikachu"
    using c by (simp add: Marshal_Pokemon_doc pikachu_def)
  moreover have "updated = pokemon_doc (pikachu\<lparr>Power := 60, Trainer := ''Misty''\<rparr>)"
    using u by (simp add: Marshal_Pokemon_doc pikachu_def)
  ultimately have 1: "GetHistory (begin_tx ''tx4'' poke1_released_ledger) ''poke1'' =
       (Inr [TxID_Data ''tx1'' (Some (pokemon_doc pikachu)),
             TxID_Data ''tx2'' (Some (pokemon_doc (pikachu\<lparr>Power := 60, Trainer := ''Misty''\<rparr>))),
             Deleted_at_TxID ''tx3''],
        begin_tx ''tx4'' poke1_released_ledger)"
    using g by simp
  show ?thesis
    by (intro conjI h f1 f2 create_poke1 update_poke1 release_poke1 1 inst [THEN conjunct2, THEN conjunct1])
qed

lemma CreateLoanApplication_world:
  "world (snd (CreateLoanApplication ctx k applicant amount term rate)) = world ctx
   \<or> (\<exists>data. Marshal_LoanApplication \<lparr>LoanApplication.ID = k, Applicant = applicant,
          Amount = amount, Term = term, InterestRate = rate, Status = ''Pending''\<rparr> = Inr data
        \<and> world (snd (CreateLoanApplication ctx k applicant amount term rate)) = upsert k data (world ctx))"
  by (auto simp: CreateLoanApplication_def LoanExists_def GetState_def PutState_def Let_def
      split: option.splits sum.splits)

lemma CreatePokemon_world:
  "world (snd (CreatePokemon ctx k name ptype trainer location power')) = world ctx
   \<or> (\<exists>data. Marshal_Pokemon \<lparr>Pokemon.ID = k, Name = name, Type = ptype, Power = power',
          Trainer = trainer, Evolved = False, Location = location\<rparr> = Inr data
        \<and> world (snd (CreatePokemon ctx k name ptype trainer location power')) = upsert k data (world ctx))"
  by (auto simp: CreatePokemon_def PokemonExists_def GetState_def PutState_def Let_def
      split: option.splits sum.splits)

lemma create_loans_pending:
  assumes "\<forall>k data. map_of (world ctx) k = Some data \<longrightarrow>
             (\<exists>loan. Unmarshal_LoanApplication data = Inr loan \<and> Status loan = ''Pending'')"
  shows "\<forall>k data. map_of (world (create_loans ctx calls)) k = Some data \<longrightarrow>
             (\<exists>loan. Unmarshal_LoanApplication data = Inr loan \<and> Status loan = ''Pending'')"
  using assms
proof (induction calls arbitrary: ctx)
  case Nil
  then show ?case by simp
next
  case (Cons call calls)
  obtain txid k applicant amount "term" rate where
    call: "call = (txid, k, applicant, amount, term, rate)"
    by (cases call)
  let ?next = "snd (CreateLoanApplication (begin_tx txid ctx) k applicant amount term rate)"
  have "\<forall>k' data. map_of (world ?next) k' = Some data \<longrightarrow>
             (\<exists>loan. Unmarshal_LoanApplication data = Inr loan \<and> Status loan = ''Pending'')"
    using CreateLoanApplication_world [of "begin_tx txid ctx" k applicant amount "term" rate]
  proof
    assume "world ?next = world (begin_tx txid ctx)"
    then show ?thesis using Cons.prems by simp
  next
    assume "\<exists>data. Marshal_LoanApplication \<lparr>LoanApplication.ID = k, Applicant = applicant,
          Amount = amount, Term = term, InterestRate = rate, Status = ''Pending''\<rparr> = Inr data
        \<and> world ?next = upsert k data (world (begin_tx txid ctx))"
    then obtain data where m: "Marshal_LoanApplication \<lparr>LoanApplication.ID = k, Applicant = applicant,
          Amount = amount, Term = term, InterestRate = rate, Status = ''Pending''\<rparr> = Inr data"
      and w: "world ?next = upsert k data (world ctx)"
      by auto
    show ?thesis
      using Cons.prems Unmarshal_Marshal_LoanApplication [OF m]
      by (auto simp: w map_of_upsert)
  qed
  then show ?case
    using Cons.IH [of ?next] by (simp add: call)
qed

lemma create_pokemons_unevolved:
  assumes "\<forall>k data. map_of (world ctx) k = Some data \<longrightarrow>
             (\<exists>p. Unmarshal_Pokemon data = Inr p \<and> \<not> Evolved p)"
  shows "\<forall>k data. map_of (world (create_pokemons ctx calls)) k = Some data \<longrightarrow>
             (\<exists>p. Unmarshal_Pokemon data = Inr p \<and> \<not> Evolved p)"
  using assms
proof (induction calls arbitrary: ctx)
  case Nil
  then show ?case by simp
next
  case (Cons call calls)
  obtain txid k name ptype trainer location power' where
    call: "call = (txid, k, name, ptype, trainer, location, power')"
    by (cases call)
  let ?next = "snd (CreatePokemon (begin_tx txid ctx) k name ptype trainer location power')"
  have "\<forall>k' data. map_of (world ?next) k' = Some data \<longrightarrow>
             (\<exists>p. Unmarshal_Pokemon data = Inr p \<and> \<not> Evolved p)"
    using CreatePokemon_world [of "begin_tx txid ctx" k name ptype trainer location power']
  proof
    assume "world ?next = world (begin_tx txid ctx)"
    then show ?thesis using Cons.prems by simp
  next
    assume "\<exists>data. Marshal_Pokemon \<lparr>Pokemon.ID = k, Name = name, Type = ptype, Power = power',
          Trainer = trainer, Evolved = False, Location = location\<rparr> = Inr data
        \<and> world ?next = upsert k data (world (begin_tx txid ctx))"
    then obtain data where m: "Marshal_Pokemon \<lparr>Pokemon.ID = k, Name = name, Type = ptype, Power = power',
          Trainer = trainer, Evolved = False, Location = location\<rparr> = Inr data"
      and w: "world ?next = upsert k data (world ctx)"
      by auto
    show ?thesis
      using Cons.prems Unmarshal_Marshal_Pokemon [OF m]
      by (auto simp: w map_of_upsert)
  qed
  then show ?case
    using Cons.IH [of ?next] by (simp add: call)
qed

text \<open>
  Claim C9. After a successful \<open>CreateLoanApplication\<close> the loan read under the key has
  the status "Pending", and after a successful \<open>CreatePokemon\<close> the Pokemon read under
  the key is not evolved, whatever the arguments of the call. In a ledger made from an
  empty world state by create transactions alone, every live document is a loan with
  status "Pending", respectively a Pokemon that is not evolved.
\<close>

theorem C9_created_pending_and_unevolved:
  "(CreateLoanApplication ctx k applicant amount term rate = (Inr (), ctx1) \<longrightarrow>
      (\<exists>loan. ReadLoanApplication ctx1 k = (Inr loan, ctx1) \<and> Status loan = ''Pending''))
   \<and> (CreatePokemon ctx k name ptype trainer location power' = (Inr (), ctx2) \<longrightarrow>
      (\<exists>p. ReadPokemon ctx2 k = (Inr p, ctx2) \<and> \<not> Evolved p))
   \<and> (world ctx = [] \<longrightarrow>
        (\<forall>k' data. GetState (create_loans ctx loan_calls) k' = Inr (Some data) \<longrightarrow>
           (\<exists>loan. Unmarshal_LoanApplication data = Inr loan \<and> Status loan = ''Pending'')))
   \<and> (world ctx = [] \<longrightarrow>
        (\<forall>k' data. GetState (create_pokemons ctx pokemon_calls) k' = Inr (Some data) \<longrightarrow>
           (\<exists>p. Unmarshal_Pokemon data = Inr p \<and> \<not> Evolved p)))"
proof (intro conjI impI allI)
  assume c: "CreateLoanApplication ctx k applicant amount term rate = (Inr (), ctx1)"
  obtain data where g: "GetState ctx k = Inr None"
    and m: "Marshal_LoanApplication \<lparr>LoanApplication.ID = k, Applicant = applicant, Amount = amount,
              Term = term, InterestRate = rate, Status = ''Pending''\<rparr> = Inr data"
    and p: "PutState ctx k data = (Inr (), ctx1)"
    using CreateLoanApplication_Inr [OF c] by blast
  have "GetState ctx1 k = Inr (Some data)"
    using GetState_PutState_same [OF p] g by (simp add: GetState_Inr)
  then have "ReadLoanApplication ctx1 k =
      (Inr (LoanApplication_utf8 \<lparr>LoanApplication.ID = k, Applicant = applicant, Amount = amount,
              Term = term, InterestRate = rate, Status = ''Pending''\<rparr>), ctx1)"
    by (simp add: ReadLoanApplication_def Unmarshal_Marshal_LoanApplication [OF m])
  then show "\<exists>loan. ReadLoanApplication ctx1 k = (Inr loan, ctx1) \<and> Status loan = ''Pending''"
    by simp
next
  assume c: "CreatePokemon ctx k name ptype trainer location power' = (Inr (), ctx2)"
  obtain data where g: "GetState ctx k = Inr None"
    and m: "Marshal_Pokemon \<lparr>Pokemon.ID = k, Name = name, Type = ptype, Power = power',
            Trainer = trainer, Evolved = False, Location = location\<rparr> = Inr data"
    and p: "PutState ctx k data = (Inr (), ctx2)"
    using CreatePokemon_Inr [OF c] by blast
  have "GetState ctx2 k = Inr (Some data)"
    using GetState_PutState_same [OF p] g by (simp add: GetState_Inr)
  then have "ReadPokemon ctx2 k =
      (Inr (Pokemon_utf8 \<lparr>Pokemon.ID = k, Name = name, Type = ptype, Power = power',
            Trainer = trainer, Evolved = False, Location = location\<rparr>), ctx2)"
    by (simp add: ReadPokemon_def Unmarshal_Marshal_Pokemon [OF m])
  then show "\<exists>p. ReadPokemon ctx2 k = (Inr p, ctx2) \<and> \<not> Evolved p"
    by simp
next
  fix k' data
  assume "world ctx = []" and "GetState (create_loans ctx loan_calls) k' = Inr (Some data)"
  then show "\<exists>loan. Unmarshal_LoanApplication data = Inr loan \<and> Status loan = ''Pending''"
    using create_loans_pending [of ctx loan_calls] by (auto simp: GetState_Inr)
next
  fix k' data
  assume "world ctx = []" and "GetState (create_pokemons ctx pokemon_calls) k' = Inr (Some data)"
  then show "\<exists>p. Unmarshal_Pokemon data = Inr p \<and> \<not> Evolved p"
    using create_pokemons_unevolved [of ctx pokemon_calls] by (auto simp: GetState_Inr)
qed

lemma begin_tx_empty_ledger: "begin_tx ''tx0'' empty_ledger = empty_ledger"
  by (simp add: begin_tx_def empty_ledger_def)

lemma create_loans_example:
  "create_loans empty_ledger
     [(''tx0'', ''loan1'', ''Afraz'', 10000, 12, Finite (11 / 2)),
      (''tx1'', ''loan1'', ''Alam'', 5000, 6, Finite (21 / 5))] = begin_tx ''tx1'' loan1_ledger"
proof -
  have "GetState (begin_tx ''tx1'' loan1_ledger) ''loan1'' = Inr (Some (JObject [(''id'', JString ''loan1''), (''applicant'', JString ''Afraz''),
                 (''amount'', JNum 10000), (''term'', JNum 12), (''interestRate'', JNum (11 / 2)),
                 (''status'', JString ''Pending'')]))"
    by (simp add: GetState_loan1_ledger)
  then have "CreateLoanApplication (begin_tx ''tx1'' loan1_ledger) ''loan1'' ''Alam'' 5000 6 (Finite (21 / 5))
      = (Inl (AlreadyExists ''loan1''), begin_tx ''tx1'' loan1_ledger)"
    by (rule CreateLoanApplication_live)
  then show ?thesis
    by (simp add: begin_tx_empty_ledger create_loan1)
qed

lemma create_pokemons_example:
  "create_pokemons empty_ledger
     [(''tx1'', ''poke1'', ''Pikachu'', ''Electric'', ''Ash'', ''Pallet Town'', 55)] = poke1_ledger"
  by (simp add: create_poke1)

theorem C9_created_pending_and_unevolved_witness:
  "CreateLoanApplication empty_ledger ''loan1'' ''Afraz'' 10000 12 (Finite (11 / 2)) = (Inr (), loan1_ledger)
   \<and> (\<exists>loan. ReadLoanApplication loan1_ledger ''loan1'' = (Inr loan, loan1_ledger)
          \<and> Status loan = ''Pending'')
   \<and> CreatePokemon (begin_tx ''tx1'' empty_ledger) ''poke1'' ''Pikachu'' ''Electric'' ''Ash'' ''Pallet Town'' 55
       = (Inr (), poke1_ledger)
   \<and> (\<exists>p. ReadPokemon poke1_ledger ''poke1'' = (Inr p, poke1_ledger) \<and> \<not> Evolved p)
   \<and> world empty_ledger = []
   \<and> GetState (create_loans empty_ledger
         [(''tx0'', ''loan1'', ''Afraz'', 10000, 12, Finite (11 / 2)),
          (''tx1'', ''loan1'', ''Alam'', 5000, 6, Finite (21 / 5))]) ''loan1''
       = Inr (Some (JObject [(''id'', JString ''loan1''), (''applicant'', JString ''Afraz''),
                 (''amount'', JNum 10000), (''term'', JNum 12), (''interestRate'', JNum (11 / 2)),
                 (''status'', JString ''Pending'')]))
   \<and> (\<exists>loan. Unmarshal_LoanApplication (JObject [(''id'', JString ''loan1''), (''applicant'', JString ''Afraz''),
                 (''amount'', JNum 10000), (''term'', JNum 12), (''interestRate'', JNum (11 / 2)),
                 (''status'', JString ''Pending'')]) = Inr loan \<and> Status loan = ''Pending'')
   \<and> GetState (create_pokemons empty_ledger
         [(''tx1'', ''poke1'', ''Pikachu'', ''Electric'', ''Ash'', ''Pallet Town'', 55)]) ''poke1''
       = Inr (Some (pokemon_doc pikachu))
   \<and> (\<exists>p. Unmarshal_Pokemon (pokemon_doc pikachu) = Inr p \<and> \<not> Evolved p)"
proof -
  have w: "world empty_ledger = []" and w1: "world (begin_tx ''tx1'' empty_ledger) = []"
    by (simp_all add: empty_ledger_def begin_tx_def)
  have g1: "GetState (create_loans empty_ledger
         [(''tx0'', ''loan1'', ''Afraz'', 10000, 12, Finite (11 / 2)),
          (''tx1'', ''loan1'', ''Alam'', 5000, 6, Finite (21 / 5))]) ''loan1''
       = Inr (Some (JObject [(''id'', JString ''loan1''), (''applicant'', JString ''Afraz''),
                 (''amount'', JNum 10000), (''term'', JNum 12), (''interestRate'', JNum (11 / 2)),
                 (''status'', JString ''Pending'')]))"
    unfolding create_loans_example by (simp add: GetState_loan1_ledger)
  have g2: "GetState (create_pokemons empty_ledger
         [(''tx1'', ''poke1'', ''Pikachu'', ''Electric'', ''Ash'', ''Pallet Town'', 55)]) ''poke1''
       = Inr (Some (pokemon_doc pikachu))"
    unfolding create_pokemons_example by (simp add: GetState_def poke1_ledger_def)
  note loans = C9_created_pending_and_unevolved [of empty_ledger "''loan1''" "''Afraz''" 10000 12
      "Finite (11 / 2)" loan1_ledger "''Pikachu''" "''Electric''" "''Ash''" "''Pallet Town''" 55 poke1_ledger
      "[(''tx0'', ''loan1'', ''Afraz'', 10000, 12, Finite (11 / 2)),
        (''tx1'', ''loan1'', ''Alam'', 5000, 6, Finite (21 / 5))]"
      "[(''tx1'', ''poke1'', ''Pikachu'', ''Electric'', ''Ash'', ''Pallet Town'', 55)]"]
  note pokemons = C9_created_pending_and_unevolved [of "begin_tx ''tx1'' empty_ledger" "''poke1''" "''Afraz''" 10000 12
      "Finite (11 / 2)" loan1_ledger "''Pikachu''" "''Electric''" "''Ash''" "''Pallet Town''" 55 poke1_ledger]
  note 1 = loans [THEN conjunct1, THEN mp, OF create_loan1]
  note 2 = pokemons [THEN conjunct2, THEN conjunct1, THEN mp, OF create_poke1]
  note 3 = loans [THEN conjunct2, THEN conjunct2, THEN conjunct1, THEN mp, OF w, THEN spec, THEN spec, THEN mp, OF g1]
  note 4 = loans [THEN conjunct2, THEN conjunct2, THEN conjunct2, THEN mp, OF w, THEN spec, THEN spec, THEN mp, OF g2]
  show ?thesis
    by (intro conjI create_loan1 1 create_poke1 2 w g1 3 g2 4)
qed

lemma scenario_world:
  assumes "a \<noteq> b" and "a \<noteq> c" and "b \<noteq> c"
  shows "remove b (upsert c dc (upsert b db (upsert a da []))) =
     (if a < c then [(a, da), (c, dc)] else [(c, dc), (a, da)])"
  using assms by (auto simp: remove_def)

lemma collect_loans_Inr:
  assumes "collect_loans ctx entries acc = Inr loans"
  shows "\<exists>rest. loans = acc @ rest
      \<and> map (\<lambda>kv. Unmarshal_LoanApplication (snd kv)) entries = map Inr rest"
  using assms
proof (induction entries arbitrary: acc)
  case Nil
  then show ?case by simp
next
  case (Cons entry entries)
  from Cons.prems obtain loan where u: "Unmarshal_LoanApplication (snd entry) = Inr loan"
    and rest: "collect_loans ctx entries (acc @ [loan]) = Inr loans"
    by (auto simp: StateIterator_Next_def split: option.splits sum.splits)
  from Cons.IH [OF rest] obtain rest' where "loans = (acc @ [loan]) @ rest'"
    and "map (\<lambda>kv. Unmarshal_LoanApplication (snd kv)) entries = map Inr rest'"
    by blast
  then have "loans = acc @ (loan # rest')
      \<and> map (\<lambda>kv. Unmarshal_LoanApplication (snd kv)) (entry # entries) = map Inr (loan # rest')"
    using u by simp
  then show ?case by blast
qed

lemma collect_identities_Inr:
  assumes "collect_identities ctx entries acc = Inr identities"
  shows "\<exists>rest. identities = acc @ rest
      \<and> map (\<lambda>kv. Unmarshal_Identity (snd kv)) entries = map Inr rest"
  using assms
proof (induction entries arbitrary: acc)
  case Nil
  then show ?case by simp
next
  case (Cons entry entries)
  from Cons.prems obtain identity where u: "Unmarshal_Identity (snd entry) = Inr identity"
    and rest: "collect_identities ctx entries (acc @ [identity]) = Inr identities"
    by (auto simp: StateIterator_Next_def split: option.splits sum.splits)
  from Cons.IH [OF rest] obtain rest' where "identities = (acc @ [identity]) @ rest'"
    and "map (\<lambda>kv. Unmarshal_Identity (snd kv)) entries = map Inr rest'"
    by blast
  then have "identities = acc @ (identity # rest')
      \<and> map (\<lambda>kv. Unmarshal_Identity (snd kv)) (entry # entries) = map Inr (identity # rest')"
    using u by simp
  then show ?case by blast
qed

lemma collect_loans_no_fault:
  assumes "fault ctx = (\<lambda>_. None)"
      and "map (\<lambda>kv. Unmarshal_LoanApplication (snd kv)) entries = map Inr loans"
  shows "collect_loans ctx entries acc = Inr (acc @ loans)"
  using assms(2)
proof (induction entries arbitrary: acc loans)
  case Nil
  then show ?case by simp
next
  case (Cons entry entries)
  then obtain loan rest where l: "loans = loan # rest"
    and u: "Unmarshal_LoanApplication (snd entry) = Inr loan"
    and m: "map (\<lambda>kv. Unmarshal_LoanApplication (snd kv)) entries = map Inr rest"
    by (cases loans) auto
  show ?case
    using Cons.IH [OF m, of "acc @ [loan]"] u assms(1)
    by (simp add: StateIterator_Next_def l)
qed

lemma collect_identities_no_fault:
  assumes "fault ctx = (\<lambda>_. None)"
      and "map (\<lambda>kv. Unmarshal_Identity (snd kv)) entries = map Inr identities"
  shows "collect_identities ctx entries acc = Inr (acc @ identities)"
  using assms(2)
proof (induction entries arbitrary: acc identities)
  case Nil
  then show ?case by simp
next
  case (Cons entry entries)
  then obtain identity rest where l: "identities = identity # rest"
    and u: "Unmarshal_Identity (snd entry) = Inr identity"
    and m: "map (\<lambda>kv. Unmarshal_Identity (snd kv)) entries = map Inr rest"
    by (cases identities) auto
  show ?case
    using Cons.IH [OF m, of "acc @ [identity]"] u assms(1)
    by (simp add: StateIterator_Next_def l)
qed

lemma GetAllLoanApplications_Inr:
  assumes "GetAllLoanApplications ctx = (Inr loans, ctx')"
  shows "ctx' = ctx \<and> map (\<lambda>kv. Unmarshal_LoanApplication (snd kv)) (world ctx) = map Inr loans"
proof -
  from assms have c: "ctx' = ctx" and "collect_loans ctx (world ctx) [] = Inr loans"
    by (auto simp: GetAllLoanApplications_def GetStateByRange_def split: option.splits sum.splits)
  then show ?thesis
    using collect_loans_Inr [of ctx "world ctx" "[]" loans] by auto
qed

lemma GetAllIdentities_Inr:
  assumes "GetAllIdentities ctx = (Inr identities, ctx')"
  shows "ctx' = ctx \<and> map (\<lambda>kv. Unmarshal_Identity (snd kv)) (world ctx) = map Inr identities"
proof -
  from assms have c: "ctx' = ctx" and "collect_identities ctx (world ctx) [] = Inr identities"
    by (auto simp: GetAllIdentities_def GetStateByRange_def split: option.splits sum.splits)
  then show ?thesis
    using collect_identities_Inr [of ctx "world ctx" "[]" identities] by auto
qed

lemma GetAllLoanApplications_no_fault:
  assumes "fault ctx = (\<lambda>_. None)"
      and "map (\<lambda>kv. Unmarshal_LoanApplication (snd kv)) (world ctx) = map Inr loans"
  shows "GetAllLoanApplications ctx = (Inr loans, ctx)"
  using assms collect_loans_no_fault [OF assms, of "[]"]
  by (simp add: GetAllLoanApplications_def GetStateByRange_def)

lemma GetAllIdentities_no_fault:
  assumes "fault ctx = (\<lambda>_. None)"
      and "map (\<lambda>kv. Unmarshal_Identity (snd kv)) (world ctx) = map Inr identities"
  shows "GetAllIdentities ctx = (Inr identities, ctx)"
  using assms collect_identities_no_fault [OF assms, of "[]"]
  by (simp add: GetAllIdentities_def GetStateByRange_def)

lemma CreateLoanApplication_no_fault:
  assumes "fault ctx = (\<lambda>_. None)" and "map_of (world ctx) k = None"
  shows "\<exists>ctx' data. CreateLoanApplication ctx k applicant amount term (Finite q) = (Inr (), ctx')
      \<and> Marshal_LoanApplication \<lparr>LoanApplication.ID = k, Applicant = applicant, Amount = amount,
           Term = term, InterestRate = Finite q, Status = ''Pending''\<rparr> = Inr data
      \<and> fault ctx' = (\<lambda>_. None) \<and> world ctx' = upsert k data (world ctx)"
  using assms
  by (simp add: CreateLoanApplication_def LoanExists_def GetState_def Marshal_LoanApplication_def
      encode_float_def PutState_def)

lemma CreateIdentity_no_fault:
  assumes "fault ctx = (\<lambda>_. None)" and "map_of (world ctx) k = None"
  shows "\<exists>ctx' data. CreateIdentity ctx k title firstName lastName cnic dob gender mobile = (Inr (), ctx')
      \<and> Marshal_Identity (Identity_zero\<lparr>Identity.ID := k, Title := title, FirstName := firstName,
            LastName := lastName, CNIC := cnic, DateOfBirth := dob, Gender := gender,
            MobileNumber := mobile\<rparr>) = Inr data
      \<and> fault ctx' = (\<lambda>_. None) \<and> world ctx' = upsert k data (world ctx)"
  using assms
  by (simp add: CreateIdentity_def IdentityExists_def GetState_def Marshal_Identity_def
      Identity_zero_def PutState_def)

lemma DeleteLoanApplication_no_fault:
  assumes "fault ctx = (\<lambda>_. None)" and "map_of (world ctx) k = Some v"
  shows "\<exists>ctx'. DeleteLoanApplication ctx k = (Inr (), ctx')
      \<and> fault ctx' = (\<lambda>_. None) \<and> world ctx' = remove k (world ctx)"
  using assms
  by (simp add: DeleteLoanApplication_def LoanExists_def GetState_def DelState_def)

lemma DeleteIdentity_no_fault:
  assumes "fault ctx = (\<lambda>_. None)" and "map_of (world ctx) k = Some v"
  shows "\<exists>ctx'. DeleteIdentity ctx k = (Inr (), ctx')
      \<and> fault ctx' = (\<lambda>_. None) \<and> world ctx' = remove k (world ctx)"
  using assms
  by (simp add: DeleteIdentity_def IdentityExists_def GetState_def DelState_def)

lemma Identity_utf8_created:
  assumes "list_all valid_utf8 [k, title, firstName, lastName, cnic, dob, gender, mobile]"
  shows "Identity_utf8 (Identity_zero\<lparr>Identity.ID := k, Title := title, FirstName := firstName,
            LastName := lastName, CNIC := cnic, DateOfBirth := dob, Gender := gender,
            MobileNumber := mobile\<rparr>)
       = Identity_zero\<lparr>Identity.ID := k, Title := title, FirstName := firstName,
            LastName := lastName, CNIC := cnic, DateOfBirth := dob, Gender := gender,
            MobileNumber := mobile\<rparr>"
  using assms by (simp add: Identity_utf8_def Identity_zero_def valid_utf8_coerce)

lemma LoanApplication_utf8_created:
  assumes "valid_utf8 k" and "valid_utf8 applicant"
  shows "LoanApplication_utf8 \<lparr>LoanApplication.ID = k, Applicant = applicant, Amount = amount,
            Term = term, InterestRate = rate, Status = ''Pending''\<rparr>
       = \<lparr>LoanApplication.ID = k, Applicant = applicant, Amount = amount,
            Term = term, InterestRate = rate, Status = ''Pending''\<rparr>"
  using assms by (simp add: LoanApplication_utf8_def valid_utf8_coerce)

lemma loans_scenario:
  assumes "world ctx = []" and "fault ctx = (\<lambda>_. None)"
      and "a \<noteq> b" and "a \<noteq> c" and "b \<noteq> c"
  shows "\<exists>ctx1 ctx2 ctx3 ctx4.
        CreateLoanApplication ctx a applicant_a amount_a term_a (Finite rate_a) = (Inr (), ctx1)
      \<and> CreateLoanApplication ctx1 b applicant_b amount_b term_b (Finite rate_b) = (Inr (), ctx2)
      \<and> CreateLoanApplication ctx2 c applicant_c amount_c term_c (Finite rate_c) = (Inr (), ctx3)
      \<and> DeleteLoanApplication ctx3 b = (Inr (), ctx4)
      \<and> GetAllLoanApplications ctx4 =
          (Inr (map LoanApplication_utf8
                 (if a < c
                  then [\<lparr>LoanApplication.ID = a, Applicant = applicant_a, Amount = amount_a,
                        Term = term_a, InterestRate = Finite rate_a, Status = ''Pending''\<rparr>,
                        \<lparr>LoanApplication.ID = c, Applicant = applicant_c, Amount = amount_c,
                        Term = term_c, InterestRate = Finite rate_c, Status = ''Pending''\<rparr>]
                  else [\<lparr>LoanApplication.ID = c, Applicant = applicant_c, Amount = amount_c,
                        Term = term_c, InterestRate = Finite rate_c, Status = ''Pending''\<rparr>,
                        \<lparr>LoanApplication.ID = a, Applicant = applicant_a, Amount = amount_a,
                        Term = term_a, InterestRate = Finite rate_a, Status = ''Pending''\<rparr>])),
           ctx4)
      \<and> (valid_utf8 a \<and> valid_utf8 applicant_a \<and> valid_utf8 c \<and> valid_utf8 applicant_c \<longrightarrow>
          GetAllLoanApplications ctx4 =
            (Inr (if a < c
                  then [\<lparr>LoanApplication.ID = a, Applicant = applicant_a, Amount = amount_a,
                        Term = term_a, InterestRate = Finite rate_a, Status = ''Pending''\<rparr>,
                        \<lparr>LoanApplication.ID = c, Applicant = applicant_c, Amount = amount_c,
                        Term = term_c, InterestRate = Finite rate_c, Status = ''Pending''\<rparr>]
                  else [\<lparr>LoanApplication.ID = c, Applicant = applicant_c, Amount = amount_c,
                        Term = term_c, InterestRate = Finite rate_c, Status = ''Pending''\<rparr>,
                        \<lparr>LoanApplication.ID = a, Applicant = applicant_a, Amount = amount_a,
                        Term = term_a, InterestRate = Finite rate_a, Status = ''Pending''\<rparr>]),
             ctx4))"
proof -
  let ?la = "\<lparr>LoanApplication.ID = a, Applicant = applicant_a, Amount = amount_a,
                Term = term_a, InterestRate = Finite rate_a, Status = ''Pending''\<rparr>"
  let ?lb = "\<lparr>LoanApplication.ID = b, Applicant = applicant_b, Amount = amount_b,
                Term = term_b, InterestRate = Finite rate_b, Status = ''Pending''\<rparr>"
  let ?lc = "\<lparr>LoanApplication.ID = c, Applicant = applicant_c, Amount = amount_c,
                Term = term_c, InterestRate = Finite rate_c, Status = ''Pending''\<rparr>"
  have "map_of (world ctx) a = None"
    by (simp add: assms(1))
  from CreateLoanApplication_no_fault [OF assms(2) this]
  obtain ctx1 da where c1: "CreateLoanApplication ctx a applicant_a amount_a term_a (Finite rate_a) = (Inr (), ctx1)"
    and ma: "Marshal_LoanApplication ?la = Inr da"
    and f1: "fault ctx1 = (\<lambda>_. None)" and w1: "world ctx1 = upsert a da (world ctx)"
    by blast
  have "map_of (world ctx1) b = None"
    using assms by (simp add: w1 map_of_upsert)
  from CreateLoanApplication_no_fault [OF f1 this]
  obtain ctx2 db where c2: "CreateLoanApplication ctx1 b applicant_b amount_b term_b (Finite rate_b) = (Inr (), ctx2)"
    and mb: "Marshal_LoanApplication ?lb = Inr db"
    and f2: "fault ctx2 = (\<lambda>_. None)" and w2: "world ctx2 = upsert b db (world ctx1)"
    by blast
  have "map_of (world ctx2) c = None"
    using assms by (simp add: w2 w1 map_of_upsert)
  from CreateLoanApplication_no_fault [OF f2 this]
  obtain ctx3 dc where c3: "CreateLoanApplication ctx2 c applicant_c amount_c term_c (Finite rate_c) = (Inr (), ctx3)"
    and mc: "Marshal_LoanApplication ?lc = Inr dc"
    and f3: "fault ctx3 = (\<lambda>_. None)" and w3: "world ctx3 = upsert c dc (world ctx2)"
    by blast
  have "map_of (world ctx3) b = Some db"
    using assms by (simp add: w3 w2 map_of_upsert)
  from DeleteLoanApplication_no_fault [OF f3 this]
  obtain ctx4 where d4: "DeleteLoanApplication ctx3 b = (Inr (), ctx4)"
    and f4: "fault ctx4 = (\<lambda>_. None)" and w4: "world ctx4 = remove b (world ctx3)"
    by blast
  have w: "world ctx4 = (if a < c then [(a, da), (c, dc)] else [(c, dc), (a, da)])"
    unfolding w4 w3 w2 w1 assms(1) by (rule scenario_world [OF assms(3-5)])
  have "map (\<lambda>kv. Unmarshal_LoanApplication (snd kv)) (world ctx4)
      = map Inr (map LoanApplication_utf8 (if a < c then [?la, ?lc] else [?lc, ?la]))"
    by (simp add: w Unmarshal_Marshal_LoanApplication [OF ma] Unmarshal_Marshal_LoanApplication [OF mc])
  then have g: "GetAllLoanApplications ctx4 =
      (Inr (map LoanApplication_utf8 (if a < c then [?la, ?lc] else [?lc, ?la])), ctx4)"
    by (rule GetAllLoanApplications_no_fault [OF f4])
  have v: "valid_utf8 a \<and> valid_utf8 applicant_a \<and> valid_utf8 c \<and> valid_utf8 applicant_c \<longrightarrow>
      GetAllLoanApplications ctx4 = (Inr (if a < c then [?la, ?lc] else [?lc, ?la]), ctx4)"
    unfolding g by (simp add: LoanApplication_utf8_created)
  from c1 c2 c3 d4 g v show ?thesis
    by (intro exI conjI)
qed

lemma identities_scenario:
  assumes "world ctx = []" and "fault ctx = (\<lambda>_. None)"
      and "a \<noteq> b" and "a \<noteq> c" and "b \<noteq> c"
  shows "\<exists>ctx1 ctx2 ctx3 ctx4.
        CreateIdentity ctx a title firstName lastName cnic dob gender mobile = (Inr (), ctx1)
      \<and> CreateIdentity ctx1 b title firstName lastName cnic dob gender mobile = (Inr (), ctx2)
      \<and> CreateIdentity ctx2 c title firstName lastName cnic dob gender mobile = (Inr (), ctx3)
      \<and> DeleteIdentity ctx3 b = (Inr (), ctx4)
      \<and> GetAllIdentities ctx4 =
          (Inr (map Identity_utf8
                 (map (\<lambda>k. Identity_zero\<lparr>Identity.ID := k, Title := title, FirstName := firstName,
                          LastName := lastName, CNIC := cnic, DateOfBirth := dob, Gender := gender,
                          MobileNumber := mobile\<rparr>)
                    (if a < c then [a, c] else [c, a]))),
           ctx4)
      \<and> (list_all valid_utf8 [a, c, title, firstName, lastName, cnic, dob, gender, mobile] \<longrightarrow>
          GetAllIdentities ctx4 =
            (Inr (map (\<lambda>k. Identity_zero\<lparr>Identity.ID := k, Title := title, FirstName := firstName,
                          LastName := lastName, CNIC := cnic, DateOfBirth := dob, Gender := gender,
                          MobileNumber := mobile\<rparr>)
                    (if a < c then [a, c] else [c, a])),
             ctx4))"
proof -
  let ?i = "\<lambda>k. Identity_zero\<lparr>Identity.ID := k, Title := title, FirstName := firstName,
                          LastName := lastName, CNIC := cnic, DateOfBirth := dob, Gender := gender,
                          MobileNumber := mobile\<rparr>"
  have "map_of (world ctx) a = None"
    by (simp add: assms(1))
  from CreateIdentity_no_fault [OF assms(2) this]
  obtain ctx1 da where c1: "CreateIdentity ctx a title firstName lastName cnic dob gender mobile = (Inr (), ctx1)"
    and ma: "Marshal_Identity (?i a) = Inr da"
    and f1: "fault ctx1 = (\<lambda>_. None)" and w1: "world ctx1 = upsert a da (world ctx)"
    by blast
  have "map_of (world ctx1) b = None"
    using assms by (simp add: w1 map_of_upsert)
  from CreateIdentity_no_fault [OF f1 this]
  obtain ctx2 db where c2: "CreateIdentity ctx1 b title firstName lastName cnic dob gender mobile = (Inr (), ctx2)"
    and mb: "Marshal_Identity (?i b) = Inr db"
    and f2: "fault ctx2 = (\<lambda>_. None)" and w2: "world ctx2 = upsert b db (world ctx1)"
    by blast
  have "map_of (world ctx2) c = None"
    using assms by (simp add: w2 w1 map_of_upsert)
  from CreateIdentity_no_fault [OF f2 this]
  obtain ctx3 dc where c3: "CreateIdentity ctx2 c title firstName lastName cnic dob gender mobile = (Inr (), ctx3)"
    and mc: "Marshal_Identity (?i c) = Inr dc"
    and f3: "fault ctx3 = (\<lambda>_. None)" and w3: "world ctx3 = upsert c dc (world ctx2)"
    by blast
  have "map_of (world ctx3) b = Some db"
    using assms by (simp add: w3 w2 map_of_upsert)
  from DeleteIdentity_no_fault [OF f3 this]
  obtain ctx4 where d4: "DeleteIdentity ctx3 b = (Inr (), ctx4)"
    and f4: "fault ctx4 = (\<lambda>_. None)" and w4: "world ctx4 = remove b (world ctx3)"
    by blast
  have w: "world ctx4 = (if a < c then [(a, da), (c, dc)] else [(c, dc), (a, da)])"
    unfolding w4 w3 w2 w1 assms(1) by (rule scenario_world [OF assms(3-5)])
  have "map (\<lambda>kv. Unmarshal_Identity (snd kv)) (world ctx4)
      = map Inr (map Identity_utf8 (map ?i (if a < c then [a, c] else [c, a])))"
    by (simp add: w Unmarshal_Marshal_Identity [OF ma] Unmarshal_Marshal_Identity [OF mc])
  then have g: "GetAllIdentities ctx4 =
      (Inr (map Identity_utf8 (map ?i (if a < c then [a, c] else [c, a]))), ctx4)"
    by (rule GetAllIdentities_no_fault [OF f4])
  have v: "list_all valid_utf8 [a, c, title, firstName, lastName, cnic, dob, gender, mobile] \<longrightarrow>
      GetAllIdentities ctx4 = (Inr (map ?i (if a < c then [a, c] else [c, a])), ctx4)"
    unfolding g by (simp add: Identity_utf8_created)
  from c1 c2 c3 d4 g v show ?thesis
    by (intro exI conjI)
qed

lemma keys_upsert: "set (map fst (upsert k v kvs)) = insert k (set (map fst kvs))"
proof (induction kvs)
  case Nil
  show ?case by simp
next
  case (Cons kv kvs)
  obtain k' v' where kv: "kv = (k', v')" by (cases kv)
  show ?case
    using Cons.IH by (cases "k = k'"; cases "k < k'") (simp_all add: kv insert_commute)
qed

lemma sorted_upsert:
  assumes "sorted_wrt (<) (map fst kvs)"
  shows "sorted_wrt (<) (map fst (upsert k v kvs))"
  using assms
proof (induction kvs)
  case Nil
  show ?case by simp
next
  case (Cons kv kvs)
  obtain k' v' where kv: "kv = (k', v')" by (cases kv)
  from Cons.prems have tail: "sorted_wrt (<) (map fst kvs)"
    and head: "\<forall>x \<in> set (map fst kvs). k' < x"
    by (simp_all add: kv)
  show ?case
  proof (cases "k = k'")
    case True
    then show ?thesis using Cons.prems by (simp add: kv)
  next
    case False
    show ?thesis
    proof (cases "k < k'")
      case True
      then have "\<forall>x \<in> set (map fst kvs). k < x"
        using head by (meson less_trans)
      then show ?thesis
        using True False Cons.prems by (simp add: kv)
    next
      case ge: False
      then have "k' < k" using False by simp
      then have "\<forall>x \<in> set (map fst (upsert k v kvs)). k' < x"
        using head unfolding keys_upsert by simp
      then show ?thesis
        using ge False Cons.IH [OF tail] by (simp add: kv)
    qed
  qed
qed

lemma sorted_remove:
  assumes "sorted_wrt (<) (map fst kvs)"
  shows "sorted_wrt (<) (map fst (remove k kvs))"
  using assms
proof (induction kvs)
  case Nil
  show ?case by (simp add: remove_def)
next
  case (Cons kv kvs)
  then show ?case
    by (cases "fst kv = k") (simp_all add: remove_def)
qed

lemma live_keys_card:
  fixes kvs :: "(string \<times> bytes) list"
  assumes "sorted_wrt (<) (map fst kvs)"
  shows "card (dom (map_of kvs)) = length kvs"
proof -
  have d: "distinct (map fst kvs)"
    using assms by (simp add: strict_sorted_iff)
  have "dom (map_of kvs) = set (map fst kvs)"
    by (simp add: dom_map_of_conv_image_fst)
  then show ?thesis
    using distinct_card [OF d] by simp
qed

lemma sorted_world_PutState:
  assumes "PutState ctx k data = (r, ctx')" and "sorted_wrt (<) (map fst (world ctx))"
  shows "sorted_wrt (<) (map fst (world ctx'))"
  using assms by (auto simp: PutState_def sorted_upsert split: option.splits)

lemma sorted_world_DelState:
  assumes "DelState ctx k = (r, ctx')" and "sorted_wrt (<) (map fst (world ctx))"
  shows "sorted_wrt (<) (map fst (world ctx'))"
  using assms by (auto simp: DelState_def sorted_remove split: option.splits)

text \<open>
  Claim C6. \<open>GetAllLoanApplications\<close> and \<open>GetAllIdentities\<close> return the records of
  the live entries, one for each entry of the world state in the order of the scan; in
  a world state with ascending keys, as \<open>PutState\<close> and \<open>DelState\<close> keep it, these are
  as many records as there are live keys. In a ledger without faults and without
  entries, after the creation of three different keys \<open>a\<close>, \<open>b\<close> and \<open>c\<close> and the
  deletion of \<open>b\<close>, all of which succeed, the result is exactly the two records created
  for \<open>a\<close> and \<open>c\<close>, in the order of their keys, with their strings as they come back
  from JSON; when the strings of the calls are valid UTF-8, these are the records as
  they were created.
\<close>

theorem C6_list_all_live_records:
  assumes "world ctx = []" and "fault ctx = (\<lambda>_. None)"
      and "a \<noteq> b" and "a \<noteq> c" and "b \<noteq> c"
  shows "(\<exists>ctx1 ctx2 ctx3 ctx4.
        CreateLoanApplication ctx a applicant_a amount_a term_a (Finite rate_a) = (Inr (), ctx1)
      \<and> CreateLoanApplication ctx1 b applicant_b amount_b term_b (Finite rate_b) = (Inr (), ctx2)
      \<and> CreateLoanApplication ctx2 c applicant_c amount_c term_c (Finite rate_c) = (Inr (), ctx3)
      \<and> DeleteLoanApplication ctx3 b = (Inr (), ctx4)
      \<and> GetAllLoanApplications ctx4 =
          (Inr (map LoanApplication_utf8
                 (if a < c
                  then [\<lparr>LoanApplication.ID = a, Applicant = applicant_a, Amount = amount_a,
                        Term = term_a, InterestRate = Finite rate_a, Status = ''Pending''\<rparr>,
                        \<lparr>LoanApplication.ID = c, Applicant = applicant_c, Amount = amount_c,
                        Term = term_c, InterestRate = Finite rate_c, Status = ''Pending''\<rparr>]
                  else [\<lparr>LoanApplication.ID = c, Applicant = applicant_c, Amount = amount_c,
                        Term = term_c, InterestRate = Finite rate_c, Status = ''Pending''\<rparr>,
                        \<lparr>LoanApplication.ID = a, Applicant = applicant_a, Amount = amount_a,
                        Term = term_a, InterestRate = Finite rate_a, Status = ''Pending''\<rparr>])),
           ctx4)
      \<and> (valid_utf8 a \<and> valid_utf8 applicant_a \<and> valid_utf8 c \<and> valid_utf8 applicant_c \<longrightarrow>
          GetAllLoanApplications ctx4 =
            (Inr (if a < c
                  then [\<lparr>LoanApplication.ID = a, Applicant = applicant_a, Amount = amount_a,
                        Term = term_a, InterestRate = Finite rate_a, Status = ''Pending''\<rparr>,
                        \<lparr>LoanApplication.ID = c, Applicant = applicant_c, Amount = amount_c,
                        Term = term_c, InterestRate = Finite rate_c, Status = ''Pending''\<rparr>]
                  else [\<lparr>LoanApplication.ID = c, Applicant = applicant_c, Amount = amount_c,
                        Term = term_c, InterestRate = Finite rate_c, Status = ''Pending''\<rparr>,
                        \<lparr>LoanApplication.ID = a, Applicant = applicant_a, Amount = amount_a,
                        Term = term_a, InterestRate = Finite rate_a, Status = ''Pending''\<rparr>]),
             ctx4)))
   \<and> (\<exists>ctx1 ctx2 ctx3 ctx4.
        CreateIdentity ctx a title firstName lastName cnic dob gender mobile = (Inr (), ctx1)
      \<and> CreateIdentity ctx1 b title firstName lastName cnic dob gender mobile = (Inr (), ctx2)
      \<and> CreateIdentity ctx2 c title firstName lastName cnic dob gender mobile = (Inr (), ctx3)
      \<and> DeleteIdentity ctx3 b = (Inr (), ctx4)
      \<and> GetAllIdentities ctx4 =
          (Inr (map Identity_utf8
                 (map (\<lambda>k. Identity_zero\<lparr>Identity.ID := k, Title := title, FirstName := firstName,
                          LastName := lastName, CNIC := cnic, DateOfBirth := dob, Gender := gender,
                          MobileNumber := mobile\<rparr>)
                    (if a < c then [a, c] else [c, a]))),
           ctx4)
      \<and> (list_all valid_utf8 [a, c, title, firstName, lastName, cnic, dob, gender, mobile] \<longrightarrow>
          GetAllIdentities ctx4 =
            (Inr (map (\<lambda>k. Identity_zero\<lparr>Identity.ID := k, Title := title, FirstName := firstName,
                          LastName := lastName, CNIC := cnic, DateOfBirth := dob, Gender := gender,
                          MobileNumber := mobile\<rparr>)
                    (if a < c then [a, c] else [c, a])),
             ctx4)))
   \<and> (\<forall>g loans g'. GetAllLoanApplications g = (Inr loans, g') \<longrightarrow>
          g' = g
        \<and> map (\<lambda>kv. Unmarshal_LoanApplication (snd kv)) (world g) = map Inr loans
        \<and> (sorted_wrt (<) (map fst (world g)) \<longrightarrow> length loans = card (dom (map_of (world g)))))
   \<and> (\<forall>g identities g'. GetAllIdentities g = (Inr identities, g') \<longrightarrow>
          g' = g
        \<and> map (\<lambda>kv. Unmarshal_Identity (snd kv)) (world g) = map Inr identities
        \<and> (sorted_wrt (<) (map fst (world g)) \<longrightarrow> length identities = card (dom (map_of (world g)))))"
proof (intro conjI allI impI)
  show "\<exists>ctx1 ctx2 ctx3 ctx4.
        CreateLoanApplication ctx a applicant_a amount_a term_a (Finite rate_a) = (Inr (), ctx1)
      \<and> CreateLoanApplication ctx1 b applicant_b amount_b term_b (Finite rate_b) = (Inr (), ctx2)
      \<and> CreateLoanApplication ctx2 c applicant_c amount_c term_c (Finite rate_c) = (Inr (), ctx3)
      \<and> DeleteLoanApplication ctx3 b = (Inr (), ctx4)
      \<and> GetAllLoanApplications ctx4 =
          (Inr (map LoanApplication_utf8
                 (if a < c
                  then [\<lparr>LoanApplication.ID = a, Applicant = applicant_a, Amount = amount_a,
                        Term = term_a, InterestRate = Finite rate_a, Status = ''Pending''\<rparr>,
                        \<lparr>LoanApplication.ID = c, Applicant = applicant_c, Amount = amount_c,
                        Term = term_c, InterestRate = Finite rate_c, Status = ''Pending''\<rparr>]
                  else [\<lparr>LoanApplication.ID = c, Applicant = applicant_c, Amount = amount_c,
                        Term = term_c, InterestRate = Finite rate_c, Status = ''Pending''\<rparr>,
                        \<lparr>LoanApplication.ID = a, Applicant = applicant_a, Amount = amount_a,
                        Term = term_a, InterestRate = Finite rate_a, Status = ''Pending''\<rparr>])),
           ctx4)
      \<and> (valid_utf8 a \<and> valid_utf8 applicant_a \<and> valid_utf8 c \<and> valid_utf8 applicant_c \<longrightarrow>
          GetAllLoanApplications ctx4 =
            (Inr (if a < c
                  then [\<lparr>LoanApplication.ID = a, Applicant = applicant_a, Amount = amount_a,
                        Term = term_a, InterestRate = Finite rate_a, Status = ''Pending''\<rparr>,
                        \<lparr>LoanApplication.ID = c, Applicant = applicant_c, Amount = amount_c,
                        Term = term_c, InterestRate = Finite rate_c, Status = ''Pending''\<rparr>]
                  else [\<lparr>LoanApplication.ID = c, Applicant = applicant_c, Amount = amount_c,
                        Term = term_c, InterestRate = Finite rate_c, Status = ''Pending''\<rparr>,
                        \<lparr>LoanApplication.ID = a, Applicant = applicant_a, Amount = amount_a,
                        Term = term_a, InterestRate = Finite rate_a, Status = ''Pending''\<rparr>]),
             ctx4))"
    by (rule loans_scenario [OF assms])
next
  show "\<exists>ctx1 ctx2 ctx3 ctx4.
        CreateIdentity ctx a title firstName lastName cnic dob gender mobile = (Inr (), ctx1)
      \<and> CreateIdentity ctx1 b title firstName lastName cnic dob gender mobile = (Inr (), ctx2)
      \<and> CreateIdentity ctx2 c title firstName lastName cnic dob gender mobile = (Inr (), ctx3)
      \<and> DeleteIdentity ctx3 b = (Inr (), ctx4)
      \<and> GetAllIdentities ctx4 =
          (Inr (map Identity_utf8
                 (map (\<lambda>k. Identity_zero\<lparr>Identity.ID := k, Title := title, FirstName := firstName,
                          LastName := lastName, CNIC := cnic, DateOfBirth := dob, Gender := gender,
                          MobileNumber := mobile\<rparr>)
                    (if a < c then [a, c] else [c, a]))),
           ctx4)
      \<and> (list_all valid_utf8 [a, c, title, firstName, lastName, cnic, dob, gender, mobile] \<longrightarrow>
          GetAllIdentities ctx4 =
            (Inr (map (\<lambda>k. Identity_zero\<lparr>Identity.ID := k, Title := title, FirstName := firstName,
                          LastName := lastName, CNIC := cnic, DateOfBirth := dob, Gender := gender,
                          MobileNumber := mobile\<rparr>)
                    (if a < c then [a, c] else [c, a])),
             ctx4))"
    by (rule identities_scenario [OF assms])
next
  fix g g' :: stub and loans
  assume r: "GetAllLoanApplications g = (Inr loans, g')"
  show "g' = g"
    and m: "map (\<lambda>kv. Unmarshal_LoanApplication (snd kv)) (world g) = map Inr loans"
    using GetAllLoanApplications_Inr [OF r] by simp_all
  assume "sorted_wrt (<) (map fst (world g))"
  then have "card (dom (map_of (world g))) = length (world g)"
    by (rule live_keys_card)
  also have "\<dots> = length loans"
    using arg_cong [OF m, of length] by simp
  finally show "length loans = card (dom (map_of (world g)))"
    by simp
next
  fix g g' :: stub and identities
  assume r: "GetAllIdentities g = (Inr identities, g')"
  show "g' = g"
    and m: "map (\<lambda>kv. Unmarshal_Identity (snd kv)) (world g) = map Inr identities"
    using GetAllIdentities_Inr [OF r] by simp_all
  assume "sorted_wrt (<) (map fst (world g))"
  then have "card (dom (map_of (world g))) = length (world g)"
    by (rule live_keys_card)
  also have "\<dots> = length identities"
    using arg_cong [OF m, of length] by simp
  finally show "length identities = card (dom (map_of (world g)))"
    by simp
qed

lemma key_a_before_c: "(''a'' < ''c'') = True"
  by simp

theorem C6_list_all_live_records_witness:
  "world empty_ledger = []
   \<and> fault empty_ledger = (\<lambda>_. None)
   \<and> ''a'' \<noteq> ''b'' \<and> ''a'' \<noteq> ''c'' \<and> ''b'' \<noteq> ''c''
   \<and> (valid_utf8 ''a'' \<and> valid_utf8 ''Afraz'' \<and> valid_utf8 ''c'' \<and> valid_utf8 ''Khan'')
   \<and> list_all valid_utf8 [''a'', ''c'', ''Mr.'', ''John'', ''Doe'', ''12345-6789012-3'',
         ''01-01-1980'', ''Male'', ''03001234567'']
   \<and> (\<exists>ctx1 ctx2 ctx3 ctx4.
        CreateLoanApplication empty_ledger ''a'' ''Afraz'' 10000 12 (Finite (11 / 2)) = (Inr (), ctx1)
      \<and> CreateLoanApplication ctx1 ''b'' ''Alam'' 5000 6 (Finite (21 / 5)) = (Inr (), ctx2)
      \<and> CreateLoanApplication ctx2 ''c'' ''Khan'' 700 3 (Finite 3) = (Inr (), ctx3)
      \<and> DeleteLoanApplication ctx3 ''b'' = (Inr (), ctx4)
      \<and> GetAllLoanApplications ctx4 =
          (Inr [\<lparr>LoanApplication.ID = ''a'', Applicant = ''Afraz'', Amount = 10000,
                  Term = 12, InterestRate = Finite (11 / 2), Status = ''Pending''\<rparr>,
                \<lparr>LoanApplication.ID = ''c'', Applicant = ''Khan'', Amount = 700,
                  Term = 3, InterestRate = Finite 3, Status = ''Pending''\<rparr>],
           ctx4))
   \<and> (\<exists>ctx1 ctx2 ctx3 ctx4.
        CreateIdentity empty_ledger ''a'' ''Mr.'' ''John'' ''Doe'' ''12345-6789012-3'' ''01-01-1980'' ''Male'' ''03001234567'' = (Inr (), ctx1)
      \<and> CreateIdentity ctx1 ''b'' ''Mr.'' ''John'' ''Doe'' ''12345-6789012-3'' ''01-01-1980'' ''Male'' ''03001234567'' = (Inr (), ctx2)
      \<and> CreateIdentity ctx2 ''c'' ''Mr.'' ''John'' ''Doe'' ''12345-6789012-3'' ''01-01-1980'' ''Male'' ''03001234567'' = (Inr (), ctx3)
      \<and> DeleteIdentity ctx3 ''b'' = (Inr (), ctx4)
      \<and> GetAllIdentities ctx4 =
          (Inr (map (\<lambda>k. Identity_zero\<lparr>Identity.ID := k, Title := ''Mr.'', FirstName := ''John'',
                          LastName := ''Doe'', CNIC := ''12345-6789012-3'', DateOfBirth := ''01-01-1980'',
                          Gender := ''Male'', MobileNumber := ''03001234567''\<rparr>)
                  [''a'', ''c'']),
           ctx4))"
proof -
  have w: "world empty_ledger = []" and f: "fault empty_ledger = (\<lambda>_. None)"
    by (simp_all add: empty_ledger_def)
  have ab: "''a'' \<noteq> ''b''" and ac: "''a'' \<noteq> ''c''" and bc: "''b'' \<noteq> ''c''"
    by simp_all
  have vl: "valid_utf8 ''a'' \<and> valid_utf8 ''Afraz'' \<and> valid_utf8 ''c'' \<and> valid_utf8 ''Khan''"
    by (simp add: ascii_valid)
  have vi: "list_all valid_utf8 [''a'', ''c'', ''Mr.'', ''John'', ''Doe'', ''12345-6789012-3'',
         ''01-01-1980'', ''Male'', ''03001234567'']"
    by (simp add: ascii_valid)
  note inst = C6_list_all_live_records [OF w f ab ac bc,
      of "''Afraz''" 10000 12 "11 / 2" "''Alam''" 5000 6 "21 / 5" "''Khan''" 700 3 3
         "''Mr.''" "''John''" "''Doe''" "''12345-6789012-3''" "''01-01-1980''" "''Male''" "''03001234567''"]
  note loans = inst [THEN conjunct1, unfolded key_a_before_c if_True]
  note identities = inst [THEN conjunct2, THEN conjunct1, unfolded key_a_before_c if_True]
  have l: "\<exists>ctx1 ctx2 ctx3 ctx4.
        CreateLoanApplication empty_ledger ''a'' ''Afraz'' 10000 12 (Finite (11 / 2)) = (Inr (), ctx1)
      \<and> CreateLoanApplication ctx1 ''b'' ''Alam'' 5000 6 (Finite (21 / 5)) = (Inr (), ctx2)
      \<and> CreateLoanApplication ctx2 ''c'' ''Khan'' 700 3 (Finite 3) = (Inr (), ctx3)
      \<and> DeleteLoanApplication ctx3 ''b'' = (Inr (), ctx4)
      \<and> GetAllLoanApplications ctx4 =
          (Inr [\<lparr>LoanApplication.ID = ''a'', Applicant = ''Afraz'', Amount = 10000,
                  Term = 12, InterestRate = Finite (11 / 2), Status = ''Pending''\<rparr>,
                \<lparr>LoanApplication.ID = ''c'', Applicant = ''Khan'', Amount = 700,
                  Term = 3, InterestRate = Finite 3, Status = ''Pending''\<rparr>],
           ctx4)"
  proof -
    from loans obtain ctx1 ctx2 ctx3 ctx4 where
      1: "CreateLoanApplication empty_ledger ''a'' ''Afraz'' 10000 12 (Finite (11 / 2)) = (Inr (), ctx1)"
      and 2: "CreateLoanApplication ctx1 ''b'' ''Alam'' 5000 6 (Finite (21 / 5)) = (Inr (), ctx2)"
      and 3: "CreateLoanApplication ctx2 ''c'' ''Khan'' 700 3 (Finite 3) = (Inr (), ctx3)"
      and 4: "DeleteLoanApplication ctx3 ''b'' = (Inr (), ctx4)"
      and 5: "valid_utf8 ''a'' \<and> valid_utf8 ''Afraz'' \<and> valid_utf8 ''c'' \<and> valid_utf8 ''Khan'' \<longrightarrow>
          GetAllLoanApplications ctx4 =
          (Inr [\<lparr>LoanApplication.ID = ''a'', Applicant = ''Afraz'', Amount = 10000,
                  Term = 12, InterestRate = Finite (11 / 2), Status = ''Pending''\<rparr>,
                \<lparr>LoanApplication.ID = ''c'', Applicant = ''Khan'', Amount = 700,
                  Term = 3, InterestRate = Finite 3, Status = ''Pending''\<rparr>],
           ctx4)"
      by (elim exE conjE)
    from 1 2 3 4 5 [THEN mp, OF vl] show ?thesis
      by (intro exI conjI)
  qed
  have i: "\<exists>ctx1 ctx2 ctx3 ctx4.
        CreateIdentity empty_ledger ''a'' ''Mr.'' ''John'' ''Doe'' ''12345-6789012-3'' ''01-01-1980'' ''Male'' ''03001234567'' = (Inr (), ctx1)
      \<and> CreateIdentity ctx1 ''b'' ''Mr.'' ''John'' ''Doe'' ''12345-6789012-3'' ''01-01-1980'' ''Male'' ''03001234567'' = (Inr (), ctx2)
      \<and> CreateIdentity ctx2 ''c'' ''Mr.'' ''John'' ''Doe'' ''12345-6789012-3'' ''01-01-1980'' ''Male'' ''03001234567'' = (Inr (), ctx3)
      \<and> DeleteIdentity ctx3 ''b'' = (Inr (), ctx4)
      \<and> GetAllIdentities ctx4 =
          (Inr (map (\<lambda>k. Identity_zero\<lparr>Identity.ID := k, Title := ''Mr.'', FirstName := ''John'',
                          LastName := ''Doe'', CNIC := ''12345-6789012-3'', DateOfBirth := ''01-01-1980'',
                          Gender := ''Male'', MobileNumber := ''03001234567''\<rparr>)
                  [''a'', ''c'']),
           ctx4)"
  proof -
    from identities obtain ctx1 ctx2 ctx3 ctx4 where
      1: "CreateIdentity empty_ledger ''a'' ''Mr.'' ''John'' ''Doe'' ''12345-6789012-3'' ''01-01-1980'' ''Male'' ''03001234567'' = (Inr (), ctx1)"
      and 2: "CreateIdentity ctx1 ''b'' ''Mr.'' ''John'' ''Doe'' ''12345-6789012-3'' ''01-01-1980'' ''Male'' ''03001234567'' = (Inr (), ctx2)"
      and 3: "CreateIdentity ctx2 ''c'' ''Mr.'' ''John'' ''Doe'' ''12345-6789012-3'' ''01-01-1980'' ''Male'' ''03001234567'' = (Inr (), ctx3)"
      and 4: "DeleteIdentity ctx3 ''b'' = (Inr (), ctx4)"
      and 5: "list_all valid_utf8 [''a'', ''c'', ''Mr.'', ''John'', ''Doe'', ''12345-6789012-3'',
         ''01-01-1980'', ''Male'', ''03001234567''] \<longrightarrow>
          GetAllIdentities ctx4 =
          (Inr (map (\<lambda>k. Identity_zero\<lparr>Identity.ID := k, Title := ''Mr.'', FirstName := ''John'',
                          LastName := ''Doe'', CNIC := ''12345-6789012-3'', DateOfBirth := ''01-01-1980'',
                          Gender := ''Male'', MobileNumber := ''03001234567''\<rparr>)
                  [''a'', ''c'']),
           ctx4)"
      by (elim exE conjE)
    from 1 2 3 4 5 [THEN mp, OF vi] show ?thesis
      by (intro exI conjI)
  qed
  show ?thesis
    by (intro conjI w f ab ac bc vl [THEN conjunct1] vl [THEN conjunct2, THEN conjunct1]
        vl [THEN conjunct2, THEN conjunct2, THEN conjunct1]
        vl [THEN conjunct2, THEN conjunct2, THEN conjunct2] vi l i)
qed

end
